theory Spec2Isabelle
  imports Main
begin

text \<open>
  A model of the Azure DevOps MCP server: the Backend Client
  (\<open>server/src/azure-devops-client.ts\<close>) and, from \<open>server/src/index.ts\<close>, the tool
  registry, the handler of tool calls and the HTTP endpoint \<open>POST /api/tools/:name\<close>
  with the rendering chain it shares with \<open>POST /api/chat\<close>. Definitions come first,
  the properties of the model after them.

  The backend is a function from requests to answers, so that a request has the same
  answer each time it is sent; a client method yields the requests it sent and its
  outcome. Whatever the source throws is the \<open>Inl\<close> side of an outcome. Console output
  and request headers are left out.
\<close>

section \<open>JavaScript values and the expressions the server uses\<close>

text \<open>
  Tool arguments, backend responses and result payloads are JSON data handled as
  untyped JavaScript values. Numbers are restricted to integers; an object is the list of
  its own properties in insertion order. A string is the list of its characters.
\<close>

datatype jv =
    Undefined
  | Null
  | Bool bool
  | Num int
  | Str string
  | Arr "jv list"
  | Obj "(string \<times> jv) list"

text \<open>
  What a computation can throw: a \<open>TypeError\<close> raised by the engine, an \<open>Error\<close> thrown
  by the server itself (\<open>throw new Error(msg)\<close>), and the two ways an axios request
  fails: with a response carrying a status code, or without any response.
\<close>

datatype js_error =
    TypeError string
  | Error string
  | HttpError nat
  | NetworkError string

definition ebind :: "js_error + 'a \<Rightarrow> ('a \<Rightarrow> js_error + 'b) \<Rightarrow> js_error + 'b" where
  "ebind m f = (case m of Inl e \<Rightarrow> Inl e | Inr v \<Rightarrow> f v)"

subsection \<open>Conversions\<close>

definition digit_char :: "nat \<Rightarrow> char" where
  "digit_char d = ''0123456789'' ! d"

fun digits_of :: "nat \<Rightarrow> string" where
  "digits_of n = (if n < 10 then [digit_char n]
                  else digits_of (n div 10) @ [digit_char (n mod 10)])"

declare digits_of.simps [simp del]

definition string_of_int :: "int \<Rightarrow> string" where
  "string_of_int i = (if i < 0 then CHR ''-'' # digits_of (nat (- i)) else digits_of (nat i))"

text \<open>\<open>xs.join(sep)\<close> on strings that are already converted.\<close>

fun join :: "string \<Rightarrow> string list \<Rightarrow> string" where
  "join sep [] = []"
| "join sep [x] = x"
| "join sep (x # y # ys) = x @ sep @ join sep (y # ys)"

text \<open>
  \<open>ToString\<close>, as applied by \<open>${...}\<close> in a template literal. An array is joined with
  commas, and inside a join \<open>undefined\<close> and \<open>null\<close> elements give the empty string.
\<close>

fun to_str :: "jv \<Rightarrow> string" where
  "to_str Undefined = ''undefined''"
| "to_str Null = ''null''"
| "to_str (Bool b) = (if b then ''true'' else ''false'')"
| "to_str (Num i) = string_of_int i"
| "to_str (Str s) = s"
| "to_str (Arr xs) =
     join '','' (map (\<lambda>x. if x = Undefined \<or> x = Null then [] else to_str x) xs)"
| "to_str (Obj kvs) = ''[object Object]''"

definition join_elem :: "jv \<Rightarrow> string" where
  "join_elem x = (if x = Undefined \<or> x = Null then [] else to_str x)"

text \<open>\<open>!!v\<close>: the falsy values are \<open>undefined\<close>, \<open>null\<close>, \<open>false\<close>, \<open>0\<close> and \<open>''\<close>.\<close>

fun truthy :: "jv \<Rightarrow> bool" where
  "truthy Undefined = False"
| "truthy Null = False"
| "truthy (Bool b) = b"
| "truthy (Num i) = (i \<noteq> 0)"
| "truthy (Str s) = (s \<noteq> [])"
| "truthy (Arr xs) = True"
| "truthy (Obj kvs) = True"

definition nullish :: "jv \<Rightarrow> bool" where
  "nullish v = (v = Undefined \<or> v = Null)"

subsection \<open>Property access\<close>

text \<open>
  \<open>v.k\<close> and \<open>v[k]\<close> for the property names the server reads (none of them is a
  method of a built-in prototype): reading a property of \<open>undefined\<close> or \<open>null\<close> throws,
  a missing property is \<open>undefined\<close>, arrays and strings have a \<open>length\<close>.
\<close>

definition cannot_read :: "jv \<Rightarrow> string \<Rightarrow> js_error" where
  "cannot_read v k =
     TypeError (''Cannot read properties of '' @ to_str v @ '' (reading '' @ [CHR 0x27] @ k @ [CHR 0x27] @ '')'')"

fun get_prop :: "jv \<Rightarrow> string \<Rightarrow> js_error + jv" where
  "get_prop Undefined k = Inl (cannot_read Undefined k)"
| "get_prop Null k = Inl (cannot_read Null k)"
| "get_prop (Obj kvs) k = Inr (case map_of kvs k of None \<Rightarrow> Undefined | Some v \<Rightarrow> v)"
| "get_prop (Arr xs) k = Inr (if k = ''length'' then Num (int (length xs)) else Undefined)"
| "get_prop (Str s) k = Inr (if k = ''length'' then Num (int (length s)) else Undefined)"
| "get_prop (Bool b) k = Inr Undefined"
| "get_prop (Num i) k = Inr Undefined"

text \<open>\<open>v[0]\<close>: the first element of an array, the first character of a string.\<close>

fun get_index0 :: "jv \<Rightarrow> js_error + jv" where
  "get_index0 Undefined = Inl (cannot_read Undefined ''0'')"
| "get_index0 Null = Inl (cannot_read Null ''0'')"
| "get_index0 (Arr xs) = Inr (case xs of [] \<Rightarrow> Undefined | x # _ \<Rightarrow> x)"
| "get_index0 (Str s) = Inr (case s of [] \<Rightarrow> Undefined | c # _ \<Rightarrow> Str [c])"
| "get_index0 (Obj kvs) = Inr (case map_of kvs ''0'' of None \<Rightarrow> Undefined | Some v \<Rightarrow> v)"
| "get_index0 (Bool b) = Inr Undefined"
| "get_index0 (Num i) = Inr Undefined"

text \<open>
  The expression forms of the source, on computations that may already have thrown:
  \<open>e.k\<close>, \<open>e?.k\<close>, \<open>e?.[0]\<close>, \<open>e || d\<close>, \<open>e ? a : b\<close>.
\<close>

definition val :: "jv \<Rightarrow> js_error + jv" where
  "val v = Inr v"

definition dot :: "js_error + jv \<Rightarrow> string \<Rightarrow> js_error + jv" where
  "dot e k = ebind e (\<lambda>v. get_prop v k)"

definition qdot :: "js_error + jv \<Rightarrow> string \<Rightarrow> js_error + jv" where
  "qdot e k = ebind e (\<lambda>v. if nullish v then Inr Undefined else get_prop v k)"

definition qindex0 :: "js_error + jv \<Rightarrow> js_error + jv" where
  "qindex0 e = ebind e (\<lambda>v. if nullish v then Inr Undefined else get_index0 v)"

definition orv :: "js_error + jv \<Rightarrow> js_error + jv \<Rightarrow> js_error + jv" where
  "orv e d = ebind e (\<lambda>v. if truthy v then Inr v else d)"

definition cond :: "js_error + jv \<Rightarrow> js_error + jv \<Rightarrow> js_error + jv \<Rightarrow> js_error + jv" where
  "cond e a b = ebind e (\<lambda>v. if truthy v then a else b)"

definition estr :: "string \<Rightarrow> js_error + jv" where
  "estr s = Inr (Str s)"

text \<open>
  Method calls. \<open>e.substring(0, 8)\<close> and \<open>e?.substring(0, 8)\<close> work on strings only;
  the callee is missing on every other value, and the call throws.
\<close>

definition not_a_function :: "string \<Rightarrow> js_error" where
  "not_a_function callee = TypeError (callee @ '' is not a function'')"

definition substring8 :: "string \<Rightarrow> js_error + jv \<Rightarrow> js_error + jv" where
  "substring8 callee e = ebind e (\<lambda>v. case v of
       Undefined \<Rightarrow> Inl (cannot_read Undefined ''substring'')
     | Null \<Rightarrow> Inl (cannot_read Null ''substring'')
     | Str s \<Rightarrow> Inr (Str (take 8 s))
     | _ \<Rightarrow> Inl (not_a_function callee))"

definition qsubstring8 :: "string \<Rightarrow> js_error + jv \<Rightarrow> js_error + jv" where
  "qsubstring8 callee e = ebind e (\<lambda>v. case v of
       Undefined \<Rightarrow> Inr Undefined
     | Null \<Rightarrow> Inr Undefined
     | Str s \<Rightarrow> Inr (Str (take 8 s))
     | _ \<Rightarrow> Inl (not_a_function callee))"

text \<open>\<open>xs.map(f)\<close> with a callback that may throw: the first failing element ends the loop.\<close>

fun traverse :: "('a \<Rightarrow> js_error + 'b) \<Rightarrow> 'a list \<Rightarrow> js_error + 'b list" where
  "traverse f [] = Inr []"
| "traverse f (x # xs) =
     (case f x of Inl e \<Rightarrow> Inl e
      | Inr y \<Rightarrow> (case traverse f xs of Inl e \<Rightarrow> Inl e | Inr ys \<Rightarrow> Inr (y # ys)))"

definition js_map :: "string \<Rightarrow> (jv \<Rightarrow> js_error + 'b) \<Rightarrow> jv \<Rightarrow> js_error + 'b list" where
  "js_map callee f v = (case v of
       Undefined \<Rightarrow> Inl (cannot_read Undefined ''map'')
     | Null \<Rightarrow> Inl (cannot_read Null ''map'')
     | Arr xs \<Rightarrow> traverse f xs
     | _ \<Rightarrow> Inl (not_a_function callee))"

text \<open>
  A template literal is a sequence of literal chunks and interpolations, evaluated left
  to right.
\<close>

definition lit :: "string \<Rightarrow> js_error + string" where
  "lit s = Inr s"

definition interp :: "js_error + jv \<Rightarrow> js_error + string" where
  "interp e = ebind e (\<lambda>v. Inr (to_str v))"

definition template :: "(js_error + string) list \<Rightarrow> js_error + string" where
  "template ps = ebind (traverse id ps) (\<lambda>ss. Inr (concat ss))"

section \<open>The tool registry\<close>

text \<open>
  One descriptor per entry of the array \<open>tools\<close>, in the order of the source: the name,
  the parameters declared under \<open>inputSchema.properties\<close>, and the list
  \<open>inputSchema.required\<close> (empty where the schema has none). Descriptions are free text
  and left out.
\<close>

record tool_descriptor =
  name :: string
  properties :: "string list"
  required :: "string list"

definition tools :: "tool_descriptor list" where
  "tools = [
   \<lparr>name = ''list_projects'', properties = [], required = []\<rparr>,
   \<lparr>name = ''list_project_teams'', properties = [''project'', ''mine'', ''top'', ''skip''], required = [''project'']\<rparr>,
   \<lparr>name = ''get_identity_ids'', properties = [''searchFilter''], required = [''searchFilter'']\<rparr>,
   \<lparr>name = ''query_work_items'', properties = [''wiql''], required = [''wiql'']\<rparr>,
   \<lparr>name = ''get_work_items_by_ids'', properties = [''ids''], required = [''ids'']\<rparr>,
   \<lparr>name = ''get_builds'', properties = [''definitionId'', ''top''], required = []\<rparr>,
   \<lparr>name = ''get_releases'', properties = [''top''], required = []\<rparr>,
   \<lparr>name = ''create_work_item'', properties = [''workItemType'', ''title'', ''description'', ''additionalFields''], required = [''workItemType'', ''title'']\<rparr>,
   \<lparr>name = ''update_work_item'', properties = [''id'', ''fields'', ''comment''], required = [''id'', ''fields'']\<rparr>,
   \<lparr>name = ''assign_work_item'', properties = [''id'', ''assignee'', ''comment''], required = [''id'', ''assignee'']\<rparr>,
   \<lparr>name = ''list_repositories'', properties = [''project''], required = []\<rparr>,
   \<lparr>name = ''list_branches'', properties = [''repositoryId'', ''project''], required = [''repositoryId'']\<rparr>,
   \<lparr>name = ''list_pull_requests'', properties = [''repositoryId'', ''project'', ''top'', ''status''], required = []\<rparr>,
   \<lparr>name = ''get_pull_request'', properties = [''repositoryId'', ''pullRequestId'', ''project''], required = [''repositoryId'', ''pullRequestId'']\<rparr>,
   \<lparr>name = ''search_code'', properties = [''searchText'', ''project'', ''repository'', ''top''], required = [''searchText'']\<rparr>,
   \<lparr>name = ''search_work_items'', properties = [''searchText'', ''project'', ''top''], required = [''searchText'']\<rparr>,
   \<lparr>name = ''list_wikis'', properties = [''project''], required = []\<rparr>,
   \<lparr>name = ''get_wiki_page'', properties = [''wikiIdentifier'', ''project'', ''path''], required = [''wikiIdentifier'']\<rparr>,
   \<lparr>name = ''list_team_iterations'', properties = [''project'', ''team''], required = [''project'', ''team'']\<rparr>,
   \<lparr>name = ''list_test_plans'', properties = [''project''], required = [''project'']\<rparr>,
   \<lparr>name = ''get_current_user'', properties = [], required = []\<rparr>,
   \<lparr>name = ''list_work_item_types'', properties = [''project''], required = []\<rparr>,
   \<lparr>name = ''list_iterations'', properties = [''project''], required = []\<rparr>,
   \<lparr>name = ''list_build_definitions'', properties = [''project''], required = []\<rparr>,
   \<lparr>name = ''list_release_definitions'', properties = [''project''], required = []\<rparr>,
   \<lparr>name = ''list_queries'', properties = [''project''], required = []\<rparr>,
   \<lparr>name = ''get_work_item_revisions'', properties = [''id'', ''project''], required = [''id'']\<rparr>,
   \<lparr>name = ''get_work_item_links'', properties = [''id'', ''project''], required = [''id'']\<rparr>,
   \<lparr>name = ''create_pull_request'', properties = [''repositoryId'', ''sourceBranch'', ''targetBranch'', ''title'', ''description'', ''project''], required = [''repositoryId'', ''sourceBranch'', ''targetBranch'', ''title'']\<rparr>,
   \<lparr>name = ''list_commits'', properties = [''repositoryId'', ''project'', ''top''], required = [''repositoryId'']\<rparr>,
   \<lparr>name = ''get_file_content'', properties = [''repositoryId'', ''path'', ''project''], required = [''repositoryId'', ''path'']\<rparr>,
   \<lparr>name = ''list_areas'', properties = [''project''], required = []\<rparr>,
   \<lparr>name = ''list_iteration_capacities'', properties = [''project'', ''team'', ''iterationId''], required = [''project'', ''team'', ''iterationId'']\<rparr>,
   \<lparr>name = ''list_work_item_categories'', properties = [''project''], required = []\<rparr>,
   \<lparr>name = ''list_dashboards'', properties = [''project''], required = []\<rparr>,
   \<lparr>name = ''list_pipelines'', properties = [''project''], required = []\<rparr>,
   \<lparr>name = ''list_test_suites'', properties = [''project'', ''planId''], required = [''project'', ''planId'']\<rparr>,
   \<lparr>name = ''list_variable_groups'', properties = [''project''], required = []\<rparr>,
   \<lparr>name = ''list_service_endpoints'', properties = [''project''], required = []\<rparr>,
   \<lparr>name = ''list_tags'', properties = [''project''], required = []\<rparr>,
   \<lparr>name = ''list_team_members'', properties = [''project'', ''team''], required = [''project'', ''team'']\<rparr>,
   \<lparr>name = ''list_boards'', properties = [''project'', ''team''], required = [''project'', ''team'']\<rparr>,
   \<lparr>name = ''list_board_columns'', properties = [''project'', ''team'', ''board''], required = [''project'', ''team'', ''board'']\<rparr>,
   \<lparr>name = ''list_board_rows'', properties = [''project'', ''team'', ''board''], required = [''project'', ''team'', ''board'']\<rparr>,
   \<lparr>name = ''list_work_item_states'', properties = [''project'', ''workItemType''], required = [''project'', ''workItemType'']\<rparr>,
   \<lparr>name = ''list_work_item_fields'', properties = [''project''], required = []\<rparr>,
   \<lparr>name = ''list_work_item_updates'', properties = [''id'', ''project''], required = [''id'']\<rparr>,
   \<lparr>name = ''list_work_item_attachments'', properties = [''id'', ''project''], required = [''id'']\<rparr>,
   \<lparr>name = ''list_work_item_comments'', properties = [''id'', ''project''], required = [''id'']\<rparr>,
   \<lparr>name = ''list_work_item_relations'', properties = [''id'', ''project''], required = [''id'']\<rparr>,
   \<lparr>name = ''list_work_item_query_results'', properties = [''project'', ''queryId''], required = [''project'', ''queryId'']\<rparr>]"

definition tool_names :: "string list" where
  "tool_names = map name tools"

text \<open>
  The labels of the \<open>switch (name)\<close> in the handler of \<open>CallToolRequestSchema\<close>, in the
  order of the source. A name the dispatcher can route is one of these labels; every other
  name reaches \<open>default\<close>.
\<close>

definition dispatcher_cases :: "string list" where
  "dispatcher_cases = [
   ''list_projects'', ''query_work_items'', ''get_work_items_by_ids'', ''get_builds'',
   ''get_releases'', ''create_work_item'', ''update_work_item'', ''assign_work_item'',
   ''list_repositories'', ''list_branches'', ''list_pull_requests'', ''get_pull_request'',
   ''search_code'', ''search_work_items'', ''list_wikis'', ''get_wiki_page'',
   ''list_team_iterations'', ''list_test_plans'', ''list_project_teams'', ''get_identity_ids'',
   ''get_current_user'', ''list_work_item_types'', ''list_iterations'',
   ''list_build_definitions'', ''list_release_definitions'', ''list_queries'',
   ''get_work_item_revisions'', ''get_work_item_links'', ''create_pull_request'',
   ''list_commits'', ''get_file_content'', ''list_areas'', ''list_iteration_capacities'',
   ''list_work_item_categories'', ''list_dashboards'', ''list_pipelines'', ''list_test_suites'',
   ''list_variable_groups'', ''list_service_endpoints'', ''list_tags'', ''list_team_members'',
   ''list_boards'', ''list_board_columns'', ''list_board_rows'', ''list_work_item_states'',
   ''list_work_item_fields'', ''list_work_item_updates'', ''list_work_item_attachments'',
   ''list_work_item_comments'', ''list_work_item_relations'', ''list_work_item_query_results'']"

section \<open>The Backend Client\<close>

text \<open>
  A request as a client method hands it to axios: the verb, the URL as written in the
  method (relative to the base URL of the organization, or absolute), and the body.
  Headers are left out. The backend is a function from requests to \<open>response.data\<close> or
  to the error axios rejects with. A client method returns the requests it has sent, in
  order, together with its outcome: a value, or what it throws.
\<close>

datatype request =
    Get string
  | Post string jv
  | Patch string jv

type_synonym backend = "request \<Rightarrow> js_error + jv"

type_synonym 'a io = "request list \<times> (js_error + 'a)"

definition send :: "backend \<Rightarrow> request \<Rightarrow> jv io" where
  "send be rq = ([rq], be rq)"

definition io_lift :: "js_error + 'a \<Rightarrow> 'a io" where
  "io_lift r = ([], r)"

definition io_bind :: "'a io \<Rightarrow> ('a \<Rightarrow> 'b io) \<Rightarrow> 'b io" where
  "io_bind m f = (case m of
       (tr, Inl e) \<Rightarrow> (tr, Inl e)
     | (tr, Inr v) \<Rightarrow> (case f v of (tr', r) \<Rightarrow> (tr @ tr', r)))"

text \<open>\<open>const response = await axios(...); return response.data.k;\<close>\<close>

definition fetch_prop :: "backend \<Rightarrow> request \<Rightarrow> string \<Rightarrow> jv io" where
  "fetch_prop be rq k = io_bind (send be rq) (\<lambda>data. io_lift (get_prop data k))"

text \<open>\<open>const response = await axios(...); return response.data.k || [];\<close>\<close>

definition fetch_prop_or_empty :: "backend \<Rightarrow> request \<Rightarrow> string \<Rightarrow> jv io" where
  "fetch_prop_or_empty be rq k =
     io_bind (send be rq) (\<lambda>data. io_lift (orv (get_prop data k) (val (Arr []))))"

text \<open>
  \<open>try { ... } catch (error) { if (error.response?.status === 404) return []; throw error; }\<close>
  Only an axios error with a response has a status.
\<close>

definition or_empty_on_404 :: "jv io \<Rightarrow> jv io" where
  "or_empty_on_404 m = (case m of
       (tr, Inl e) \<Rightarrow> (if e = HttpError 404 then (tr, Inr (Arr [])) else (tr, Inl e))
     | (tr, Inr v) \<Rightarrow> (tr, Inr v))"

text \<open>
  The connection context fixed by the constructor, and the two platform encoders the
  client calls: \<open>encodeURIComponent\<close> and the serialisation of a \<open>URLSearchParams\<close>.
\<close>

record client =
  organization :: string
  this_project :: string
  encodeURIComponent :: "string \<Rightarrow> string"
  urlSearchParams :: "(string \<times> string) list \<Rightarrow> string"

text \<open>\<open>project || this.project\<close>\<close>

definition proj_of :: "client \<Rightarrow> jv \<Rightarrow> jv" where
  "proj_of c project = (if truthy project then project else Str (this_project c))"

text \<open>A parameter with a default value takes it when the argument is \<open>undefined\<close>.\<close>

definition default_param :: "jv \<Rightarrow> jv \<Rightarrow> jv" where
  "default_param v d = (if v = Undefined then d else v)"

text \<open>\<open>xs.join(sep)\<close> on a value: defined on arrays only.\<close>

definition js_join :: "string \<Rightarrow> string \<Rightarrow> jv \<Rightarrow> js_error + string" where
  "js_join callee sep v = (case v of
       Undefined \<Rightarrow> Inl (cannot_read Undefined ''join'')
     | Null \<Rightarrow> Inl (cannot_read Null ''join'')
     | Arr xs \<Rightarrow> Inr (join sep (map join_elem xs))
     | _ \<Rightarrow> Inl (not_a_function callee))"

text \<open>
  \<open>Object.entries(v)\<close>: the own properties of an object, the indexed elements of an
  array or a string, nothing for a number or a boolean; it throws on \<open>undefined\<close> and
  \<open>null\<close>. Spreading a value into an object literal copies the same properties and
  ignores \<open>undefined\<close> and \<open>null\<close>. Property lists are taken in the order given; the
  engine's reordering of integer-like keys is not modelled.
\<close>

fun own_entries :: "jv \<Rightarrow> (string \<times> jv) list" where
  "own_entries (Obj kvs) = kvs"
| "own_entries (Arr xs) = zip (map (\<lambda>i. digits_of i) [0..<length xs]) xs"
| "own_entries (Str s) = zip (map (\<lambda>i. digits_of i) [0..<length s]) (map (\<lambda>ch. Str [ch]) s)"
| "own_entries v = []"

definition object_entries :: "jv \<Rightarrow> js_error + (string \<times> jv) list" where
  "object_entries v = (if nullish v then Inl (TypeError ''Cannot convert undefined or null to object'')
                       else Inr (own_entries v))"

fun set_prop :: "string \<Rightarrow> jv \<Rightarrow> (string \<times> jv) list \<Rightarrow> (string \<times> jv) list" where
  "set_prop k v [] = [(k, v)]"
| "set_prop k v (p # ps) = (if fst p = k then (k, v) # ps else p # set_prop k v ps)"

definition spread :: "(string \<times> jv) list \<Rightarrow> jv \<Rightarrow> (string \<times> jv) list" where
  "spread kvs v = foldl (\<lambda>acc p. set_prop (fst p) (snd p) acc) kvs (own_entries v)"

definition patch_op :: "string \<times> jv \<Rightarrow> jv" where
  "patch_op p = Obj [(''op'', Str ''add''), (''path'', Str (''/fields/'' @ fst p)), (''value'', snd p)]"

subsection \<open>Projects, work items, builds, releases\<close>

definition getProjects :: "backend \<Rightarrow> client \<Rightarrow> jv io" where
  "getProjects be c = fetch_prop be (Get ''/_apis/projects?api-version=7.1'') ''value''"

definition getWorkItems :: "backend \<Rightarrow> client \<Rightarrow> jv \<Rightarrow> jv io" where
  "getWorkItems be c ids =
     (case get_prop ids ''length'' of
        Inl e \<Rightarrow> ([], Inl e)
      | Inr n \<Rightarrow>
          if n = Num 0 then ([], Inr (Arr []))
          else (case js_join ''ids.join'' '','' ids of
                  Inl e \<Rightarrow> ([], Inl e)
                | Inr idsString \<Rightarrow>
                    fetch_prop be
                      (Get (''/'' @ this_project c @ ''/_apis/wit/workitems?ids='' @ idsString
                            @ ''&api-version=7.1''))
                      ''value''))"

definition queryWorkItems :: "backend \<Rightarrow> client \<Rightarrow> jv \<Rightarrow> jv io" where
  "queryWorkItems be c wiql =
     io_bind
       (fetch_prop be
          (Post (''/'' @ this_project c @ ''/_apis/wit/wiql?api-version=7.1'') (Obj [(''query'', wiql)]))
          ''workItems'')
       (\<lambda>workItemRefs.
          if \<not> truthy workItemRefs \<or> get_prop workItemRefs ''length'' = Inr (Num 0)
          then ([], Inr (Arr []))
          else (case js_map ''workItemRefs.map'' (\<lambda>wi. get_prop wi ''id'') workItemRefs of
                  Inl e \<Rightarrow> ([], Inl e)
                | Inr ids \<Rightarrow> getWorkItems be c (Arr ids)))"

definition getBuilds :: "backend \<Rightarrow> client \<Rightarrow> jv \<Rightarrow> jv \<Rightarrow> jv io" where
  "getBuilds be c definitionId tp =
     (let topv = default_param tp (Num 10);
          url = ''/'' @ this_project c @ ''/_apis/build/builds?api-version=7.1&$top='' @ to_str topv;
          url' = (if truthy definitionId then url @ ''&definitions='' @ to_str definitionId else url)
      in fetch_prop be (Get url') ''value'')"

definition getReleases :: "backend \<Rightarrow> client \<Rightarrow> jv \<Rightarrow> jv io" where
  "getReleases be c tp =
     (let topv = default_param tp (Num 10)
      in fetch_prop be
           (Get (''/'' @ this_project c @ ''/_apis/release/releases?api-version=7.1&$top='' @ to_str topv))
           ''value'')"

definition getCurrentUser :: "backend \<Rightarrow> client \<Rightarrow> jv io" where
  "getCurrentUser be c = fetch_prop be (Get ''/_apis/connectionData'') ''authenticatedUser''"

definition createWorkItem :: "backend \<Rightarrow> client \<Rightarrow> jv \<Rightarrow> jv \<Rightarrow> jv \<Rightarrow> jv \<Rightarrow> jv io" where
  "createWorkItem be c workItemType title description additionalFields =
     (let url = ''/'' @ this_project c @ ''/_apis/wit/workitems/$'' @ to_str workItemType
                @ ''?api-version=7.1'';
          fields0 = [(''System.Title'', title)];
          fields1 = (if truthy description
                     then spread fields0 (Obj [(''System.Description'', description)])
                     else spread fields0 description);
          allFields = spread fields1 additionalFields;
          patchDocument = map patch_op allFields
      in send be (Post url (Arr patchDocument)))"

definition updateWorkItem :: "backend \<Rightarrow> client \<Rightarrow> jv \<Rightarrow> jv \<Rightarrow> jv \<Rightarrow> jv io" where
  "updateWorkItem be c ident flds comment =
     (let url = ''/'' @ this_project c @ ''/_apis/wit/workitems/'' @ to_str ident @ ''?api-version=7.1''
      in case object_entries flds of
           Inl e \<Rightarrow> ([], Inl e)
         | Inr es \<Rightarrow>
             (let patchDocument = map patch_op es;
                  patchDocument' = (if truthy comment
                                    then patchDocument @ [patch_op (''System.History'', comment)]
                                    else patchDocument)
              in send be (Patch url (Arr patchDocument'))))"

definition assignWorkItem :: "backend \<Rightarrow> client \<Rightarrow> jv \<Rightarrow> jv \<Rightarrow> jv \<Rightarrow> jv io" where
  "assignWorkItem be c ident assignee comment =
     updateWorkItem be c ident (Obj [(''System.AssignedTo'', assignee)]) comment"

subsection \<open>Repositories, pull requests, search\<close>

definition getRepositories :: "backend \<Rightarrow> client \<Rightarrow> jv \<Rightarrow> jv io" where
  "getRepositories be c project =
     (let proj = proj_of c project
      in fetch_prop be (Get (''/'' @ to_str proj @ ''/_apis/git/repositories?api-version=7.1'')) ''value'')"

text \<open>\<open>s.replace('refs/heads/', '')\<close>: the first occurrence of the pattern is removed.\<close>

fun remove_first :: "string \<Rightarrow> string \<Rightarrow> string" where
  "remove_first pat [] = []"
| "remove_first pat (ch # s) =
     (if take (length pat) (ch # s) = pat then drop (length pat) (ch # s)
      else ch # remove_first pat s)"

definition branch_of_ref :: "jv \<Rightarrow> js_error + jv" where
  "branch_of_ref ref =
     ebind (get_prop ref ''name'') (\<lambda>n.
       ebind (case n of
                Undefined \<Rightarrow> Inl (cannot_read Undefined ''replace'')
              | Null \<Rightarrow> Inl (cannot_read Null ''replace'')
              | Str s \<Rightarrow> Inr (Str (remove_first ''refs/heads/'' s))
              | _ \<Rightarrow> Inl (not_a_function ''ref.name.replace''))
         (\<lambda>n'. ebind (get_prop ref ''objectId'') (\<lambda>oid.
            ebind (get_prop ref ''creator'') (\<lambda>cr.
              Inr (Obj [(''name'', n'), (''objectId'', oid), (''creator'', cr)])))))"

definition getBranches :: "backend \<Rightarrow> client \<Rightarrow> jv \<Rightarrow> jv \<Rightarrow> jv io" where
  "getBranches be c repositoryId project =
     (let proj = proj_of c project
      in io_bind
           (fetch_prop be
              (Get (''/'' @ to_str proj @ ''/_apis/git/repositories/'' @ to_str repositoryId
                    @ ''/refs?filter=heads&api-version=7.1''))
              ''value'')
           (\<lambda>refs. io_lift (ebind (js_map ''response.data.value.map'' branch_of_ref refs)
                                (\<lambda>bs. Inr (Arr bs)))))"

definition pull_request_of :: "jv \<Rightarrow> js_error + jv" where
  "pull_request_of pr =
     ebind (traverse (\<lambda>k. ebind (get_prop pr k) (\<lambda>v. Inr (k, v)))
              [''pullRequestId'', ''repository'', ''title'', ''description'', ''createdBy'',
               ''creationDate'', ''status'', ''sourceRefName'', ''targetRefName'', ''isDraft''])
       (\<lambda>kvs. Inr (Obj kvs))"

definition getPullRequests :: "backend \<Rightarrow> client \<Rightarrow> jv \<Rightarrow> jv \<Rightarrow> jv \<Rightarrow> jv \<Rightarrow> jv io" where
  "getPullRequests be c repositoryId project tp status =
     (let topv = default_param tp (Num 100);
          statusv = default_param status (Str ''active'');
          proj = proj_of c project;
          url = ''/'' @ to_str proj @ ''/_apis/git/pullrequests?api-version=7.1&$top='' @ to_str topv
                @ ''&searchCriteria.status='' @ to_str statusv;
          url' = (if truthy repositoryId
                  then url @ ''&searchCriteria.repositoryId='' @ to_str repositoryId else url)
      in io_bind (fetch_prop be (Get url') ''value'')
           (\<lambda>prs. io_lift (ebind (js_map ''response.data.value.map'' pull_request_of prs)
                               (\<lambda>ps. Inr (Arr ps)))))"

definition getPullRequestById :: "backend \<Rightarrow> client \<Rightarrow> jv \<Rightarrow> jv \<Rightarrow> jv \<Rightarrow> jv io" where
  "getPullRequestById be c repositoryId pullRequestId project =
     (let proj = proj_of c project
      in io_bind
           (send be
              (Get (''/'' @ to_str proj @ ''/_apis/git/repositories/'' @ to_str repositoryId
                    @ ''/pullrequests/'' @ to_str pullRequestId @ ''?api-version=7.1'')))
           (\<lambda>pr. io_lift (pull_request_of pr)))"

definition searchCode :: "backend \<Rightarrow> client \<Rightarrow> jv \<Rightarrow> jv \<Rightarrow> jv \<Rightarrow> jv \<Rightarrow> jv io" where
  "searchCode be c searchText project repository tp =
     (let topv = default_param tp (Num 5);
          proj = proj_of c project;
          url = ''https://almsearch.dev.azure.com/'' @ organization c
                @ ''/_apis/search/codesearchresults?api-version=7.1'';
          body = [(''searchText'', searchText), (''$top'', topv)];
          filters = (if truthy proj then [(''Project'', Arr [proj])] else [])
                    @ (if truthy repository then [(''Repository'', Arr [repository])] else []);
          body' = (if length filters > 0 then body @ [(''filters'', Obj filters)] else body)
      in fetch_prop_or_empty be (Post url (Obj body')) ''results'')"

definition searchWorkItems :: "backend \<Rightarrow> client \<Rightarrow> jv \<Rightarrow> jv \<Rightarrow> jv \<Rightarrow> jv io" where
  "searchWorkItems be c searchText project tp =
     (let topv = default_param tp (Num 10);
          proj = proj_of c project;
          url = ''https://almsearch.dev.azure.com/'' @ organization c
                @ ''/_apis/search/workitemsearchresults?api-version=7.1'';
          body = [(''searchText'', searchText), (''$top'', topv)];
          body' = (if truthy proj
                   then body @ [(''filters'', Obj [(''System.TeamProject'', Arr [proj])])] else body)
      in fetch_prop_or_empty be (Post url (Obj body')) ''results'')"

subsection \<open>Wikis, iterations, test plans, teams, identities\<close>

definition getWikis :: "backend \<Rightarrow> client \<Rightarrow> jv \<Rightarrow> jv io" where
  "getWikis be c project =
     (let proj = proj_of c project
      in fetch_prop be (Get (''/'' @ to_str proj @ ''/_apis/wiki/wikis?api-version=7.1'')) ''value'')"

definition getWikiPageContent :: "backend \<Rightarrow> client \<Rightarrow> jv \<Rightarrow> jv \<Rightarrow> jv \<Rightarrow> jv io" where
  "getWikiPageContent be c wikiIdentifier project path =
     (let pathv = default_param path (Str ''/'');
          proj = proj_of c project;
          encodedPath = encodeURIComponent c (to_str pathv)
      in fetch_prop be
           (Get (''/'' @ to_str proj @ ''/_apis/wiki/wikis/'' @ to_str wikiIdentifier @ ''/pages?path=''
                 @ encodedPath @ ''&includeContent=true&api-version=7.1''))
           ''content'')"

definition getTeamIterations :: "backend \<Rightarrow> client \<Rightarrow> jv \<Rightarrow> jv \<Rightarrow> jv io" where
  "getTeamIterations be c project team =
     fetch_prop be
       (Get (''/'' @ to_str project @ ''/'' @ to_str team
             @ ''/_apis/work/teamsettings/iterations?api-version=7.1''))
       ''value''"

definition getTestPlans :: "backend \<Rightarrow> client \<Rightarrow> jv \<Rightarrow> jv io" where
  "getTestPlans be c project =
     or_empty_on_404
       (fetch_prop be (Get (''/'' @ to_str project @ ''/_apis/test/plans?api-version=7.1'')) ''value'')"

text \<open>\<open>v.toString()\<close> on a value that is not \<open>undefined\<close>: it throws on \<open>null\<close>.\<close>

definition to_string_call :: "jv \<Rightarrow> js_error + string" where
  "to_string_call v = (if v = Null then Inl (cannot_read Null ''toString'') else Inr (to_str v))"

definition append_param :: "string \<Rightarrow> jv \<Rightarrow> (string \<times> string) list \<Rightarrow> js_error + (string \<times> string) list" where
  "append_param k v ps =
     (if v \<noteq> Undefined then ebind (to_string_call v) (\<lambda>s. Inr (ps @ [(k, s)])) else Inr ps)"

definition getTeams :: "backend \<Rightarrow> client \<Rightarrow> jv \<Rightarrow> jv \<Rightarrow> jv \<Rightarrow> jv \<Rightarrow> jv io" where
  "getTeams be c project mine tp skip =
     (let url = ''/_apis/projects/'' @ to_str project @ ''/teams?api-version=7.1''
      in case ebind (append_param ''$mine'' mine [])
                (\<lambda>ps. ebind (append_param ''$top'' tp ps) (\<lambda>ps. append_param ''$skip'' skip ps)) of
           Inl e \<Rightarrow> ([], Inl e)
         | Inr params \<Rightarrow>
             (let url' = (if urlSearchParams c params \<noteq> [] then url @ ''&'' @ urlSearchParams c params
                          else url)
              in fetch_prop be (Get url') ''value''))"

definition searchIdentities :: "backend \<Rightarrow> client \<Rightarrow> jv \<Rightarrow> jv io" where
  "searchIdentities be c searchFilter =
     (let url = ''https://vssps.dev.azure.com/'' @ organization c @ ''/_apis/identities'';
          params = [(''api-version'', ''7.1''), (''searchFilter'', ''General''),
                    (''filterValue'', to_str searchFilter)]
      in send be (Get (url @ ''?'' @ urlSearchParams c params)))"

subsection \<open>Work item metadata, definitions, queries\<close>

definition getWorkItemTypes :: "backend \<Rightarrow> client \<Rightarrow> jv \<Rightarrow> jv io" where
  "getWorkItemTypes be c project =
     (let proj = proj_of c project
      in fetch_prop be (Get (''/'' @ to_str proj @ ''/_apis/wit/workitemtypes?api-version=7.1'')) ''value'')"

definition getIterations :: "backend \<Rightarrow> client \<Rightarrow> jv \<Rightarrow> jv io" where
  "getIterations be c project =
     (let proj = proj_of c project;
          url = ''/'' @ to_str proj
                @ ''/_apis/work/classificationnodes?structureGroup=Iterations&api-version=7.1''
      in or_empty_on_404 (fetch_prop_or_empty be (Get url) ''children''))"

definition getBuildDefinitions :: "backend \<Rightarrow> client \<Rightarrow> jv \<Rightarrow> jv io" where
  "getBuildDefinitions be c project =
     (let proj = proj_of c project
      in fetch_prop be (Get (''/'' @ to_str proj @ ''/_apis/build/definitions?api-version=7.1'')) ''value'')"

definition getReleaseDefinitions :: "backend \<Rightarrow> client \<Rightarrow> jv \<Rightarrow> jv io" where
  "getReleaseDefinitions be c project =
     (let proj = proj_of c project
      in or_empty_on_404
           (fetch_prop be (Get (''/'' @ to_str proj @ ''/_apis/release/definitions?api-version=7.1''))
              ''value''))"

definition getQueries :: "backend \<Rightarrow> client \<Rightarrow> jv \<Rightarrow> jv io" where
  "getQueries be c project =
     (let proj = proj_of c project
      in fetch_prop be (Get (''/'' @ to_str proj @ ''/_apis/wit/queries?api-version=7.1'')) ''value'')"

definition getWorkItemRevisions :: "backend \<Rightarrow> client \<Rightarrow> jv \<Rightarrow> jv \<Rightarrow> jv io" where
  "getWorkItemRevisions be c ident project =
     (let proj = proj_of c project
      in fetch_prop be
           (Get (''/'' @ to_str proj @ ''/_apis/wit/workitems/'' @ to_str ident
                 @ ''/revisions?api-version=7.1''))
           ''value'')"

definition getWorkItemLinks :: "backend \<Rightarrow> client \<Rightarrow> jv \<Rightarrow> jv \<Rightarrow> jv io" where
  "getWorkItemLinks be c ident project =
     (let proj = proj_of c project
      in fetch_prop_or_empty be
           (Get (''/'' @ to_str proj @ ''/_apis/wit/workitems/'' @ to_str ident
                 @ ''?$expand=relations&api-version=7.1''))
           ''relations'')"

definition createPullRequest ::
  "backend \<Rightarrow> client \<Rightarrow> jv \<Rightarrow> jv \<Rightarrow> jv \<Rightarrow> jv \<Rightarrow> jv \<Rightarrow> jv \<Rightarrow> jv io" where
  "createPullRequest be c repositoryId sourceBranch targetBranch title description project =
     (let proj = proj_of c project;
          url = ''/'' @ to_str proj @ ''/_apis/git/repositories/'' @ to_str repositoryId
                @ ''/pullrequests?api-version=7.1'';
          body = Obj [(''sourceRefName'', Str (''refs/heads/'' @ to_str sourceBranch)),
                      (''targetRefName'', Str (''refs/heads/'' @ to_str targetBranch)),
                      (''title'', title), (''description'', description)]
      in send be (Post url body))"

definition getCommits :: "backend \<Rightarrow> client \<Rightarrow> jv \<Rightarrow> jv \<Rightarrow> jv \<Rightarrow> jv io" where
  "getCommits be c repositoryId project tp =
     (let topv = default_param tp (Num 10);
          proj = proj_of c project
      in fetch_prop be
           (Get (''/'' @ to_str proj @ ''/_apis/git/repositories/'' @ to_str repositoryId
                 @ ''/commits?api-version=7.1&$top='' @ to_str topv))
           ''value'')"

definition getFileContent :: "backend \<Rightarrow> client \<Rightarrow> jv \<Rightarrow> jv \<Rightarrow> jv \<Rightarrow> jv io" where
  "getFileContent be c repositoryId path project =
     (let proj = proj_of c project;
          encodedPath = encodeURIComponent c (to_str path)
      in send be
           (Get (''/'' @ to_str proj @ ''/_apis/git/repositories/'' @ to_str repositoryId
                 @ ''/items?path='' @ encodedPath @ ''&api-version=7.1'')))"

subsection \<open>Lookups that answer a 404 with the empty list\<close>

definition getAreas :: "backend \<Rightarrow> client \<Rightarrow> jv \<Rightarrow> jv io" where
  "getAreas be c project =
     (let proj = proj_of c project;
          url = ''/'' @ to_str proj
                @ ''/_apis/wit/classificationnodes?structureGroup=Areas&api-version=7.1''
      in or_empty_on_404 (fetch_prop_or_empty be (Get url) ''children''))"

definition getIterationCapacities :: "backend \<Rightarrow> client \<Rightarrow> jv \<Rightarrow> jv \<Rightarrow> jv \<Rightarrow> jv io" where
  "getIterationCapacities be c project team iterationId =
     (let url = ''/'' @ to_str project @ ''/'' @ to_str team @ ''/_apis/work/teamsettings/iterations/''
                @ to_str iterationId @ ''/capacities?api-version=7.1''
      in or_empty_on_404 (fetch_prop_or_empty be (Get url) ''value''))"

definition getWorkItemCategories :: "backend \<Rightarrow> client \<Rightarrow> jv \<Rightarrow> jv io" where
  "getWorkItemCategories be c project =
     (let proj = proj_of c project;
          url = ''/'' @ to_str proj @ ''/_apis/wit/workitemtypecategories?api-version=7.1''
      in or_empty_on_404 (fetch_prop_or_empty be (Get url) ''value''))"

definition getDashboards :: "backend \<Rightarrow> client \<Rightarrow> jv \<Rightarrow> jv io" where
  "getDashboards be c project =
     (let proj = proj_of c project;
          url = ''/'' @ to_str proj @ ''/_apis/dashboard/dashboards?api-version=7.1''
      in or_empty_on_404 (fetch_prop_or_empty be (Get url) ''value''))"

definition getPipelines :: "backend \<Rightarrow> client \<Rightarrow> jv \<Rightarrow> jv io" where
  "getPipelines be c project =
     (let proj = proj_of c project;
          url = ''/'' @ to_str proj @ ''/_apis/pipelines?api-version=7.1''
      in or_empty_on_404 (fetch_prop_or_empty be (Get url) ''value''))"

definition getTestSuites :: "backend \<Rightarrow> client \<Rightarrow> jv \<Rightarrow> jv \<Rightarrow> jv io" where
  "getTestSuites be c project planId =
     (let url = ''/'' @ to_str project @ ''/_apis/test/plans/'' @ to_str planId
                @ ''/suites?api-version=7.1''
      in or_empty_on_404 (fetch_prop_or_empty be (Get url) ''value''))"

definition getVariableGroups :: "backend \<Rightarrow> client \<Rightarrow> jv \<Rightarrow> jv io" where
  "getVariableGroups be c project =
     (let proj = proj_of c project;
          url = ''/'' @ to_str proj @ ''/_apis/distributedtask/variablegroups?api-version=7.1''
      in or_empty_on_404 (fetch_prop_or_empty be (Get url) ''value''))"

definition getServiceEndpoints :: "backend \<Rightarrow> client \<Rightarrow> jv \<Rightarrow> jv io" where
  "getServiceEndpoints be c project =
     (let proj = proj_of c project;
          url = ''/'' @ to_str proj @ ''/_apis/serviceendpoint/endpoints?api-version=7.1''
      in or_empty_on_404 (fetch_prop_or_empty be (Get url) ''value''))"

definition getTags :: "backend \<Rightarrow> client \<Rightarrow> jv \<Rightarrow> jv io" where
  "getTags be c project =
     (let proj = proj_of c project;
          url = ''/'' @ to_str proj @ ''/_apis/tagging/scopes/'' @ to_str proj
                @ ''/tags?api-version=7.1''
      in or_empty_on_404 (fetch_prop_or_empty be (Get url) ''value''))"

definition getTeamMembers :: "backend \<Rightarrow> client \<Rightarrow> jv \<Rightarrow> jv \<Rightarrow> jv io" where
  "getTeamMembers be c project team =
     (let url = ''/_apis/projects/'' @ to_str project @ ''/teams/'' @ to_str team
                @ ''/members?api-version=7.1''
      in or_empty_on_404 (fetch_prop_or_empty be (Get url) ''value''))"

definition getBoards :: "backend \<Rightarrow> client \<Rightarrow> jv \<Rightarrow> jv \<Rightarrow> jv io" where
  "getBoards be c project team =
     (let url = ''/'' @ to_str project @ ''/'' @ to_str team @ ''/_apis/work/boards?api-version=7.1''
      in or_empty_on_404 (fetch_prop_or_empty be (Get url) ''value''))"

definition getBoardColumns :: "backend \<Rightarrow> client \<Rightarrow> jv \<Rightarrow> jv \<Rightarrow> jv \<Rightarrow> jv io" where
  "getBoardColumns be c project team board =
     (let url = ''/'' @ to_str project @ ''/'' @ to_str team @ ''/_apis/work/boards/'' @ to_str board
                @ ''/columns?api-version=7.1''
      in or_empty_on_404 (fetch_prop_or_empty be (Get url) ''value''))"

definition getBoardRows :: "backend \<Rightarrow> client \<Rightarrow> jv \<Rightarrow> jv \<Rightarrow> jv \<Rightarrow> jv io" where
  "getBoardRows be c project team board =
     (let url = ''/'' @ to_str project @ ''/'' @ to_str team @ ''/_apis/work/boards/'' @ to_str board
                @ ''/rows?api-version=7.1''
      in or_empty_on_404 (fetch_prop_or_empty be (Get url) ''value''))"

definition getWorkItemStates :: "backend \<Rightarrow> client \<Rightarrow> jv \<Rightarrow> jv \<Rightarrow> jv io" where
  "getWorkItemStates be c project workItemType =
     (let url = ''/'' @ to_str project @ ''/_apis/wit/workitemtypes/'' @ to_str workItemType
                @ ''/states?api-version=7.1''
      in or_empty_on_404 (fetch_prop_or_empty be (Get url) ''value''))"

definition getWorkItemFields :: "backend \<Rightarrow> client \<Rightarrow> jv \<Rightarrow> jv io" where
  "getWorkItemFields be c project =
     (let proj = proj_of c project;
          url = ''/'' @ to_str proj @ ''/_apis/wit/fields?api-version=7.1''
      in or_empty_on_404 (fetch_prop_or_empty be (Get url) ''value''))"

definition getWorkItemUpdates :: "backend \<Rightarrow> client \<Rightarrow> jv \<Rightarrow> jv \<Rightarrow> jv io" where
  "getWorkItemUpdates be c ident project =
     (let proj = proj_of c project;
          url = ''/'' @ to_str proj @ ''/_apis/wit/workitems/'' @ to_str ident
                @ ''/updates?api-version=7.1''
      in or_empty_on_404 (fetch_prop_or_empty be (Get url) ''value''))"

definition getWorkItemAttachments :: "backend \<Rightarrow> client \<Rightarrow> jv \<Rightarrow> jv \<Rightarrow> jv io" where
  "getWorkItemAttachments be c ident project =
     (let proj = proj_of c project;
          url = ''/'' @ to_str proj @ ''/_apis/wit/attachments?artifactId='' @ to_str ident
                @ ''&api-version=7.1''
      in or_empty_on_404 (fetch_prop_or_empty be (Get url) ''value''))"

definition getWorkItemComments :: "backend \<Rightarrow> client \<Rightarrow> jv \<Rightarrow> jv \<Rightarrow> jv io" where
  "getWorkItemComments be c ident project =
     (let proj = proj_of c project;
          url = ''/'' @ to_str proj @ ''/_apis/wit/workitems/'' @ to_str ident
                @ ''/comments?api-version=7.1-preview.1''
      in or_empty_on_404 (fetch_prop_or_empty be (Get url) ''comments''))"

definition getWorkItemRelations :: "backend \<Rightarrow> client \<Rightarrow> jv \<Rightarrow> jv \<Rightarrow> jv io" where
  "getWorkItemRelations be c ident project =
     (let proj = proj_of c project;
          url = ''/'' @ to_str proj @ ''/_apis/wit/workitems/'' @ to_str ident
                @ ''?$expand=relations&api-version=7.1''
      in or_empty_on_404 (fetch_prop_or_empty be (Get url) ''relations''))"

text \<open>
  \<open>getQueryResults\<close> returns the promise of \<open>getWorkItems\<close> from inside its \<open>try\<close>
  without awaiting it, so the \<open>catch\<close> covers the first request and the reading of its
  response, but not the batch fetch.
\<close>

definition getQueryResults :: "backend \<Rightarrow> client \<Rightarrow> jv \<Rightarrow> jv \<Rightarrow> jv io" where
  "getQueryResults be c project queryId =
     (let url = ''/'' @ to_str project @ ''/_apis/wit/queries/'' @ to_str queryId
                @ ''?$expand=results&api-version=7.1'';
          rq = Get url
      in case be rq of
           Inl e \<Rightarrow> ([rq], if e = HttpError 404 then Inr (Arr []) else Inl e)
         | Inr data \<Rightarrow>
             (case ebind (get_prop data ''results'') (\<lambda>results.
                     if \<not> truthy results then Inr None
                     else ebind (get_prop results ''workItems'') (\<lambda>workItemRefs.
                            if \<not> truthy workItemRefs then Inr None
                            else ebind (js_map ''workItemRefs.map'' (\<lambda>wi. get_prop wi ''id'') workItemRefs)
                                   (\<lambda>ids. Inr (Some ids)))) of
                Inl e \<Rightarrow> ([rq], Inl e)
              | Inr None \<Rightarrow> ([rq], Inr (Arr []))
              | Inr (Some ids) \<Rightarrow> io_bind ([rq], Inr ids) (\<lambda>ids. getWorkItems be c (Arr ids))))"

section \<open>The dispatcher of the tool-call handler\<close>

text \<open>
  Each case of \<open>switch (name)\<close> in the handler of \<open>CallToolRequestSchema\<close> has two
  parts: it reads its arguments, checks some of them and awaits one client method
  (\<open>mcp_call\<close>), then renders the payload (\<open>mcp_format\<close>, below). \<open>args?.k\<close> never
  throws: it is \<open>undefined\<close> when \<open>args\<close> is missing.
\<close>

definition opt_arg :: "jv \<Rightarrow> string \<Rightarrow> jv" where
  "opt_arg args k = (case qdot (val args) k of Inl e \<Rightarrow> Undefined | Inr v \<Rightarrow> v)"

text \<open>\<open>v || d\<close> on values.\<close>

definition or_value :: "jv \<Rightarrow> jv \<Rightarrow> jv" where
  "or_value v d = (if truthy v then v else d)"

fun is_array :: "jv \<Rightarrow> bool" where
  "is_array (Arr xs) = True"
| "is_array v = False"

definition throw :: "string \<Rightarrow> 'a io" where
  "throw msg = ([], Inl (Error msg))"

definition mcp_call :: "backend \<Rightarrow> client \<Rightarrow> string \<Rightarrow> jv \<Rightarrow> jv io" where
  "mcp_call be c nm args =
    (let a = opt_arg args in
     if nm = ''list_projects'' then getProjects be c
     else if nm = ''query_work_items'' then
       (if \<not> truthy (a ''wiql'') then throw ''wiql argument is required''
        else queryWorkItems be c (a ''wiql''))
     else if nm = ''get_work_items_by_ids'' then
       (if \<not> truthy (a ''ids'') \<or> \<not> is_array (a ''ids'')
        then throw ''ids argument must be an array of numbers''
        else getWorkItems be c (a ''ids''))
     else if nm = ''get_builds'' then
       getBuilds be c (a ''definitionId'') (or_value (a ''top'') (Num 10))
     else if nm = ''get_releases'' then
       getReleases be c (or_value (a ''top'') (Num 10))
     else if nm = ''create_work_item'' then
       (if \<not> truthy (a ''workItemType'') \<or> \<not> truthy (a ''title'')
        then throw ''workItemType and title are required''
        else createWorkItem be c (a ''workItemType'') (a ''title'') (a ''description'')
               (a ''additionalFields''))
     else if nm = ''update_work_item'' then
       (if \<not> truthy (a ''id'') \<or> \<not> truthy (a ''fields'')
        then throw ''id and fields are required''
        else updateWorkItem be c (a ''id'') (a ''fields'') (a ''comment''))
     else if nm = ''assign_work_item'' then
       (if \<not> truthy (a ''id'') \<or> \<not> truthy (a ''assignee'')
        then throw ''id and assignee are required''
        else assignWorkItem be c (a ''id'') (a ''assignee'') (a ''comment''))
     else if nm = ''list_repositories'' then getRepositories be c (a ''project'')
     else if nm = ''list_branches'' then getBranches be c (a ''repositoryId'') (a ''project'')
     else if nm = ''list_pull_requests'' then
       getPullRequests be c (a ''repositoryId'') (a ''project'') (or_value (a ''top'') (Num 100))
         (or_value (a ''status'') (Str ''active''))
     else if nm = ''get_pull_request'' then
       getPullRequestById be c (a ''repositoryId'') (a ''pullRequestId'') (a ''project'')
     else if nm = ''search_code'' then
       searchCode be c (a ''searchText'') (a ''project'') (a ''repository'')
         (or_value (a ''top'') (Num 5))
     else if nm = ''search_work_items'' then
       searchWorkItems be c (a ''searchText'') (a ''project'') (or_value (a ''top'') (Num 10))
     else if nm = ''list_wikis'' then getWikis be c (a ''project'')
     else if nm = ''get_wiki_page'' then
       getWikiPageContent be c (a ''wikiIdentifier'') (a ''project'')
         (or_value (a ''path'') (Str ''/''))
     else if nm = ''list_team_iterations'' then getTeamIterations be c (a ''project'') (a ''team'')
     else if nm = ''list_test_plans'' then getTestPlans be c (a ''project'')
     else if nm = ''list_project_teams'' then
       getTeams be c (a ''project'') (a ''mine'') (or_value (a ''top'') (Num 100))
         (or_value (a ''skip'') (Num 0))
     else if nm = ''get_identity_ids'' then
       (if \<not> truthy (a ''searchFilter'') then throw ''searchFilter argument is required''
        else searchIdentities be c (a ''searchFilter''))
     else if nm = ''get_current_user'' then getCurrentUser be c
     else if nm = ''list_work_item_types'' then getWorkItemTypes be c (a ''project'')
     else if nm = ''list_iterations'' then getIterations be c (a ''project'')
     else if nm = ''list_build_definitions'' then getBuildDefinitions be c (a ''project'')
     else if nm = ''list_release_definitions'' then getReleaseDefinitions be c (a ''project'')
     else if nm = ''list_queries'' then getQueries be c (a ''project'')
     else if nm = ''get_work_item_revisions'' then
       (if \<not> truthy (a ''id'') then throw ''id argument is required''
        else getWorkItemRevisions be c (a ''id'') (a ''project''))
     else if nm = ''get_work_item_links'' then
       (if \<not> truthy (a ''id'') then throw ''id argument is required''
        else getWorkItemLinks be c (a ''id'') (a ''project''))
     else if nm = ''create_pull_request'' then
       (if \<not> truthy (a ''repositoryId'') \<or> \<not> truthy (a ''sourceBranch'')
           \<or> \<not> truthy (a ''targetBranch'') \<or> \<not> truthy (a ''title'')
        then throw ''repositoryId, sourceBranch, targetBranch, and title are required''
        else createPullRequest be c (a ''repositoryId'') (a ''sourceBranch'') (a ''targetBranch'')
               (a ''title'') (a ''description'') (a ''project''))
     else if nm = ''list_commits'' then
       (if \<not> truthy (a ''repositoryId'') then throw ''repositoryId argument is required''
        else getCommits be c (a ''repositoryId'') (a ''project'') (or_value (a ''top'') (Num 10)))
     else if nm = ''get_file_content'' then
       (if \<not> truthy (a ''repositoryId'') \<or> \<not> truthy (a ''path'')
        then throw ''repositoryId and path are required''
        else getFileContent be c (a ''repositoryId'') (a ''path'') (a ''project''))
     else if nm = ''list_areas'' then getAreas be c (a ''project'')
     else if nm = ''list_iteration_capacities'' then
       (if \<not> truthy (a ''project'') \<or> \<not> truthy (a ''team'') \<or> \<not> truthy (a ''iterationId'')
        then throw ''project, team, and iterationId are required''
        else getIterationCapacities be c (a ''project'') (a ''team'') (a ''iterationId''))
     else if nm = ''list_work_item_categories'' then getWorkItemCategories be c (a ''project'')
     else if nm = ''list_dashboards'' then getDashboards be c (a ''project'')
     else if nm = ''list_pipelines'' then getPipelines be c (a ''project'')
     else if nm = ''list_test_suites'' then
       (if \<not> truthy (a ''project'') \<or> \<not> truthy (a ''planId'')
        then throw ''project and planId are required''
        else getTestSuites be c (a ''project'') (a ''planId''))
     else if nm = ''list_variable_groups'' then getVariableGroups be c (a ''project'')
     else if nm = ''list_service_endpoints'' then getServiceEndpoints be c (a ''project'')
     else if nm = ''list_tags'' then getTags be c (a ''project'')
     else if nm = ''list_team_members'' then
       (if \<not> truthy (a ''project'') \<or> \<not> truthy (a ''team'')
        then throw ''project and team are required''
        else getTeamMembers be c (a ''project'') (a ''team''))
     else if nm = ''list_boards'' then
       (if \<not> truthy (a ''project'') \<or> \<not> truthy (a ''team'')
        then throw ''project and team are required''
        else getBoards be c (a ''project'') (a ''team''))
     else if nm = ''list_board_columns'' then
       (if \<not> truthy (a ''project'') \<or> \<not> truthy (a ''team'') \<or> \<not> truthy (a ''board'')
        then throw ''project, team, and board are required''
        else getBoardColumns be c (a ''project'') (a ''team'') (a ''board''))
     else if nm = ''list_board_rows'' then
       (if \<not> truthy (a ''project'') \<or> \<not> truthy (a ''team'') \<or> \<not> truthy (a ''board'')
        then throw ''project, team, and board are required''
        else getBoardRows be c (a ''project'') (a ''team'') (a ''board''))
     else if nm = ''list_work_item_states'' then
       (if \<not> truthy (a ''project'') \<or> \<not> truthy (a ''workItemType'')
        then throw ''project and workItemType are required''
        else getWorkItemStates be c (a ''project'') (a ''workItemType''))
     else if nm = ''list_work_item_fields'' then getWorkItemFields be c (a ''project'')
     else if nm = ''list_work_item_updates'' then
       (if \<not> truthy (a ''id'') then throw ''id is required''
        else getWorkItemUpdates be c (a ''id'') (a ''project''))
     else if nm = ''list_work_item_attachments'' then
       (if \<not> truthy (a ''id'') then throw ''id is required''
        else getWorkItemAttachments be c (a ''id'') (a ''project''))
     else if nm = ''list_work_item_comments'' then
       (if \<not> truthy (a ''id'') then throw ''id is required''
        else getWorkItemComments be c (a ''id'') (a ''project''))
     else if nm = ''list_work_item_relations'' then
       (if \<not> truthy (a ''id'') then throw ''id is required''
        else getWorkItemRelations be c (a ''id'') (a ''project''))
     else if nm = ''list_work_item_query_results'' then
       (if \<not> truthy (a ''project'') \<or> \<not> truthy (a ''queryId'')
        then throw ''project and queryId are required''
        else getQueryResults be c (a ''project'') (a ''queryId''))
     else throw (''Unknown tool: '' @ nm))"

section \<open>Rendering\<close>

definition nl :: string where
  "nl = [CHR 0x0A]"

text \<open>The success marker of the confirmation blocks: U+2705, kept as its UTF-8 bytes.\<close>

definition check_mark :: string where
  "check_mark = [CHR 0xE2, CHR 0x9C, CHR 0x85]"

text \<open>\<open>e || ''\<close>\<close>

definition or_empty :: "js_error + jv \<Rightarrow> js_error + jv" where
  "or_empty e = orv e (estr [])"

text \<open>A table row \<open>`| ${c1} | ${c2} | ... |`\<close>; the cells are evaluated left to right.\<close>

definition table_row :: "(js_error + string) list \<Rightarrow> js_error + string" where
  "table_row cs = ebind (traverse id cs) (\<lambda>ss. Inr (''| '' @ join '' | '' ss @ '' |''))"

text \<open>
  The list template shared by the list cases:
  \<^verbatim>\<open>if (xs.length === 0) return <empty message>;
const table = xs.map(row).join('\n');
const formatted = `## <title> (${xs.length})\n<header>\n<rule>\n${table}`;\<close>
\<close>

definition render_list ::
  "jv \<Rightarrow> string \<Rightarrow> string \<Rightarrow> string \<Rightarrow> string \<Rightarrow> string \<Rightarrow> (jv \<Rightarrow> js_error + string)
   \<Rightarrow> js_error + string" where
  "render_list xs callee empty_msg title header rule row =
     ebind (get_prop xs ''length'') (\<lambda>n.
       if n = Num 0 then Inr empty_msg
       else ebind (js_map callee row xs) (\<lambda>rows.
              Inr (''## '' @ title @ '' ('' @ to_str n @ '')'' @ nl @ header @ nl @ rule @ nl
                   @ join nl rows)))"

subsection \<open>Row templates\<close>

definition row_project :: "jv \<Rightarrow> js_error + string" where
  "row_project p = table_row
     [interp (get_prop p ''id''), interp (get_prop p ''name''),
      interp (or_empty (get_prop p ''description'')), interp (get_prop p ''url'')]"

text \<open>\<open>const fields = wi.fields;\<close> comes first, then the row reads \<open>fields[...]\<close>.\<close>

definition row_work_item :: "jv \<Rightarrow> js_error + string" where
  "row_work_item wi =
     ebind (get_prop wi ''fields'') (\<lambda>flds. table_row
       [interp (get_prop wi ''id''),
        interp (or_empty (get_prop flds ''System.Title'')),
        interp (or_empty (get_prop flds ''System.State'')),
        interp (or_empty (qdot (get_prop flds ''System.AssignedTo'') ''displayName'')),
        interp (or_empty (get_prop flds ''System.WorkItemType''))])"

definition row_build :: "jv \<Rightarrow> js_error + string" where
  "row_build b = table_row
     [interp (get_prop b ''id''), interp (get_prop b ''buildNumber''), interp (get_prop b ''status''),
      interp (get_prop b ''result''), interp (get_prop b ''queueTime''),
      interp (get_prop b ''sourceBranch'')]"

definition row_release :: "jv \<Rightarrow> js_error + string" where
  "row_release r = table_row
     [interp (get_prop r ''id''), interp (get_prop r ''name''), interp (get_prop r ''status''),
      interp (get_prop r ''createdOn''), interp (get_prop r ''modifiedOn'')]"

definition row_repository :: "jv \<Rightarrow> js_error + string" where
  "row_repository r = table_row
     [interp (get_prop r ''id''), interp (get_prop r ''name''),
      interp (cond (get_prop r ''isDisabled'') (estr ''Disabled'') (estr ''Active'')),
      interp (cond (get_prop r ''isFork'') (estr ''Fork'') (estr ''No'')),
      interp (get_prop r ''webUrl'')]"

text \<open>The tool-call handler reads \<open>b.objectId.substring(0, 8)\<close>.\<close>

definition row_branch :: "jv \<Rightarrow> js_error + string" where
  "row_branch b = table_row
     [interp (get_prop b ''name''),
      interp (substring8 ''b.objectId.substring'' (get_prop b ''objectId'')),
      interp (or_empty (qdot (get_prop b ''creator'') ''displayName''))]"

text \<open>The HTTP endpoints read \<open>b.objectId?.substring(0, 8) || ''\<close>.\<close>

definition row_branch_http :: "jv \<Rightarrow> js_error + string" where
  "row_branch_http b = table_row
     [interp (get_prop b ''name''),
      interp (or_empty (qsubstring8 ''b.objectId.substring'' (get_prop b ''objectId''))),
      interp (or_empty (qdot (get_prop b ''creator'') ''displayName''))]"

definition row_pull_request :: "jv \<Rightarrow> js_error + string" where
  "row_pull_request pr = table_row
     [interp (get_prop pr ''pullRequestId''), interp (get_prop pr ''title''),
      interp (get_prop pr ''status''), interp (dot (get_prop pr ''createdBy'') ''displayName''),
      interp (get_prop pr ''creationDate'')]"

definition row_pull_request_http :: "jv \<Rightarrow> js_error + string" where
  "row_pull_request_http pr = table_row
     [interp (get_prop pr ''pullRequestId''), interp (get_prop pr ''title''),
      interp (get_prop pr ''status''),
      interp (or_empty (qdot (get_prop pr ''createdBy'') ''displayName'')),
      interp (get_prop pr ''creationDate'')]"

definition row_code_result :: "jv \<Rightarrow> js_error + string" where
  "row_code_result r = table_row
     [interp (or_empty (qdot (get_prop r ''project'') ''name'')),
      interp (or_empty (qdot (get_prop r ''repository'') ''name'')),
      interp (or_empty (get_prop r ''path'')),
      template [interp (orv (qdot (get_prop r ''matches'') ''length'') (val (Num 0))),
                lit '' matches'']]"

definition row_work_item_result :: "jv \<Rightarrow> js_error + string" where
  "row_work_item_result r = table_row
     [interp (or_empty (qdot (get_prop r ''fields'') ''System.Id'')),
      interp (or_empty (qdot (get_prop r ''fields'') ''System.Title'')),
      interp (or_empty (qdot (get_prop r ''fields'') ''System.State'')),
      interp (or_empty (qdot (get_prop r ''fields'') ''System.WorkItemType''))]"

definition row_wiki :: "jv \<Rightarrow> js_error + string" where
  "row_wiki w = table_row
     [interp (get_prop w ''id''), interp (get_prop w ''name''), interp (get_prop w ''type''),
      interp (get_prop w ''projectId'')]"

text \<open>Team iterations in the tool-call handler: \<open>i.attributes.startDate\<close>.\<close>

definition row_team_iteration :: "jv \<Rightarrow> js_error + string" where
  "row_team_iteration i = table_row
     [interp (get_prop i ''id''), interp (get_prop i ''name''), interp (get_prop i ''path''),
      template [interp (or_empty (dot (get_prop i ''attributes'') ''startDate'')), lit '' - '',
                interp (or_empty (dot (get_prop i ''attributes'') ''finishDate''))]]"

text \<open>Everywhere else: \<open>i.attributes?.startDate\<close>.\<close>

definition row_iteration :: "jv \<Rightarrow> js_error + string" where
  "row_iteration i = table_row
     [interp (get_prop i ''id''), interp (get_prop i ''name''), interp (get_prop i ''path''),
      template [interp (or_empty (qdot (get_prop i ''attributes'') ''startDate'')), lit '' - '',
                interp (or_empty (qdot (get_prop i ''attributes'') ''finishDate''))]]"

definition row_test_plan :: "jv \<Rightarrow> js_error + string" where
  "row_test_plan tp = table_row
     [interp (get_prop tp ''id''), interp (get_prop tp ''name''),
      interp (or_empty (get_prop tp ''description'')), interp (or_empty (get_prop tp ''areaPath'')),
      interp (or_empty (get_prop tp ''iteration''))]"

definition row_team :: "jv \<Rightarrow> js_error + string" where
  "row_team t = table_row
     [interp (get_prop t ''id''), interp (get_prop t ''name''),
      interp (or_empty (get_prop t ''description'')), interp (or_empty (get_prop t ''projectName''))]"

definition row_identity :: "jv \<Rightarrow> js_error + string" where
  "row_identity i = table_row
     [interp (get_prop i ''localId''), interp (get_prop i ''displayName''),
      interp (get_prop i ''uniqueName''), interp (get_prop i ''subjectDescriptor'')]"

definition row_work_item_type :: "jv \<Rightarrow> js_error + string" where
  "row_work_item_type t = table_row
     [interp (get_prop t ''name''), interp (get_prop t ''referenceName''),
      interp (or_empty (get_prop t ''description''))]"

definition row_build_definition :: "jv \<Rightarrow> js_error + string" where
  "row_build_definition d = table_row
     [interp (get_prop d ''id''), interp (get_prop d ''name''), interp (or_empty (get_prop d ''path'')),
      interp (or_empty (get_prop d ''queueStatus''))]"

definition row_release_definition :: "jv \<Rightarrow> js_error + string" where
  "row_release_definition d = table_row
     [interp (get_prop d ''id''), interp (get_prop d ''name''), interp (or_empty (get_prop d ''path'')),
      interp (or_empty (get_prop d ''releaseNameFormat''))]"

definition row_query :: "jv \<Rightarrow> js_error + string" where
  "row_query q = table_row
     [interp (get_prop q ''id''), interp (get_prop q ''name''), interp (or_empty (get_prop q ''path'')),
      interp (cond (get_prop q ''isFolder'') (estr ''Folder'') (estr ''Query''))]"

definition row_revision :: "jv \<Rightarrow> js_error + string" where
  "row_revision r = table_row
     [interp (get_prop r ''rev''),
      interp (or_empty (qdot (get_prop r ''fields'') ''System.ChangedDate'')),
      interp (or_empty (qdot (qdot (get_prop r ''fields'') ''System.ChangedBy'') ''displayName'')),
      interp (or_empty (qdot (get_prop r ''fields'') ''System.State''))]"

definition row_link :: "jv \<Rightarrow> js_error + string" where
  "row_link l = table_row
     [interp (get_prop l ''rel''), interp (get_prop l ''url''),
      interp (or_empty (qdot (get_prop l ''attributes'') ''name''))]"

definition row_commit :: "jv \<Rightarrow> js_error + string" where
  "row_commit cm = table_row
     [interp (or_empty (qsubstring8 ''c.commitId.substring'' (get_prop cm ''commitId''))),
      interp (or_empty (qdot (get_prop cm ''author'') ''name'')),
      interp (or_empty (get_prop cm ''comment'')),
      interp (or_empty (qdot (get_prop cm ''committer'') ''date''))]"

definition row_area :: "jv \<Rightarrow> js_error + string" where
  "row_area a = table_row
     [interp (get_prop a ''id''), interp (get_prop a ''name''), interp (or_empty (get_prop a ''path'')),
      interp (or_empty (get_prop a ''structureType''))]"

text \<open>
  \<open>c.activities?.map((a) => a.name).join(', ') || ''\<close>: the optional chain
  short-circuits over the whole call chain when \<open>activities\<close> is missing.
\<close>

definition activity_names :: "jv \<Rightarrow> js_error + jv" where
  "activity_names cap =
     ebind (get_prop cap ''activities'') (\<lambda>acts.
       if nullish acts then Inr Undefined
       else ebind (js_map ''c.activities.map'' (\<lambda>a. get_prop a ''name'') acts) (\<lambda>names.
              Inr (Str (join '', '' (map join_elem names)))))"

definition row_capacity :: "jv \<Rightarrow> js_error + string" where
  "row_capacity cap = table_row
     [interp (or_empty (qdot (get_prop cap ''teamMember'') ''displayName'')),
      interp (or_empty (activity_names cap)),
      template [interp (orv (qdot (get_prop cap ''daysOff'') ''length'') (val (Num 0))),
                lit '' days off'']]"

definition row_category :: "jv \<Rightarrow> js_error + string" where
  "row_category cat = table_row
     [interp (get_prop cat ''name''), interp (get_prop cat ''referenceName''),
      interp (or_empty (qdot (get_prop cat ''defaultWorkItemType'') ''name''))]"

definition row_dashboard :: "jv \<Rightarrow> js_error + string" where
  "row_dashboard d = table_row
     [interp (get_prop d ''id''), interp (get_prop d ''name''),
      interp (or_empty (get_prop d ''description'')), interp (or_empty (get_prop d ''modifiedDate''))]"

definition row_pipeline :: "jv \<Rightarrow> js_error + string" where
  "row_pipeline p = table_row
     [interp (get_prop p ''id''), interp (get_prop p ''name''), interp (or_empty (get_prop p ''folder'')),
      interp (or_empty (get_prop p ''revision''))]"

definition row_test_suite :: "jv \<Rightarrow> js_error + string" where
  "row_test_suite ts = table_row
     [interp (get_prop ts ''id''), interp (get_prop ts ''name''),
      template [interp (orv (get_prop ts ''testCaseCount'') (val (Num 0))), lit '' test cases''],
      interp (or_empty (get_prop ts ''suiteType''))]"

definition row_variable_group :: "jv \<Rightarrow> js_error + string" where
  "row_variable_group vg = table_row
     [interp (get_prop vg ''id''), interp (get_prop vg ''name''),
      interp (or_empty (get_prop vg ''description'')),
      interp (or_empty (qdot (qdot (qindex0 (get_prop vg ''variableGroupProjectReferences''))
                                ''projectReference'') ''name''))]"

definition row_service_endpoint :: "jv \<Rightarrow> js_error + string" where
  "row_service_endpoint se = table_row
     [interp (get_prop se ''id''), interp (get_prop se ''name''), interp (or_empty (get_prop se ''type'')),
      interp (cond (get_prop se ''isReady'') (estr ''Ready'') (estr ''Not Ready''))]"

definition row_tag :: "jv \<Rightarrow> js_error + string" where
  "row_tag t = table_row
     [interp (get_prop t ''id''), interp (get_prop t ''name''),
      interp (cond (get_prop t ''active'') (estr ''Active'') (estr ''Inactive''))]"

definition row_team_member :: "jv \<Rightarrow> js_error + string" where
  "row_team_member m = table_row
     [interp (or_empty (qdot (get_prop m ''identity'') ''displayName'')),
      interp (or_empty (qdot (get_prop m ''identity'') ''uniqueName'')),
      interp (or_empty (qdot (get_prop m ''identity'') ''id''))]"

definition row_board :: "jv \<Rightarrow> js_error + string" where
  "row_board b = table_row
     [interp (get_prop b ''id''), interp (get_prop b ''name''),
      interp (or_empty (get_prop b ''description''))]"

definition row_board_column :: "jv \<Rightarrow> js_error + string" where
  "row_board_column col = table_row
     [interp (get_prop col ''id''), interp (get_prop col ''name''),
      interp (orv (get_prop col ''itemLimit'') (estr ''No limit'')),
      interp (or_empty (get_prop col ''columnType''))]"

definition row_board_row :: "jv \<Rightarrow> js_error + string" where
  "row_board_row r = table_row
     [interp (get_prop r ''id''), interp (get_prop r ''name''), interp (or_empty (get_prop r ''rank''))]"

definition row_state :: "jv \<Rightarrow> js_error + string" where
  "row_state s = table_row
     [interp (get_prop s ''name''), interp (or_empty (get_prop s ''category'')),
      interp (or_empty (get_prop s ''color'')), interp (or_empty (get_prop s ''order''))]"

definition row_field :: "jv \<Rightarrow> js_error + string" where
  "row_field f = table_row
     [interp (get_prop f ''referenceName''), interp (get_prop f ''name''),
      interp (or_empty (get_prop f ''type'')),
      interp (cond (get_prop f ''readOnly'') (estr ''Read-only'') (estr ''Editable''))]"

definition row_update :: "jv \<Rightarrow> js_error + string" where
  "row_update u = table_row
     [interp (get_prop u ''id''), interp (get_prop u ''rev''),
      interp (or_empty (qdot (get_prop u ''fields'') ''System.ChangedDate'')),
      interp (or_empty (qdot (qdot (get_prop u ''fields'') ''System.ChangedBy'') ''displayName''))]"

definition row_attachment :: "jv \<Rightarrow> js_error + string" where
  "row_attachment a = table_row
     [interp (get_prop a ''id''), interp (get_prop a ''name''), interp (or_empty (get_prop a ''size'')),
      interp (or_empty (get_prop a ''createdDate''))]"

definition row_comment :: "jv \<Rightarrow> js_error + string" where
  "row_comment cm = table_row
     [interp (get_prop cm ''id''), interp (or_empty (get_prop cm ''text'')),
      interp (or_empty (qdot (get_prop cm ''createdBy'') ''displayName'')),
      interp (or_empty (get_prop cm ''createdDate''))]"

subsection \<open>The rendering step of the tool-call handler\<close>

text \<open>\<open>([key, val]) => `- **${key}**: ${val}`\<close>\<close>

definition field_line :: "string \<times> jv \<Rightarrow> string" where
  "field_line p = ''- **'' @ fst p @ ''**: '' @ to_str (snd p)"

text \<open>
  What each case does with the payload \<open>raw\<close> its client method returned. The cases are
  those of \<open>mcp_call\<close>, in the same order; a name without a case never gets here.
\<close>

definition mcp_format :: "string \<Rightarrow> jv \<Rightarrow> jv \<Rightarrow> js_error + string" where
  "mcp_format nm raw args =
    (let a = opt_arg args in
     if nm = ''list_projects'' then
       render_list raw ''projects.map'' ''No projects found.''
         ''Projects''
         ''| ID | Name | Description | URL |''
         ''|----|------|-------------|-----|''
         row_project
     else if nm = ''query_work_items'' then
       render_list raw ''workItems.map'' ''No work items match the query.''
         ''Work Items''
         ''| ID | Title | State | Assigned To | Type |''
         ''|----|-------|-------|-------------|------|''
         row_work_item
     else if nm = ''get_work_items_by_ids'' then
       render_list raw ''workItems.map'' ''No work items found with those IDs.''
         ''Work Items''
         ''| ID | Title | State | Assigned To | Type |''
         ''|----|-------|-------|-------------|------|''
         row_work_item
     else if nm = ''get_builds'' then
       render_list raw ''builds.map'' ''No builds found.''
         ''Builds''
         ''| ID | Build Number | Status | Result | Queue Time | Branch |''
         ''|----|--------------|--------|--------|------------|--------|''
         row_build
     else if nm = ''get_releases'' then
       render_list raw ''releases.map'' ''No releases found.''
         ''Releases''
         ''| ID | Name | Status | Created | Modified |''
         ''|----|------|--------|---------|----------|''
         row_release
     else if nm = ''create_work_item'' then
       template
         [lit (check_mark @ '' Work item created successfully!'' @ nl @ ''**ID**: ''),
          interp (get_prop raw ''id''),
          lit (nl @ ''**Type**: ''), interp (val (a ''workItemType'')),
          lit (nl @ ''**Title**: ''), interp (val (a ''title'')),
          lit (nl @ ''**URL**: ''), interp (get_prop raw ''url''), lit nl,
          (if truthy (a ''description'')
           then template [lit ''**Description**: '', interp (val (a ''description''))] else lit []),
          lit nl]
     else if nm = ''update_work_item'' then
       ebind (object_entries (a ''fields'')) (\<lambda>es.
         template
           [lit (check_mark @ '' Work item ''), interp (get_prop raw ''id''),
            lit ('' updated successfully!'' @ nl @ ''**Updated fields**:'' @ nl),
            lit (join nl (map field_line es)), lit nl,
            (if truthy (a ''comment'')
             then template [lit ''**Comment**: '', interp (val (a ''comment''))] else lit [])])
     else if nm = ''assign_work_item'' then
       template
         [lit (check_mark @ '' Work item ''), interp (get_prop raw ''id''),
          lit '' assigned to '', interp (val (a ''assignee'')), lit ('' successfully!'' @ nl),
          (if truthy (a ''comment'')
           then template [lit ''**Comment**: '', interp (val (a ''comment''))] else lit [])]
     else if nm = ''list_repositories'' then
       render_list raw ''repos.map'' ''No repositories found.''
         ''Repositories''
         ''| ID | Name | Status | Fork | URL |''
         ''|----|------|--------|------|-----|''
         row_repository
     else if nm = ''list_branches'' then
       render_list raw ''branches.map'' ''No branches found.''
         ''Branches''
         ''| Name | Commit | Creator |''
         ''|------|--------|---------|''
         row_branch
     else if nm = ''list_pull_requests'' then
       render_list raw ''prs.map'' ''No pull requests found.''
         ''Pull Requests''
         ''| ID | Title | Status | Created By | Created |''
         ''|----|-------|--------|------------|---------|''
         row_pull_request
     else if nm = ''get_pull_request'' then
       template
         [lit ''## Pull Request '', interp (get_prop raw ''pullRequestId''),
          lit (nl @ ''**Title**: ''), interp (get_prop raw ''title''),
          lit (nl @ ''**Repository**: ''), interp (dot (get_prop raw ''repository'') ''name''),
          lit (nl @ ''**Status**: ''), interp (get_prop raw ''status''),
          lit (nl @ ''**Created By**: ''), interp (dot (get_prop raw ''createdBy'') ''displayName''),
          lit '' ('', interp (dot (get_prop raw ''createdBy'') ''uniqueName''), lit '')'',
          lit (nl @ ''**Created**: ''), interp (get_prop raw ''creationDate''),
          lit (nl @ ''**Source**: ''), interp (get_prop raw ''sourceRefName''),
          lit (nl @ ''**Target**: ''), interp (get_prop raw ''targetRefName''), lit nl,
          ebind (get_prop raw ''description'') (\<lambda>d.
            if truthy d then template [lit ''**Description**: '', interp (get_prop raw ''description'')]
            else lit [])]
     else if nm = ''search_code'' then
       render_list raw ''results.map'' ''No code search results found.''
         ''Code Search Results''
         ''| Project | Repository | Path | Matches |''
         ''|---------|------------|------|---------|''
         row_code_result
     else if nm = ''search_work_items'' then
       render_list raw ''results.map'' ''No work item search results found.''
         ''Work Item Search Results''
         ''| ID | Title | State | Type |''
         ''|----|-------|-------|------|''
         row_work_item_result
     else if nm = ''list_wikis'' then
       render_list raw ''wikis.map'' ''No wikis found.''
         ''Wikis''
         ''| ID | Name | Type | Project ID |''
         ''|----|------|------|------------|''
         row_wiki
     else if nm = ''get_wiki_page'' then
       template
         [lit ''## Wiki Page: '', interp (val (or_value (a ''path'') (Str ''/''))), lit nl,
          interp (val raw)]
     else if nm = ''list_team_iterations'' then
       render_list raw ''iterations.map'' ''No iterations found for this team.''
         ''Iterations''
         ''| ID | Name | Path | Dates |''
         ''|----|------|------|-------|''
         row_team_iteration
     else if nm = ''list_test_plans'' then
       render_list raw ''testPlans.map'' ''No test plans found.''
         ''Test Plans''
         ''| ID | Name | Description | Area Path | Iteration |''
         ''|----|------|-------------|-----------|-----------|''
         row_test_plan
     else if nm = ''list_project_teams'' then
       render_list raw ''teams.map'' ''No teams found.''
         ''Teams''
         ''| ID | Name | Description | Project |''
         ''|----|------|-------------|---------|''
         row_team
     else if nm = ''get_identity_ids'' then
       (if \<not> truthy raw then Inr ''No identities found.''
        else render_list raw ''identities.map'' ''No identities found.''
            ''Identities''
            ''| Local ID | Display Name | Unique Name | Subject Descriptor |''
            ''|----------|--------------|-------------|-------------------|''
            row_identity)
     else if nm = ''get_current_user'' then
       template
         [lit (''## Current User'' @ nl @ ''**ID**: ''), interp (get_prop raw ''id''),
          lit (nl @ ''**Display Name**: ''), interp (get_prop raw ''displayName''),
          lit (nl @ ''**Unique Name**: ''), interp (get_prop raw ''uniqueName''),
          lit (nl @ ''**Email**: ''), interp (orv (get_prop raw ''email'') (estr ''N/A''))]
     else if nm = ''list_work_item_types'' then
       render_list raw ''types.map'' ''No work item types found.''
         ''Work Item Types''
         ''| Name | Reference Name | Description |''
         ''|------|----------------|-------------|''
         row_work_item_type
     else if nm = ''list_iterations'' then
       render_list raw ''iterations.map'' ''No iterations found.''
         ''Iterations''
         ''| ID | Name | Path | Dates |''
         ''|----|------|------|-------|''
         row_iteration
     else if nm = ''list_build_definitions'' then
       render_list raw ''definitions.map'' ''No build definitions found.''
         ''Build Definitions''
         ''| ID | Name | Path | Queue Status |''
         ''|----|------|------|-------------|''
         row_build_definition
     else if nm = ''list_release_definitions'' then
       render_list raw ''definitions.map'' ''No release definitions found.''
         ''Release Definitions''
         ''| ID | Name | Path | Release Name Format |''
         ''|----|------|------|-------------------|''
         row_release_definition
     else if nm = ''list_queries'' then
       render_list raw ''queries.map'' ''No queries found.''
         ''Queries''
         ''| ID | Name | Path | Type |''
         ''|----|------|------|------|''
         row_query
     else if nm = ''get_work_item_revisions'' then
       render_list raw ''revisions.map'' ''No revisions found for this work item.''
         ''Work Item Revisions''
         ''| Rev | Changed Date | Changed By | State |''
         ''|-----|--------------|------------|-------|''
         row_revision
     else if nm = ''get_work_item_links'' then
       render_list raw ''links.map'' ''No links found for this work item.''
         ''Work Item Links''
         ''| Relation | URL | Name |''
         ''|----------|-----|------|''
         row_link
     else if nm = ''create_pull_request'' then
       template
         [lit (check_mark @ '' Pull request created successfully!'' @ nl @ ''**ID**: ''),
          interp (get_prop raw ''pullRequestId''),
          lit (nl @ ''**Title**: ''), interp (val (a ''title'')),
          lit (nl @ ''**Repository**: ''), interp (or_empty (qdot (get_prop raw ''repository'') ''name'')),
          lit (nl @ ''**Source**: ''), interp (val (a ''sourceBranch'')),
          lit (nl @ ''**Target**: ''), interp (val (a ''targetBranch'')),
          lit (nl @ ''**Status**: ''), interp (get_prop raw ''status''),
          lit (nl @ ''**URL**: ''), interp (orv (get_prop raw ''url'') (estr ''N/A'')), lit nl,
          (if truthy (a ''description'')
           then template [lit ''**Description**: '', interp (val (a ''description''))] else lit [])]
     else if nm = ''list_commits'' then
       render_list raw ''commits.map'' ''No commits found.''
         ''Commits''
         ''| Commit | Author | Message | Date |''
         ''|--------|--------|---------|------|''
         row_commit
     else if nm = ''get_file_content'' then
       template
         [lit ''## File: '', interp (val (a ''path'')), lit (nl @ ''```'' @ nl), interp (val raw),
          lit (nl @ ''```'')]
     else if nm = ''list_areas'' then
       render_list raw ''areas.map'' ''No areas found.''
         ''Areas''
         ''| ID | Name | Path | Type |''
         ''|----|------|------|------|''
         row_area
     else if nm = ''list_iteration_capacities'' then
       render_list raw ''capacities.map'' ''No capacities found for this iteration.''
         ''Iteration Capacities''
         ''| Team Member | Activities | Days Off |''
         ''|-------------|------------|----------|''
         row_capacity
     else if nm = ''list_work_item_categories'' then
       render_list raw ''categories.map'' ''No work item categories found.''
         ''Work Item Categories''
         ''| Name | Reference Name | Default Work Item Type |''
         ''|------|----------------|------------------------|''
         row_category
     else if nm = ''list_dashboards'' then
       render_list raw ''dashboards.map'' ''No dashboards found.''
         ''Dashboards''
         ''| ID | Name | Description | Modified |''
         ''|----|------|-------------|----------|''
         row_dashboard
     else if nm = ''list_pipelines'' then
       render_list raw ''pipelines.map'' ''No pipelines found.''
         ''Pipelines''
         ''| ID | Name | Folder | Revision |''
         ''|----|------|--------|----------|''
         row_pipeline
     else if nm = ''list_test_suites'' then
       render_list raw ''testSuites.map'' ''No test suites found.''
         ''Test Suites''
         ''| ID | Name | Test Cases | Type |''
         ''|----|------|------------|------|''
         row_test_suite
     else if nm = ''list_variable_groups'' then
       render_list raw ''variableGroups.map'' ''No variable groups found.''
         ''Variable Groups''
         ''| ID | Name | Description | Project |''
         ''|----|------|-------------|---------|''
         row_variable_group
     else if nm = ''list_service_endpoints'' then
       render_list raw ''serviceEndpoints.map'' ''No service endpoints found.''
         ''Service Endpoints''
         ''| ID | Name | Type | Status |''
         ''|----|------|------|--------|''
         row_service_endpoint
     else if nm = ''list_tags'' then
       render_list raw ''tags.map'' ''No tags found.''
         ''Tags''
         ''| ID | Name | Status |''
         ''|----|------|--------|''
         row_tag
     else if nm = ''list_team_members'' then
       render_list raw ''members.map'' ''No team members found.''
         ''Team Members''
         ''| Display Name | Unique Name | ID |''
         ''|--------------|-------------|----|''
         row_team_member
     else if nm = ''list_boards'' then
       render_list raw ''boards.map'' ''No boards found.''
         ''Boards''
         ''| ID | Name | Description |''
         ''|----|------|-------------|''
         row_board
     else if nm = ''list_board_columns'' then
       render_list raw ''columns.map'' ''No board columns found.''
         ''Board Columns''
         ''| ID | Name | Item Limit | Type |''
         ''|----|------|------------|------|''
         row_board_column
     else if nm = ''list_board_rows'' then
       render_list raw ''rows.map'' ''No board rows found.''
         ''Board Rows''
         ''| ID | Name | Rank |''
         ''|----|------|------|''
         row_board_row
     else if nm = ''list_work_item_states'' then
       render_list raw ''states.map'' ''No work item states found.''
         ''Work Item States''
         ''| Name | Category | Color | Order |''
         ''|------|----------|-------|-------|''
         row_state
     else if nm = ''list_work_item_fields'' then
       render_list raw ''fields.map'' ''No work item fields found.''
         ''Work Item Fields''
         ''| Reference Name | Name | Type | Access |''
         ''|----------------|------|------|--------|''
         row_field
     else if nm = ''list_work_item_updates'' then
       render_list raw ''updates.map'' ''No updates found for this work item.''
         ''Work Item Updates''
         ''| Update ID | Revision | Changed Date | Changed By |''
         ''|-----------|----------|--------------|------------|''
         row_update
     else if nm = ''list_work_item_attachments'' then
       render_list raw ''attachments.map'' ''No attachments found for this work item.''
         ''Work Item Attachments''
         ''| ID | Name | Size | Created Date |''
         ''|----|------|------|--------------|''
         row_attachment
     else if nm = ''list_work_item_comments'' then
       render_list raw ''comments.map'' ''No comments found for this work item.''
         ''Work Item Comments''
         ''| ID | Text | Created By | Created Date |''
         ''|----|------|------------|--------------|''
         row_comment
     else if nm = ''list_work_item_relations'' then
       render_list raw ''relations.map'' ''No relations found for this work item.''
         ''Work Item Relations''
         ''| Relation | URL | Name |''
         ''|----------|-----|------|''
         row_link
     else if nm = ''list_work_item_query_results'' then
       render_list raw ''workItems.map'' ''No work items found for this query.''
         ''Query Results''
         ''| ID | Title | State | Assigned To | Type |''
         ''|----|-------|-------|-------------|------|''
         row_work_item
     else Inl (Error (''Unknown tool: '' @ nm)))"

subsection \<open>The handler\<close>

text \<open>
  \<open>error.message\<close>: the text of a thrown error. An axios error with a response says
  which status it got.
\<close>

definition message :: "js_error \<Rightarrow> string" where
  "message e = (case e of
       TypeError m \<Rightarrow> m
     | Error m \<Rightarrow> m
     | HttpError st \<Rightarrow> ''Request failed with status code '' @ digits_of st
     | NetworkError m \<Rightarrow> m)"

text \<open>
  The result of a tool call: one text block, and \<open>isError\<close> (set only by the
  \<open>catch\<close>).
\<close>

record tool_result =
  content_text :: string
  isError :: bool

text \<open>The \<open>try\<close> block: dispatch, then render.\<close>

definition call_tool_body :: "backend \<Rightarrow> client \<Rightarrow> string \<Rightarrow> jv \<Rightarrow> tool_result io" where
  "call_tool_body be c nm args =
     io_bind (mcp_call be c nm args) (\<lambda>raw.
       io_lift (ebind (mcp_format nm raw args) (\<lambda>formatted.
         Inr \<lparr>content_text = formatted, isError = False\<rparr>)))"

text \<open>
  The handler of \<open>CallToolRequestSchema\<close>: the \<open>try\<close> block, and the \<open>catch\<close> that
  turns whatever was thrown into an error result. An \<open>Inl\<close> outcome of the handler would
  be an exception reaching the caller.
\<close>

definition handle_call_tool :: "backend \<Rightarrow> client \<Rightarrow> string \<Rightarrow> jv \<Rightarrow> tool_result io" where
  "handle_call_tool be c nm args =
     (case call_tool_body be c nm args of
        (tr, Inl error) \<Rightarrow> (tr, Inr \<lparr>content_text = ''Error: '' @ message error, isError = True\<rparr>)
      | (tr, Inr result) \<Rightarrow> (tr, Inr result))"

section \<open>The HTTP endpoints\<close>

subsection \<open>The rendering step of \<open>POST /api/tools/:name\<close>\<close>

text \<open>
  The chain \<open>if (name === ...) ... else if ... else formatted = JSON.stringify(rawResult, null, 2)\<close>
  that follows the switch of the endpoint. Here \<open>args\<close> is the request body and is read
  with \<open>args.k\<close>. \<open>JSON.stringify\<close> with its indentation is a parameter, for payloads
  other than \<open>undefined\<close>.
\<close>

definition http_format :: "(jv \<Rightarrow> string) \<Rightarrow> string \<Rightarrow> jv \<Rightarrow> jv \<Rightarrow> js_error + string" where
  "http_format stringify nm raw args =
    (let b = get_prop args in
     if nm = ''list_projects'' then
       render_list raw ''projects.map'' ''No projects found.''
         ''Projects''
         ''| ID | Name | Description | URL |''
         ''|----|------|-------------|-----|''
         row_project
     else if nm = ''query_work_items'' then
       render_list raw ''workItems.map'' ''No work items found.''
         ''Work Items''
         ''| ID | Title | State | Assigned To | Type |''
         ''|----|-------|-------|-------------|------|''
         row_work_item
     else if nm = ''get_work_items_by_ids'' then
       render_list raw ''workItems.map'' ''No work items found.''
         ''Work Items''
         ''| ID | Title | State | Assigned To | Type |''
         ''|----|-------|-------|-------------|------|''
         row_work_item
     else if nm = ''get_builds'' then
       render_list raw ''builds.map'' ''No builds found.''
         ''Builds''
         ''| ID | Build Number | Status | Result | Queue Time | Branch |''
         ''|----|--------------|--------|--------|------------|--------|''
         row_build
     else if nm = ''get_releases'' then
       render_list raw ''releases.map'' ''No releases found.''
         ''Releases''
         ''| ID | Name | Status | Created | Modified |''
         ''|----|------|--------|---------|----------|''
         row_release
     else if nm = ''create_work_item'' then
       template
         [lit (check_mark @ '' Work item created successfully!'' @ nl @ ''**ID**: ''),
          interp (get_prop raw ''id''),
          lit (nl @ ''**Type**: ''), interp (b ''workItemType''),
          lit (nl @ ''**Title**: ''), interp (b ''title''),
          lit (nl @ ''**URL**: ''), interp (get_prop raw ''url''), lit nl,
          ebind (b ''description'') (\<lambda>d.
            if truthy d then template [lit ''**Description**: '', interp (b ''description'')]
            else lit [])]
     else if nm = ''update_work_item'' then
       ebind (ebind (orv (b ''fields'') (val (Obj []))) object_entries) (\<lambda>es.
         template
           [lit (check_mark @ '' Work item ''), interp (get_prop raw ''id''),
            lit ('' updated successfully!'' @ nl @ ''**Updated fields**:'' @ nl),
            lit (join nl (map field_line es)), lit nl,
            ebind (b ''comment'') (\<lambda>cm.
              if truthy cm then template [lit ''**Comment**: '', interp (b ''comment'')]
              else lit [])])
     else if nm = ''assign_work_item'' then
       template
         [lit (check_mark @ '' Work item ''), interp (get_prop raw ''id''),
          lit '' assigned to '', interp (b ''assignee''), lit ('' successfully!'' @ nl),
          ebind (b ''comment'') (\<lambda>cm.
            if truthy cm then template [lit ''**Comment**: '', interp (b ''comment'')]
            else lit [])]
     else if nm = ''list_repositories'' then
       render_list raw ''repos.map'' ''No repositories found.''
         ''Repositories''
         ''| ID | Name | Status | Fork | URL |''
         ''|----|------|--------|------|-----|''
         row_repository
     else if nm = ''list_branches'' then
       render_list raw ''branches.map'' ''No branches found.''
         ''Branches''
         ''| Name | Commit | Creator |''
         ''|------|--------|---------|''
         row_branch_http
     else if nm = ''list_pull_requests'' then
       render_list raw ''prs.map'' ''No pull requests found.''
         ''Pull Requests''
         ''| ID | Title | Status | Created By | Created |''
         ''|----|-------|--------|------------|---------|''
         row_pull_request_http
     else if nm = ''get_pull_request'' then
       template
         [lit ''## Pull Request '', interp (get_prop raw ''pullRequestId''),
          lit (nl @ ''**Title**: ''), interp (get_prop raw ''title''),
          lit (nl @ ''**Repository**: ''),
          interp (or_empty (qdot (get_prop raw ''repository'') ''name'')),
          lit (nl @ ''**Status**: ''), interp (get_prop raw ''status''),
          lit (nl @ ''**Created By**: ''),
          interp (or_empty (qdot (get_prop raw ''createdBy'') ''displayName'')),
          lit '' ('', interp (or_empty (qdot (get_prop raw ''createdBy'') ''uniqueName'')), lit '')'',
          lit (nl @ ''**Created**: ''), interp (get_prop raw ''creationDate''),
          lit (nl @ ''**Source**: ''), interp (get_prop raw ''sourceRefName''),
          lit (nl @ ''**Target**: ''), interp (get_prop raw ''targetRefName''), lit nl,
          ebind (get_prop raw ''description'') (\<lambda>d.
            if truthy d then template [lit ''**Description**: '', interp (get_prop raw ''description'')]
            else lit [])]
     else if nm = ''search_code'' then
       render_list raw ''results.map'' ''No code search results found.''
         ''Code Search Results''
         ''| Project | Repository | Path | Matches |''
         ''|---------|------------|------|---------|''
         row_code_result
     else if nm = ''search_work_items'' then
       render_list raw ''results.map'' ''No work item search results found.''
         ''Work Item Search Results''
         ''| ID | Title | State | Type |''
         ''|----|-------|-------|------|''
         row_work_item_result
     else if nm = ''list_wikis'' then
       render_list raw ''wikis.map'' ''No wikis found.''
         ''Wikis''
         ''| ID | Name | Type | Project ID |''
         ''|----|------|------|------------|''
         row_wiki
     else if nm = ''get_wiki_page'' then
       template
         [lit ''## Wiki Page: '', interp (orv (b ''path'') (estr ''/'')), lit nl, interp (val raw)]
     else if nm = ''list_team_iterations'' then
       render_list raw ''iterations.map'' ''No iterations found for this team.''
         ''Iterations''
         ''| ID | Name | Path | Dates |''
         ''|----|------|------|-------|''
         row_iteration
     else if nm = ''list_test_plans'' then
       render_list raw ''testPlans.map'' ''No test plans found.''
         ''Test Plans''
         ''| ID | Name | Description | Area Path | Iteration |''
         ''|----|------|-------------|-----------|-----------|''
         row_test_plan
     else if nm = ''list_project_teams'' then
       render_list raw ''teams.map'' ''No teams found.''
         ''Teams''
         ''| ID | Name | Description | Project |''
         ''|----|------|-------------|---------|''
         row_team
     else if nm = ''get_identity_ids'' then
       (if \<not> truthy raw then Inr ''No identities found.''
        else render_list raw ''identities.map'' ''No identities found.''
            ''Identities''
            ''| Local ID | Display Name | Unique Name | Subject Descriptor |''
            ''|----------|--------------|-------------|-------------------|''
            row_identity)
     else if nm = ''get_current_user'' then
       template
         [lit (''## Current User'' @ nl @ ''**ID**: ''), interp (get_prop raw ''id''),
          lit (nl @ ''**Display Name**: ''), interp (get_prop raw ''displayName''),
          lit (nl @ ''**Unique Name**: ''), interp (get_prop raw ''uniqueName''),
          lit (nl @ ''**Email**: ''), interp (orv (get_prop raw ''email'') (estr ''N/A''))]
     else if nm = ''list_work_item_types'' then
       render_list raw ''types.map'' ''No work item types found.''
         ''Work Item Types''
         ''| Name | Reference Name | Description |''
         ''|------|----------------|-------------|''
         row_work_item_type
     else if nm = ''list_iterations'' then
       render_list raw ''iterations.map'' ''No iterations found.''
         ''Iterations''
         ''| ID | Name | Path | Dates |''
         ''|----|------|------|-------|''
         row_iteration
     else if nm = ''list_build_definitions'' then
       render_list raw ''definitions.map'' ''No build definitions found.''
         ''Build Definitions''
         ''| ID | Name | Path | Queue Status |''
         ''|----|------|------|-------------|''
         row_build_definition
     else if nm = ''list_release_definitions'' then
       render_list raw ''definitions.map'' ''No release definitions found.''
         ''Release Definitions''
         ''| ID | Name | Path | Release Name Format |''
         ''|----|------|------|-------------------|''
         row_release_definition
     else if nm = ''list_queries'' then
       render_list raw ''queries.map'' ''No queries found.''
         ''Queries''
         ''| ID | Name | Path | Type |''
         ''|----|------|------|------|''
         row_query
     else if nm = ''get_work_item_revisions'' then
       render_list raw ''revisions.map'' ''No revisions found for this work item.''
         ''Work Item Revisions''
         ''| Rev | Changed Date | Changed By | State |''
         ''|-----|--------------|------------|-------|''
         row_revision
     else if nm = ''get_work_item_links'' then
       render_list raw ''links.map'' ''No links found for this work item.''
         ''Work Item Links''
         ''| Relation | URL | Name |''
         ''|----------|-----|------|''
         row_link
     else if nm = ''create_pull_request'' then
       template
         [lit (check_mark @ '' Pull request created successfully!'' @ nl @ ''**ID**: ''),
          interp (get_prop raw ''pullRequestId''),
          lit (nl @ ''**Title**: ''), interp (b ''title''),
          lit (nl @ ''**Repository**: ''), interp (or_empty (qdot (get_prop raw ''repository'') ''name'')),
          lit (nl @ ''**Source**: ''), interp (b ''sourceBranch''),
          lit (nl @ ''**Target**: ''), interp (b ''targetBranch''),
          lit (nl @ ''**Status**: ''), interp (get_prop raw ''status''),
          lit (nl @ ''**URL**: ''), interp (orv (get_prop raw ''url'') (estr ''N/A'')), lit nl,
          ebind (b ''description'') (\<lambda>d.
            if truthy d then template [lit ''**Description**: '', interp (b ''description'')]
            else lit [])]
     else if nm = ''list_commits'' then
       render_list raw ''commits.map'' ''No commits found.''
         ''Commits''
         ''| Commit | Author | Message | Date |''
         ''|--------|--------|---------|------|''
         row_commit
     else if nm = ''get_file_content'' then
       template
         [lit ''## File: '', interp (b ''path''), lit (nl @ ''```'' @ nl), interp (val raw),
          lit (nl @ ''```'')]
     else Inr (stringify raw))"

text \<open>
  The rendering chain of \<open>POST /api/chat\<close> is the same text with \<open>functionName\<close> and
  \<open>functionArgs\<close> for \<open>name\<close> and \<open>args\<close>, except in the branch of
  \<open>update_work_item\<close>, which lists the fields of
  \<open>safeFields = typeof fields === 'object' && fields !== null ? fields : {}\<close>.
\<close>

fun is_object :: "jv \<Rightarrow> bool" where
  "is_object (Obj kvs) = True"
| "is_object (Arr xs) = True"
| "is_object v = False"

definition safe_fields :: "jv \<Rightarrow> js_error + jv" where
  "safe_fields functionArgs =
     ebind (orv (get_prop functionArgs ''fields'') (val (Obj []))) (\<lambda>flds.
       Inr (if is_object flds then flds else Obj []))"

definition chat_format :: "(jv \<Rightarrow> string) \<Rightarrow> string \<Rightarrow> jv \<Rightarrow> jv \<Rightarrow> js_error + string" where
  "chat_format stringify functionName raw functionArgs =
    (if functionName = ''update_work_item'' then
       ebind (ebind (safe_fields functionArgs) object_entries) (\<lambda>es.
         template
           [lit (check_mark @ '' Work item ''), interp (get_prop raw ''id''),
            lit ('' updated successfully!'' @ nl @ ''**Updated fields**:'' @ nl),
            lit (join nl (map field_line es)), lit nl,
            ebind (get_prop functionArgs ''comment'') (\<lambda>cm.
              if truthy cm
              then template [lit ''**Comment**: '', interp (get_prop functionArgs ''comment'')]
              else lit [])])
     else http_format stringify functionName raw functionArgs)"

subsection \<open>The switch of \<open>POST /api/tools/:name\<close>\<close>

text \<open>
  The endpoint passes the properties of the request body to the client method as they
  are: it checks none and defaults none. The labels of its switch are those of
  \<open>dispatcher_cases\<close>, in the same order; a name without a label is answered by the
  endpoint itself (\<open>handle_http_tool\<close>) and never reaches the last branch here.
\<close>

definition with_arg :: "jv \<Rightarrow> string \<Rightarrow> (jv \<Rightarrow> 'a io) \<Rightarrow> 'a io" where
  "with_arg args k f = io_bind (io_lift (get_prop args k)) f"

definition http_call :: "backend \<Rightarrow> client \<Rightarrow> string \<Rightarrow> jv \<Rightarrow> jv io" where
  "http_call be c nm args =
    (let w = with_arg args in
     if nm = ''list_projects'' then getProjects be c
     else if nm = ''query_work_items'' then w ''wiql'' (\<lambda>wiql. queryWorkItems be c wiql)
     else if nm = ''get_work_items_by_ids'' then w ''ids'' (\<lambda>ids. getWorkItems be c ids)
     else if nm = ''get_builds'' then
       w ''definitionId'' (\<lambda>d. w ''top'' (\<lambda>t. getBuilds be c d t))
     else if nm = ''get_releases'' then w ''top'' (\<lambda>t. getReleases be c t)
     else if nm = ''create_work_item'' then
       w ''workItemType'' (\<lambda>ty. w ''title'' (\<lambda>ti. w ''description'' (\<lambda>d.
         w ''additionalFields'' (\<lambda>af. createWorkItem be c ty ti d af))))
     else if nm = ''update_work_item'' then
       w ''id'' (\<lambda>i. w ''fields'' (\<lambda>f. w ''comment'' (\<lambda>cm. updateWorkItem be c i f cm)))
     else if nm = ''assign_work_item'' then
       w ''id'' (\<lambda>i. w ''assignee'' (\<lambda>a. w ''comment'' (\<lambda>cm. assignWorkItem be c i a cm)))
     else if nm = ''list_repositories'' then w ''project'' (\<lambda>p. getRepositories be c p)
     else if nm = ''list_branches'' then
       w ''repositoryId'' (\<lambda>r. w ''project'' (\<lambda>p. getBranches be c r p))
     else if nm = ''list_pull_requests'' then
       w ''repositoryId'' (\<lambda>r. w ''project'' (\<lambda>p. w ''top'' (\<lambda>t. w ''status'' (\<lambda>s.
         getPullRequests be c r p t s))))
     else if nm = ''get_pull_request'' then
       w ''repositoryId'' (\<lambda>r. w ''pullRequestId'' (\<lambda>i. w ''project'' (\<lambda>p.
         getPullRequestById be c r i p)))
     else if nm = ''search_code'' then
       w ''searchText'' (\<lambda>s. w ''project'' (\<lambda>p. w ''repository'' (\<lambda>r. w ''top'' (\<lambda>t.
         searchCode be c s p r t))))
     else if nm = ''search_work_items'' then
       w ''searchText'' (\<lambda>s. w ''project'' (\<lambda>p. w ''top'' (\<lambda>t. searchWorkItems be c s p t)))
     else if nm = ''list_wikis'' then w ''project'' (\<lambda>p. getWikis be c p)
     else if nm = ''get_wiki_page'' then
       w ''wikiIdentifier'' (\<lambda>i. w ''project'' (\<lambda>p. w ''path'' (\<lambda>pa.
         getWikiPageContent be c i p pa)))
     else if nm = ''list_team_iterations'' then
       w ''project'' (\<lambda>p. w ''team'' (\<lambda>t. getTeamIterations be c p t))
     else if nm = ''list_test_plans'' then w ''project'' (\<lambda>p. getTestPlans be c p)
     else if nm = ''list_project_teams'' then
       w ''project'' (\<lambda>p. w ''mine'' (\<lambda>m. w ''top'' (\<lambda>t. w ''skip'' (\<lambda>s.
         getTeams be c p m t s))))
     else if nm = ''get_identity_ids'' then w ''searchFilter'' (\<lambda>s. searchIdentities be c s)
     else if nm = ''get_current_user'' then getCurrentUser be c
     else if nm = ''list_work_item_types'' then w ''project'' (\<lambda>p. getWorkItemTypes be c p)
     else if nm = ''list_iterations'' then w ''project'' (\<lambda>p. getIterations be c p)
     else if nm = ''list_build_definitions'' then w ''project'' (\<lambda>p. getBuildDefinitions be c p)
     else if nm = ''list_release_definitions'' then w ''project'' (\<lambda>p. getReleaseDefinitions be c p)
     else if nm = ''list_queries'' then w ''project'' (\<lambda>p. getQueries be c p)
     else if nm = ''get_work_item_revisions'' then
       w ''id'' (\<lambda>i. w ''project'' (\<lambda>p. getWorkItemRevisions be c i p))
     else if nm = ''get_work_item_links'' then
       w ''id'' (\<lambda>i. w ''project'' (\<lambda>p. getWorkItemLinks be c i p))
     else if nm = ''create_pull_request'' then
       w ''repositoryId'' (\<lambda>r. w ''sourceBranch'' (\<lambda>s. w ''targetBranch'' (\<lambda>t. w ''title'' (\<lambda>ti.
         w ''description'' (\<lambda>d. w ''project'' (\<lambda>p. createPullRequest be c r s t ti d p))))))
     else if nm = ''list_commits'' then
       w ''repositoryId'' (\<lambda>r. w ''project'' (\<lambda>p. w ''top'' (\<lambda>t. getCommits be c r p t)))
     else if nm = ''get_file_content'' then
       w ''repositoryId'' (\<lambda>r. w ''path'' (\<lambda>pa. w ''project'' (\<lambda>p. getFileContent be c r pa p)))
     else if nm = ''list_areas'' then w ''project'' (\<lambda>p. getAreas be c p)
     else if nm = ''list_iteration_capacities'' then
       w ''project'' (\<lambda>p. w ''team'' (\<lambda>t. w ''iterationId'' (\<lambda>i.
         getIterationCapacities be c p t i)))
     else if nm = ''list_work_item_categories'' then w ''project'' (\<lambda>p. getWorkItemCategories be c p)
     else if nm = ''list_dashboards'' then w ''project'' (\<lambda>p. getDashboards be c p)
     else if nm = ''list_pipelines'' then w ''project'' (\<lambda>p. getPipelines be c p)
     else if nm = ''list_test_suites'' then
       w ''project'' (\<lambda>p. w ''planId'' (\<lambda>i. getTestSuites be c p i))
     else if nm = ''list_variable_groups'' then w ''project'' (\<lambda>p. getVariableGroups be c p)
     else if nm = ''list_service_endpoints'' then w ''project'' (\<lambda>p. getServiceEndpoints be c p)
     else if nm = ''list_tags'' then w ''project'' (\<lambda>p. getTags be c p)
     else if nm = ''list_team_members'' then
       w ''project'' (\<lambda>p. w ''team'' (\<lambda>t. getTeamMembers be c p t))
     else if nm = ''list_boards'' then w ''project'' (\<lambda>p. w ''team'' (\<lambda>t. getBoards be c p t))
     else if nm = ''list_board_columns'' then
       w ''project'' (\<lambda>p. w ''team'' (\<lambda>t. w ''board'' (\<lambda>b. getBoardColumns be c p t b)))
     else if nm = ''list_board_rows'' then
       w ''project'' (\<lambda>p. w ''team'' (\<lambda>t. w ''board'' (\<lambda>b. getBoardRows be c p t b)))
     else if nm = ''list_work_item_states'' then
       w ''project'' (\<lambda>p. w ''workItemType'' (\<lambda>ty. getWorkItemStates be c p ty))
     else if nm = ''list_work_item_fields'' then w ''project'' (\<lambda>p. getWorkItemFields be c p)
     else if nm = ''list_work_item_updates'' then
       w ''id'' (\<lambda>i. w ''project'' (\<lambda>p. getWorkItemUpdates be c i p))
     else if nm = ''list_work_item_attachments'' then
       w ''id'' (\<lambda>i. w ''project'' (\<lambda>p. getWorkItemAttachments be c i p))
     else if nm = ''list_work_item_comments'' then
       w ''id'' (\<lambda>i. w ''project'' (\<lambda>p. getWorkItemComments be c i p))
     else if nm = ''list_work_item_relations'' then
       w ''id'' (\<lambda>i. w ''project'' (\<lambda>p. getWorkItemRelations be c i p))
     else if nm = ''list_work_item_query_results'' then
       w ''project'' (\<lambda>p. w ''queryId'' (\<lambda>q. getQueryResults be c p q))
     else throw ''Unsupported tool'')"

text \<open>
  What the endpoint answers: an error body \<open>{ error }\<close> with its status, or
  \<open>{ result, raw }\<close> with status 200.
\<close>

datatype http_reply =
    Reply_error nat string
  | Reply_result string jv

text \<open>
  The endpoint: \<open>tools.find\<close>, the switch with its \<open>default\<close>, the rendering, and the
  \<open>catch\<close> around all of it. An \<open>Inl\<close> outcome would be an exception leaving the
  endpoint.
\<close>

definition handle_http_tool ::
  "(jv \<Rightarrow> string) \<Rightarrow> backend \<Rightarrow> client \<Rightarrow> string \<Rightarrow> jv \<Rightarrow> http_reply io" where
  "handle_http_tool stringify be c nm args =
     (case find (\<lambda>t. name t = nm) tools of
        None \<Rightarrow> ([], Inr (Reply_error 404 ''Tool not found''))
      | Some tool \<Rightarrow>
          if nm \<notin> set dispatcher_cases then ([], Inr (Reply_error 400 ''Unsupported tool''))
          else (case http_call be c nm args of
                  (tr, Inl error) \<Rightarrow> (tr, Inr (Reply_error 500 (message error)))
                | (tr, Inr rawResult) \<Rightarrow>
                    (case http_format stringify nm rawResult args of
                       Inl error \<Rightarrow> (tr, Inr (Reply_error 500 (message error)))
                     | Inr formatted \<Rightarrow> (tr, Inr (Reply_result formatted rawResult)))))"

section \<open>The messages for an empty result\<close>

text \<open>
  The list-shaped tools, each with the message its case returns for an empty sequence.
  They are the tools of the registry other than the three mutations, the three
  single-record lookups and the two content lookups.
\<close>

definition empty_result_messages :: "(string \<times> string) list" where
  "empty_result_messages = [
   (''list_projects'', ''No projects found.''),
   (''query_work_items'', ''No work items match the query.''),
   (''get_work_items_by_ids'', ''No work items found with those IDs.''),
   (''get_builds'', ''No builds found.''),
   (''get_releases'', ''No releases found.''),
   (''list_repositories'', ''No repositories found.''),
   (''list_branches'', ''No branches found.''),
   (''list_pull_requests'', ''No pull requests found.''),
   (''search_code'', ''No code search results found.''),
   (''search_work_items'', ''No work item search results found.''),
   (''list_wikis'', ''No wikis found.''),
   (''list_team_iterations'', ''No iterations found for this team.''),
   (''list_test_plans'', ''No test plans found.''),
   (''list_project_teams'', ''No teams found.''),
   (''get_identity_ids'', ''No identities found.''),
   (''list_work_item_types'', ''No work item types found.''),
   (''list_iterations'', ''No iterations found.''),
   (''list_build_definitions'', ''No build definitions found.''),
   (''list_release_definitions'', ''No release definitions found.''),
   (''list_queries'', ''No queries found.''),
   (''get_work_item_revisions'', ''No revisions found for this work item.''),
   (''get_work_item_links'', ''No links found for this work item.''),
   (''list_commits'', ''No commits found.''),
   (''list_areas'', ''No areas found.''),
   (''list_iteration_capacities'', ''No capacities found for this iteration.''),
   (''list_work_item_categories'', ''No work item categories found.''),
   (''list_dashboards'', ''No dashboards found.''),
   (''list_pipelines'', ''No pipelines found.''),
   (''list_test_suites'', ''No test suites found.''),
   (''list_variable_groups'', ''No variable groups found.''),
   (''list_service_endpoints'', ''No service endpoints found.''),
   (''list_tags'', ''No tags found.''),
   (''list_team_members'', ''No team members found.''),
   (''list_boards'', ''No boards found.''),
   (''list_board_columns'', ''No board columns found.''),
   (''list_board_rows'', ''No board rows found.''),
   (''list_work_item_states'', ''No work item states found.''),
   (''list_work_item_fields'', ''No work item fields found.''),
   (''list_work_item_updates'', ''No updates found for this work item.''),
   (''list_work_item_attachments'', ''No attachments found for this work item.''),
   (''list_work_item_comments'', ''No comments found for this work item.''),
   (''list_work_item_relations'', ''No relations found for this work item.''),
   (''list_work_item_query_results'', ''No work items found for this query.'')]"

definition single_result_tools :: "string list" where
  "single_result_tools = [''create_work_item'', ''update_work_item'', ''assign_work_item'',
     ''create_pull_request'', ''get_pull_request'', ''get_current_user'', ''get_wiki_page'',
     ''get_file_content'']"

section \<open>Lines of a rendered block\<close>

text \<open>
  The lines of a text, and whether one of them is a labeled comment line, that is, starts
  with \<open>**Comment**: \<close>.
\<close>

fun split_lines :: "string \<Rightarrow> string list" where
  "split_lines [] = [] # []"
| "split_lines (ch # s) =
     (if ch = CHR 0x0A then [] # split_lines s
      else (case split_lines s of [] \<Rightarrow> [ch] # [] | l # ls \<Rightarrow> (ch # l) # ls))"

definition has_comment_line :: "string \<Rightarrow> bool" where
  "has_comment_line s = list_ex (\<lambda>l. take 13 l = ''**Comment**: '') (split_lines s)"

section \<open>The checks of the dispatcher\<close>

text \<open>
  The cases of the tool-call handler that check their required arguments before calling
  the client, each with the message of the error it throws.
\<close>

definition checked_tools :: "(string \<times> string) list" where
  "checked_tools = [
   (''query_work_items'', ''wiql argument is required''),
   (''get_work_items_by_ids'', ''ids argument must be an array of numbers''),
   (''create_work_item'', ''workItemType and title are required''),
   (''update_work_item'', ''id and fields are required''),
   (''assign_work_item'', ''id and assignee are required''),
   (''get_identity_ids'', ''searchFilter argument is required''),
   (''get_work_item_revisions'', ''id argument is required''),
   (''get_work_item_links'', ''id argument is required''),
   (''create_pull_request'', ''repositoryId, sourceBranch, targetBranch, and title are required''),
   (''list_commits'', ''repositoryId argument is required''),
   (''get_file_content'', ''repositoryId and path are required''),
   (''list_iteration_capacities'', ''project, team, and iterationId are required''),
   (''list_test_suites'', ''project and planId are required''),
   (''list_team_members'', ''project and team are required''),
   (''list_boards'', ''project and team are required''),
   (''list_board_columns'', ''project, team, and board are required''),
   (''list_board_rows'', ''project, team, and board are required''),
   (''list_work_item_states'', ''project and workItemType are required''),
   (''list_work_item_updates'', ''id is required''),
   (''list_work_item_attachments'', ''id is required''),
   (''list_work_item_comments'', ''id is required''),
   (''list_work_item_relations'', ''id is required''),
   (''list_work_item_query_results'', ''project and queryId are required'')]"

text \<open>The tools whose case passes its required arguments to the client unchecked.\<close>

definition unchecked_tools :: "string list" where
  "unchecked_tools = [''list_branches'', ''get_pull_request'', ''search_code'',
     ''search_work_items'', ''get_wiki_page'', ''list_team_iterations'', ''list_test_plans'',
     ''list_project_teams'']"

text \<open>\<open>s.includes(k)\<close>\<close>

fun str_includes :: "string \<Rightarrow> string \<Rightarrow> bool" where
  "str_includes [] k = (k = [])"
| "str_includes (ch # s) k = (take (length k) (ch # s) = k \<or> str_includes s k)"

text \<open>The required parameters the registry declares for a tool name.\<close>

definition required_of :: "string \<Rightarrow> string list" where
  "required_of nm = (case find (\<lambda>t. name t = nm) tools of None \<Rightarrow> [] | Some t \<Rightarrow> required t)"

section \<open>Evaluation helpers\<close>

lemma ebind_simps [simp]:
  "ebind (Inl e) f = Inl e"
  "ebind (Inr v) f = f v"
  by (simp_all add: ebind_def)

lemma opt_arg_empty [simp]: "opt_arg (Obj []) k = Undefined"
  by (simp add: opt_arg_def qdot_def val_def nullish_def)

lemma opt_arg_Undefined [simp]: "opt_arg Undefined k = Undefined"
  by (simp add: opt_arg_def qdot_def val_def nullish_def)

lemma opt_arg_Obj: "opt_arg (Obj kvs) k = (case map_of kvs k of None \<Rightarrow> Undefined | Some v \<Rightarrow> v)"
  by (simp add: opt_arg_def qdot_def val_def nullish_def)

lemmas io_defs = io_bind_def io_lift_def send_def fetch_prop_def fetch_prop_or_empty_def

lemmas expr_defs = val_def dot_def qdot_def qindex0_def orv_def cond_def estr_def or_empty_def
  substring8_def qsubstring8_def js_map_def lit_def interp_def template_def table_row_def
  nullish_def

lemma digits_of_small: "n < 10 \<Longrightarrow> digits_of n = [digit_char n]"
  by (simp add: digits_of.simps)

lemma string_of_int_7: "string_of_int 7 = ''7''"
  by (simp add: string_of_int_def digits_of_small digit_char_def)

lemma string_of_int_9: "string_of_int 9 = ''9''"
  by (simp add: string_of_int_def digits_of_small digit_char_def)

lemma string_of_int_10: "string_of_int 10 = ''10''"
  by (simp add: string_of_int_def digits_of.simps [of 10] digits_of_small digit_char_def)

lemma digits_of_404: "digits_of 404 = ''404''"
  by (simp add: digits_of.simps [of 404] digits_of.simps [of 40] digits_of_small digit_char_def)

lemma fst_fetch_prop_value: "fst (fetch_prop be rq k) = [rq]"
  by (cases "be rq") (auto simp add: io_defs split: sum.splits)

lemma string_of_int_5: "string_of_int 5 = ''5''"
  by (simp add: string_of_int_def digits_of_small digit_char_def)

lemma tool_names_eq:
  "tool_names = [
   ''list_projects'', ''list_project_teams'', ''get_identity_ids'', ''query_work_items'',
   ''get_work_items_by_ids'', ''get_builds'', ''get_releases'', ''create_work_item'',
   ''update_work_item'', ''assign_work_item'', ''list_repositories'', ''list_branches'',
   ''list_pull_requests'', ''get_pull_request'', ''search_code'', ''search_work_items'',
   ''list_wikis'', ''get_wiki_page'', ''list_team_iterations'', ''list_test_plans'',
   ''get_current_user'', ''list_work_item_types'', ''list_iterations'',
   ''list_build_definitions'', ''list_release_definitions'', ''list_queries'',
   ''get_work_item_revisions'', ''get_work_item_links'', ''create_pull_request'',
   ''list_commits'', ''get_file_content'', ''list_areas'', ''list_iteration_capacities'',
   ''list_work_item_categories'', ''list_dashboards'', ''list_pipelines'', ''list_test_suites'',
   ''list_variable_groups'', ''list_service_endpoints'', ''list_tags'', ''list_team_members'',
   ''list_boards'', ''list_board_columns'', ''list_board_rows'', ''list_work_item_states'',
   ''list_work_item_fields'', ''list_work_item_updates'', ''list_work_item_attachments'',
   ''list_work_item_comments'', ''list_work_item_relations'', ''list_work_item_query_results'']"
  by (simp add: tool_names_def tools_def)

section \<open>Required parameters the dispatcher does not check\<close>

lemma mcp_call_list_branches:
  "mcp_call be c ''list_branches'' args =
     getBranches be c (opt_arg args ''repositoryId'') (opt_arg args ''project'')"
  by (simp add: mcp_call_def Let_def)

lemma fst_io_bind_lift: "fst (io_bind (fetch_prop be rq k) (\<lambda>v. io_lift (f v))) = [rq]"
  by (cases "be rq")
     (auto simp add: io_bind_def fetch_prop_def send_def io_lift_def split: sum.splits)

text \<open>
  Where the dispatcher does check. For each of the 23 cases with a check, a missing
  required argument makes the handler answer with the error of that case, which names
  the parameter, and no request reaches the backend. The eight cases of
  \<open>unchecked_tools\<close> declare required parameters and have no check; together the two
  lists cover every tool with a required parameter.
\<close>

lemma required_of_checked:
  "required_of ''query_work_items'' = [''wiql'']"
  "required_of ''get_work_items_by_ids'' = [''ids'']"
  "required_of ''create_work_item'' = [''workItemType'', ''title'']"
  "required_of ''update_work_item'' = [''id'', ''fields'']"
  "required_of ''assign_work_item'' = [''id'', ''assignee'']"
  "required_of ''get_identity_ids'' = [''searchFilter'']"
  "required_of ''get_work_item_revisions'' = [''id'']"
  "required_of ''get_work_item_links'' = [''id'']"
  "required_of ''create_pull_request'' = [''repositoryId'', ''sourceBranch'', ''targetBranch'', ''title'']"
  "required_of ''list_commits'' = [''repositoryId'']"
  "required_of ''get_file_content'' = [''repositoryId'', ''path'']"
  "required_of ''list_iteration_capacities'' = [''project'', ''team'', ''iterationId'']"
  "required_of ''list_test_suites'' = [''project'', ''planId'']"
  "required_of ''list_team_members'' = [''project'', ''team'']"
  "required_of ''list_boards'' = [''project'', ''team'']"
  "required_of ''list_board_columns'' = [''project'', ''team'', ''board'']"
  "required_of ''list_board_rows'' = [''project'', ''team'', ''board'']"
  "required_of ''list_work_item_states'' = [''project'', ''workItemType'']"
  "required_of ''list_work_item_updates'' = [''id'']"
  "required_of ''list_work_item_attachments'' = [''id'']"
  "required_of ''list_work_item_comments'' = [''id'']"
  "required_of ''list_work_item_relations'' = [''id'']"
  "required_of ''list_work_item_query_results'' = [''project'', ''queryId'']"
  by (simp_all add: required_of_def tools_def)

lemma checked_cases:
  "opt_arg args ''wiql'' = Undefined \<Longrightarrow>
     handle_call_tool be c ''query_work_items'' args =
       ([], Inr \<lparr>content_text = ''Error: wiql argument is required'', isError = True\<rparr>)"
  "opt_arg args ''ids'' = Undefined \<Longrightarrow>
     handle_call_tool be c ''get_work_items_by_ids'' args =
       ([], Inr \<lparr>content_text = ''Error: ids argument must be an array of numbers'', isError = True\<rparr>)"
  "opt_arg args ''workItemType'' = Undefined \<Longrightarrow>
     handle_call_tool be c ''create_work_item'' args =
       ([], Inr \<lparr>content_text = ''Error: workItemType and title are required'', isError = True\<rparr>)"
  "opt_arg args ''title'' = Undefined \<Longrightarrow>
     handle_call_tool be c ''create_work_item'' args =
       ([], Inr \<lparr>content_text = ''Error: workItemType and title are required'', isError = True\<rparr>)"
  "opt_arg args ''id'' = Undefined \<Longrightarrow>
     handle_call_tool be c ''update_work_item'' args =
       ([], Inr \<lparr>content_text = ''Error: id and fields are required'', isError = True\<rparr>)"
  "opt_arg args ''fields'' = Undefined \<Longrightarrow>
     handle_call_tool be c ''update_work_item'' args =
       ([], Inr \<lparr>content_text = ''Error: id and fields are required'', isError = True\<rparr>)"
  "opt_arg args ''id'' = Undefined \<Longrightarrow>
     handle_call_tool be c ''assign_work_item'' args =
       ([], Inr \<lparr>content_text = ''Error: id and assignee are required'', isError = True\<rparr>)"
  "opt_arg args ''assignee'' = Undefined \<Longrightarrow>
     handle_call_tool be c ''assign_work_item'' args =
       ([], Inr \<lparr>content_text = ''Error: id and assignee are required'', isError = True\<rparr>)"
  "opt_arg args ''searchFilter'' = Undefined \<Longrightarrow>
     handle_call_tool be c ''get_identity_ids'' args =
       ([], Inr \<lparr>content_text = ''Error: searchFilter argument is required'', isError = True\<rparr>)"
  "opt_arg args ''id'' = Undefined \<Longrightarrow>
     handle_call_tool be c ''get_work_item_revisions'' args =
       ([], Inr \<lparr>content_text = ''Error: id argument is required'', isError = True\<rparr>)"
  "opt_arg args ''id'' = Undefined \<Longrightarrow>
     handle_call_tool be c ''get_work_item_links'' args =
       ([], Inr \<lparr>content_text = ''Error: id argument is required'', isError = True\<rparr>)"
  "opt_arg args ''repositoryId'' = Undefined \<Longrightarrow>
     handle_call_tool be c ''create_pull_request'' args =
       ([], Inr \<lparr>content_text = ''Error: repositoryId, sourceBranch, targetBranch, and title are required'', isError = True\<rparr>)"
  "opt_arg args ''sourceBranch'' = Undefined \<Longrightarrow>
     handle_call_tool be c ''create_pull_request'' args =
       ([], Inr \<lparr>content_text = ''Error: repositoryId, sourceBranch, targetBranch, and title are required'', isError = True\<rparr>)"
  "opt_arg args ''targetBranch'' = Undefined \<Longrightarrow>
     handle_call_tool be c ''create_pull_request'' args =
       ([], Inr \<lparr>content_text = ''Error: repositoryId, sourceBranch, targetBranch, and title are required'', isError = True\<rparr>)"
  "opt_arg args ''title'' = Undefined \<Longrightarrow>
     handle_call_tool be c ''create_pull_request'' args =
       ([], Inr \<lparr>content_text = ''Error: repositoryId, sourceBranch, targetBranch, and title are required'', isError = True\<rparr>)"
  "opt_arg args ''repositoryId'' = Undefined \<Longrightarrow>
     handle_call_tool be c ''list_commits'' args =
       ([], Inr \<lparr>content_text = ''Error: repositoryId argument is required'', isError = True\<rparr>)"
  "opt_arg args ''repositoryId'' = Undefined \<Longrightarrow>
     handle_call_tool be c ''get_file_content'' args =
       ([], Inr \<lparr>content_text = ''Error: repositoryId and path are required'', isError = True\<rparr>)"
  "opt_arg args ''path'' = Undefined \<Longrightarrow>
     handle_call_tool be c ''get_file_content'' args =
       ([], Inr \<lparr>content_text = ''Error: repositoryId and path are required'', isError = True\<rparr>)"
  "opt_arg args ''project'' = Undefined \<Longrightarrow>
     handle_call_tool be c ''list_iteration_capacities'' args =
       ([], Inr \<lparr>content_text = ''Error: project, team, and iterationId are required'', isError = True\<rparr>)"
  "opt_arg args ''team'' = Undefined \<Longrightarrow>
     handle_call_tool be c ''list_iteration_capacities'' args =
       ([], Inr \<lparr>content_text = ''Error: project, team, and iterationId are required'', isError = True\<rparr>)"
  "opt_arg args ''iterationId'' = Undefined \<Longrightarrow>
     handle_call_tool be c ''list_iteration_capacities'' args =
       ([], Inr \<lparr>content_text = ''Error: project, team, and iterationId are required'', isError = True\<rparr>)"
  "opt_arg args ''project'' = Undefined \<Longrightarrow>
     handle_call_tool be c ''list_test_suites'' args =
       ([], Inr \<lparr>content_text = ''Error: project and planId are required'', isError = True\<rparr>)"
  "opt_arg args ''planId'' = Undefined \<Longrightarrow>
     handle_call_tool be c ''list_test_suites'' args =
       ([], Inr \<lparr>content_text = ''Error: project and planId are required'', isError = True\<rparr>)"
  "opt_arg args ''project'' = Undefined \<Longrightarrow>
     handle_call_tool be c ''list_team_members'' args =
       ([], Inr \<lparr>content_text = ''Error: project and team are required'', isError = True\<rparr>)"
  "opt_arg args ''team'' = Undefined \<Longrightarrow>
     handle_call_tool be c ''list_team_members'' args =
       ([], Inr \<lparr>content_text = ''Error: project and team are required'', isError = True\<rparr>)"
  "opt_arg args ''project'' = Undefined \<Longrightarrow>
     handle_call_tool be c ''list_boards'' args =
       ([], Inr \<lparr>content_text = ''Error: project and team are required'', isError = True\<rparr>)"
  "opt_arg args ''team'' = Undefined \<Longrightarrow>
     handle_call_tool be c ''list_boards'' args =
       ([], Inr \<lparr>content_text = ''Error: project and team are required'', isError = True\<rparr>)"
  "opt_arg args ''project'' = Undefined \<Longrightarrow>
     handle_call_tool be c ''list_board_columns'' args =
       ([], Inr \<lparr>content_text = ''Error: project, team, and board are required'', isError = True\<rparr>)"
  "opt_arg args ''team'' = Undefined \<Longrightarrow>
     handle_call_tool be c ''list_board_columns'' args =
       ([], Inr \<lparr>content_text = ''Error: project, team, and board are required'', isError = True\<rparr>)"
  "opt_arg args ''board'' = Undefined \<Longrightarrow>
     handle_call_tool be c ''list_board_columns'' args =
       ([], Inr \<lparr>content_text = ''Error: project, team, and board are required'', isError = True\<rparr>)"
  "opt_arg args ''project'' = Undefined \<Longrightarrow>
     handle_call_tool be c ''list_board_rows'' args =
       ([], Inr \<lparr>content_text = ''Error: project, team, and board are required'', isError = True\<rparr>)"
  "opt_arg args ''team'' = Undefined \<Longrightarrow>
     handle_call_tool be c ''list_board_rows'' args =
       ([], Inr \<lparr>content_text = ''Error: project, team, and board are required'', isError = True\<rparr>)"
  "opt_arg args ''board'' = Undefined \<Longrightarrow>
     handle_call_tool be c ''list_board_rows'' args =
       ([], Inr \<lparr>content_text = ''Error: project, team, and board are required'', isError = True\<rparr>)"
  "opt_arg args ''project'' = Undefined \<Longrightarrow>
     handle_call_tool be c ''list_work_item_states'' args =
       ([], Inr \<lparr>content_text = ''Error: project and workItemType are required'', isError = True\<rparr>)"
  "opt_arg args ''workItemType'' = Undefined \<Longrightarrow>
     handle_call_tool be c ''list_work_item_states'' args =
       ([], Inr \<lparr>content_text = ''Error: project and workItemType are required'', isError = True\<rparr>)"
  "opt_arg args ''id'' = Undefined \<Longrightarrow>
     handle_call_tool be c ''list_work_item_updates'' args =
       ([], Inr \<lparr>content_text = ''Error: id is required'', isError = True\<rparr>)"
  "opt_arg args ''id'' = Undefined \<Longrightarrow>
     handle_call_tool be c ''list_work_item_attachments'' args =
       ([], Inr \<lparr>content_text = ''Error: id is required'', isError = True\<rparr>)"
  "opt_arg args ''id'' = Undefined \<Longrightarrow>
     handle_call_tool be c ''list_work_item_comments'' args =
       ([], Inr \<lparr>content_text = ''Error: id is required'', isError = True\<rparr>)"
  "opt_arg args ''id'' = Undefined \<Longrightarrow>
     handle_call_tool be c ''list_work_item_relations'' args =
       ([], Inr \<lparr>content_text = ''Error: id is required'', isError = True\<rparr>)"
  "opt_arg args ''project'' = Undefined \<Longrightarrow>
     handle_call_tool be c ''list_work_item_query_results'' args =
       ([], Inr \<lparr>content_text = ''Error: project and queryId are required'', isError = True\<rparr>)"
  "opt_arg args ''queryId'' = Undefined \<Longrightarrow>
     handle_call_tool be c ''list_work_item_query_results'' args =
       ([], Inr \<lparr>content_text = ''Error: project and queryId are required'', isError = True\<rparr>)"
  by (simp_all add: handle_call_tool_def call_tool_body_def mcp_call_def Let_def throw_def
        io_bind_def message_def)

lemma checked_tools_fail_fast:
  "\<forall>p \<in> set checked_tools. \<forall>k \<in> set (required_of (fst p)).
     opt_arg args k = Undefined \<longrightarrow>
       str_includes (snd p) k
       \<and> handle_call_tool be c (fst p) args
           = ([], Inr \<lparr>content_text = ''Error: '' @ snd p, isError = True\<rparr>)"
  by (simp add: checked_tools_def required_of_checked checked_cases)

lemma unchecked_required:
  "\<forall>nm \<in> set unchecked_tools. required_of nm \<noteq> []"
  by (simp add: unchecked_tools_def required_of_def tools_def)

lemma required_partition:
  "\<forall>t \<in> set tools.
     required t = [] \<or> name t \<in> set (map fst checked_tools) \<or> name t \<in> set unchecked_tools"
  by (simp add: checked_tools_def unchecked_tools_def tools_def)

text \<open>
  Claim C1, at the input where the code departs from it. The registry declares
  \<open>repositoryId\<close> required for \<open>list_branches\<close>, and the case of \<open>list_branches\<close> has no
  check: called with no argument, the handler sends the branch request for the repository
  \<open>undefined\<close> of the default project to the backend.
\<close>

theorem list_branches_without_repositoryId_calls_backend:
  "\<lparr>name = ''list_branches'', properties = [''repositoryId'', ''project''],
     required = [''repositoryId'']\<rparr> \<in> set tools
   \<and> opt_arg (Obj []) ''repositoryId'' = Undefined
   \<and> fst (handle_call_tool be c ''list_branches'' (Obj [])) =
       [Get (''/'' @ this_project c
             @ ''/_apis/git/repositories/undefined/refs?filter=heads&api-version=7.1'')]"
proof -
  have "fst (mcp_call be c ''list_branches'' (Obj [])) =
       [Get (''/'' @ this_project c
             @ ''/_apis/git/repositories/undefined/refs?filter=heads&api-version=7.1'')]"
    by (simp add: mcp_call_list_branches getBranches_def proj_of_def fst_io_bind_lift)
  then have "fst (handle_call_tool be c ''list_branches'' (Obj [])) =
       [Get (''/'' @ this_project c
             @ ''/_apis/git/repositories/undefined/refs?filter=heads&api-version=7.1'')]"
    by (cases "mcp_call be c ''list_branches'' (Obj [])")
       (auto simp add: handle_call_tool_def call_tool_body_def io_bind_def io_lift_def
          split: sum.splits prod.splits)
  moreover have "\<lparr>name = ''list_branches'', properties = [''repositoryId'', ''project''],
     required = [''repositoryId'']\<rparr> \<in> set tools"
    by (simp add: tools_def)
  ultimately show ?thesis by simp
qed

section \<open>The two-step work item query\<close>

lemma queryWorkItems_no_refs:
  assumes "be (Post (''/'' @ this_project c @ ''/_apis/wit/wiql?api-version=7.1'')
                 (Obj [(''query'', wiql)])) = Inr data"
    and "get_prop data ''workItems'' = Inr refs"
    and "refs = Arr [] \<or> refs = Undefined \<or> refs = Null"
  shows "queryWorkItems be c wiql =
           ([Post (''/'' @ this_project c @ ''/_apis/wit/wiql?api-version=7.1'')
               (Obj [(''query'', wiql)])], Inr (Arr []))"
  using assms
  by (auto simp add: queryWorkItems_def fetch_prop_def io_bind_def send_def io_lift_def)

lemma getWorkItems_nonempty:
  "getWorkItems be c (Arr (i # ids)) =
     fetch_prop be
       (Get (''/'' @ this_project c @ ''/_apis/wit/workitems?ids='' @ join '','' (map join_elem (i # ids))
             @ ''&api-version=7.1''))
       ''value''"
  by (simp add: getWorkItems_def js_join_def)

lemma fst_fetch_prop: "fst (fetch_prop be rq k) = [rq]"
  by (simp add: fetch_prop_def io_bind_def send_def io_lift_def split: sum.splits)

lemma queryWorkItems_refs_7_9:
  assumes "be (Post (''/'' @ this_project c @ ''/_apis/wit/wiql?api-version=7.1'')
                 (Obj [(''query'', wiql)])) = Inr data"
    and "get_prop data ''workItems'' = Inr (Arr [r1, r2])"
    and "get_prop r1 ''id'' = Inr (Num 7)" and "get_prop r2 ''id'' = Inr (Num 9)"
  shows "fst (queryWorkItems be c wiql) =
           [Post (''/'' @ this_project c @ ''/_apis/wit/wiql?api-version=7.1'') (Obj [(''query'', wiql)]),
            Get (''/'' @ this_project c @ ''/_apis/wit/workitems?ids=7,9&api-version=7.1'')]"
proof -
  have ids: "js_map ''workItemRefs.map'' (\<lambda>wi. get_prop wi ''id'') (Arr [r1, r2]) = Inr [Num 7, Num 9]"
    using assms(3,4) by (simp add: js_map_def)
  have batch: "fst (getWorkItems be c (Arr [Num 7, Num 9])) =
      [Get (''/'' @ this_project c @ ''/_apis/wit/workitems?ids=7,9&api-version=7.1'')]"
    by (simp add: getWorkItems_nonempty fst_fetch_prop join_elem_def string_of_int_7 string_of_int_9)
  obtain tr r where gw: "getWorkItems be c (Arr [Num 7, Num 9]) = (tr, r)"
    by (cases "getWorkItems be c (Arr [Num 7, Num 9])")
  with batch have "tr = [Get (''/'' @ this_project c @ ''/_apis/wit/workitems?ids=7,9&api-version=7.1'')]"
    by simp
  then show ?thesis
    using assms(1,2) ids gw
    by (simp add: queryWorkItems_def fetch_prop_def [of be "Post _ _"] io_bind_def send_def io_lift_def)
qed

text \<open>
  Claim C2. The WIQL query is a two-step protocol. When the response to the query request
  carries no work item reference (an empty \<open>workItems\<close> array, or none at all),
  \<open>queryWorkItems\<close> returns the empty sequence and the query request is the only request
  sent. When it carries two references with ids 7 and 9, exactly two requests are sent:
  the query, then one batch fetch with \<open>ids=7,9\<close>.
\<close>

theorem queryWorkItems_two_step:
  assumes "be (Post (''/'' @ this_project c @ ''/_apis/wit/wiql?api-version=7.1'')
                 (Obj [(''query'', wiql)])) = Inr data"
    and "get_prop data ''workItems'' = Inr refs"
  shows "(refs = Arr [] \<or> refs = Undefined \<or> refs = Null \<longrightarrow>
            queryWorkItems be c wiql =
              ([Post (''/'' @ this_project c @ ''/_apis/wit/wiql?api-version=7.1'')
                  (Obj [(''query'', wiql)])], Inr (Arr [])))
       \<and> (refs = Arr [Obj [(''id'', Num 7)], Obj [(''id'', Num 9)]] \<longrightarrow>
            fst (queryWorkItems be c wiql) =
              [Post (''/'' @ this_project c @ ''/_apis/wit/wiql?api-version=7.1'')
                 (Obj [(''query'', wiql)]),
               Get (''/'' @ this_project c @ ''/_apis/wit/workitems?ids=7,9&api-version=7.1'')])"
proof (intro conjI impI)
  assume "refs = Arr [] \<or> refs = Undefined \<or> refs = Null"
  then show "queryWorkItems be c wiql =
      ([Post (''/'' @ this_project c @ ''/_apis/wit/wiql?api-version=7.1'')
          (Obj [(''query'', wiql)])], Inr (Arr []))"
    using assms by (rule queryWorkItems_no_refs [rotated 2])
next
  assume r: "refs = Arr [Obj [(''id'', Num 7)], Obj [(''id'', Num 9)]]"
  show "fst (queryWorkItems be c wiql) =
      [Post (''/'' @ this_project c @ ''/_apis/wit/wiql?api-version=7.1'') (Obj [(''query'', wiql)]),
       Get (''/'' @ this_project c @ ''/_apis/wit/workitems?ids=7,9&api-version=7.1'')]"
  proof (rule queryWorkItems_refs_7_9 [where data = data])
    show "be (Post (''/'' @ this_project c @ ''/_apis/wit/wiql?api-version=7.1'')
                (Obj [(''query'', wiql)])) = Inr data"
      by (rule assms(1))
    show "get_prop data ''workItems'' = Inr (Arr [Obj [(''id'', Num 7)], Obj [(''id'', Num 9)]])"
      using assms(2) r by simp
    show "get_prop (Obj [(''id'', Num 7)]) ''id'' = Inr (Num 7)" by simp
    show "get_prop (Obj [(''id'', Num 9)]) ''id'' = Inr (Num 9)" by simp
  qed
qed

theorem queryWorkItems_two_step_witness:
  "queryWorkItems (\<lambda>rq. Inr (Obj [(''workItems'', Arr [])]))
       \<lparr>organization = ''org'', this_project = ''P'', encodeURIComponent = id,
        urlSearchParams = (\<lambda>ps. [])\<rparr> (Str ''SELECT [System.Id] FROM WorkItems'')
     = ([Post ''/P/_apis/wit/wiql?api-version=7.1''
           (Obj [(''query'', Str ''SELECT [System.Id] FROM WorkItems'')])], Inr (Arr []))
   \<and> fst (queryWorkItems
          (\<lambda>rq. Inr (Obj [(''workItems'', Arr [Obj [(''id'', Num 7)], Obj [(''id'', Num 9)]])]))
          \<lparr>organization = ''org'', this_project = ''P'', encodeURIComponent = id,
           urlSearchParams = (\<lambda>ps. [])\<rparr> (Str ''SELECT [System.Id] FROM WorkItems''))
     = [Post ''/P/_apis/wit/wiql?api-version=7.1''
          (Obj [(''query'', Str ''SELECT [System.Id] FROM WorkItems'')]),
        Get ''/P/_apis/wit/workitems?ids=7,9&api-version=7.1'']"
  using queryWorkItems_two_step
          [of "\<lambda>rq. Inr (Obj [(''workItems'', Arr [])])"
              "\<lparr>organization = ''org'', this_project = ''P'', encodeURIComponent = id,
                urlSearchParams = (\<lambda>ps. [])\<rparr>"
              "Str ''SELECT [System.Id] FROM WorkItems''" "Obj [(''workItems'', Arr [])]" "Arr []"]
        queryWorkItems_two_step
          [of "\<lambda>rq. Inr (Obj [(''workItems'', Arr [Obj [(''id'', Num 7)], Obj [(''id'', Num 9)]])])"
              "\<lparr>organization = ''org'', this_project = ''P'', encodeURIComponent = id,
                urlSearchParams = (\<lambda>ps. [])\<rparr>"
              "Str ''SELECT [System.Id] FROM WorkItems''"
              "Obj [(''workItems'', Arr [Obj [(''id'', Num 7)], Obj [(''id'', Num 9)]])]"
              "Arr [Obj [(''id'', Num 7)], Obj [(''id'', Num 9)]]"]
  by simp

section \<open>The 404 policy of the Backend Client\<close>

lemma guarded_fetch_404:
  "be rq = Inl (HttpError 404) \<Longrightarrow> or_empty_on_404 (fetch_prop be rq k) = ([rq], Inr (Arr []))"
  "be rq = Inl (HttpError 404) \<Longrightarrow>
     or_empty_on_404 (fetch_prop_or_empty be rq k) = ([rq], Inr (Arr []))"
  by (simp_all add: or_empty_on_404_def io_defs)

lemma unguarded_fetch_404:
  "be rq = Inl (HttpError 404) \<Longrightarrow> fetch_prop be rq k = ([rq], Inl (HttpError 404))"
  "be rq = Inl (HttpError 404) \<Longrightarrow> fetch_prop_or_empty be rq k = ([rq], Inl (HttpError 404))"
  by (simp_all add: io_defs)

text \<open>
  The 23 methods with the guard answer the empty sequence when the backend answers their
  request with 404.
\<close>

lemma guarded_lookups_404:
  "snd (getTestPlans (\<lambda>rq. Inl (HttpError 404)) c project) = Inr (Arr [])
   \<and> snd (getTestSuites (\<lambda>rq. Inl (HttpError 404)) c project planId) = Inr (Arr [])
   \<and> snd (getBoards (\<lambda>rq. Inl (HttpError 404)) c project team) = Inr (Arr [])
   \<and> snd (getBoardColumns (\<lambda>rq. Inl (HttpError 404)) c project team board) = Inr (Arr [])
   \<and> snd (getBoardRows (\<lambda>rq. Inl (HttpError 404)) c project team board) = Inr (Arr [])
   \<and> snd (getTags (\<lambda>rq. Inl (HttpError 404)) c project) = Inr (Arr [])
   \<and> snd (getVariableGroups (\<lambda>rq. Inl (HttpError 404)) c project) = Inr (Arr [])
   \<and> snd (getServiceEndpoints (\<lambda>rq. Inl (HttpError 404)) c project) = Inr (Arr [])
   \<and> snd (getDashboards (\<lambda>rq. Inl (HttpError 404)) c project) = Inr (Arr [])
   \<and> snd (getPipelines (\<lambda>rq. Inl (HttpError 404)) c project) = Inr (Arr [])
   \<and> snd (getReleaseDefinitions (\<lambda>rq. Inl (HttpError 404)) c project) = Inr (Arr [])
   \<and> snd (getAreas (\<lambda>rq. Inl (HttpError 404)) c project) = Inr (Arr [])
   \<and> snd (getIterations (\<lambda>rq. Inl (HttpError 404)) c project) = Inr (Arr [])
   \<and> snd (getIterationCapacities (\<lambda>rq. Inl (HttpError 404)) c project team iterationId) = Inr (Arr [])
   \<and> snd (getTeamMembers (\<lambda>rq. Inl (HttpError 404)) c project team) = Inr (Arr [])
   \<and> snd (getWorkItemCategories (\<lambda>rq. Inl (HttpError 404)) c project) = Inr (Arr [])
   \<and> snd (getWorkItemStates (\<lambda>rq. Inl (HttpError 404)) c project workItemType) = Inr (Arr [])
   \<and> snd (getWorkItemFields (\<lambda>rq. Inl (HttpError 404)) c project) = Inr (Arr [])
   \<and> snd (getWorkItemUpdates (\<lambda>rq. Inl (HttpError 404)) c ident project) = Inr (Arr [])
   \<and> snd (getWorkItemAttachments (\<lambda>rq. Inl (HttpError 404)) c ident project) = Inr (Arr [])
   \<and> snd (getWorkItemComments (\<lambda>rq. Inl (HttpError 404)) c ident project) = Inr (Arr [])
   \<and> snd (getWorkItemRelations (\<lambda>rq. Inl (HttpError 404)) c ident project) = Inr (Arr [])
   \<and> snd (getQueryResults (\<lambda>rq. Inl (HttpError 404)) c project queryId) = Inr (Arr [])"
  by (simp add: getTestPlans_def getTestSuites_def getBoards_def getBoardColumns_def getBoardRows_def getTags_def getVariableGroups_def getServiceEndpoints_def getDashboards_def getPipelines_def getReleaseDefinitions_def getAreas_def getIterations_def getIterationCapacities_def getTeamMembers_def getWorkItemCategories_def getWorkItemStates_def getWorkItemFields_def getWorkItemUpdates_def getWorkItemAttachments_def getWorkItemComments_def getWorkItemRelations_def getQueryResults_def
        Let_def guarded_fetch_404)

text \<open>
  The guard of \<open>getQueryResults\<close> covers its first request only: when the saved query is
  found and the batch fetch of its work items is answered 404, the method throws.
\<close>

lemma getQueryResults_batch_404_is_thrown:
  "getQueryResults
     (\<lambda>rq. if rq = Get ''/P/_apis/wit/queries/Q?$expand=results&api-version=7.1''
            then Inr (Obj [(''results'', Obj [(''workItems'', Arr [Obj [(''id'', Num 7)]])])])
            else Inl (HttpError 404))
     \<lparr>organization = ''org'', this_project = ''P'', encodeURIComponent = id,
      urlSearchParams = (\<lambda>ps. [])\<rparr> (Str ''P'') (Str ''Q'')
   = ([Get ''/P/_apis/wit/queries/Q?$expand=results&api-version=7.1'',
       Get ''/P/_apis/wit/workitems?ids=7&api-version=7.1''],
      Inl (HttpError 404))"
  by (simp add: getQueryResults_def getWorkItems_def Let_def js_map_def js_join_def io_defs
        string_of_int_7 join_elem_def)

text \<open>
  The lookups by id and by name have no guard: a 404 on their request is what they throw.
\<close>

lemma mandatory_lookup_404_propagates:
  "getWorkItems (\<lambda>rq. Inl (HttpError 404)) c (Arr [Num 7]) =
     ([Get (''/'' @ this_project c @ ''/_apis/wit/workitems?ids=7&api-version=7.1'')],
      Inl (HttpError 404))"
  by (simp add: getWorkItems_def js_join_def io_defs string_of_int_7 join_elem_def)

text \<open>
  Claim C3, at an input where the code departs from it. Releases are an optional feature
  and \<open>getReleases\<close> is a list method, yet it has no guard: against a backend that answers
  404 it throws, and the tool-call handler reports \<open>get_releases\<close> as an error, where the
  sibling \<open>getReleaseDefinitions\<close>, guarded, gives the empty sequence and
  \<open>list_release_definitions\<close> the message for no result. Likewise \<open>getWorkItemLinks\<close> and
  \<open>getWorkItemRelations\<close> send the same request; on a 404 the first throws and the
  second gives the empty sequence.
\<close>

theorem getReleases_404_is_thrown:
  "getReleases (\<lambda>rq. Inl (HttpError 404)) c (Num 10) =
     ([Get (''/'' @ this_project c @ ''/_apis/release/releases?api-version=7.1&$top=10'')],
      Inl (HttpError 404))
   \<and> getReleaseDefinitions (\<lambda>rq. Inl (HttpError 404)) c Undefined =
     ([Get (''/'' @ this_project c @ ''/_apis/release/definitions?api-version=7.1'')],
      Inr (Arr []))
   \<and> handle_call_tool (\<lambda>rq. Inl (HttpError 404)) c ''get_releases'' (Obj []) =
     ([Get (''/'' @ this_project c @ ''/_apis/release/releases?api-version=7.1&$top=10'')],
      Inr \<lparr>content_text = ''Error: Request failed with status code 404'', isError = True\<rparr>)
   \<and> handle_call_tool (\<lambda>rq. Inl (HttpError 404)) c ''list_release_definitions'' (Obj []) =
     ([Get (''/'' @ this_project c @ ''/_apis/release/definitions?api-version=7.1'')],
      Inr \<lparr>content_text = ''No release definitions found.'', isError = False\<rparr>)
   \<and> getWorkItemLinks (\<lambda>rq. Inl (HttpError 404)) c (Num 7) Undefined =
     ([Get (''/'' @ this_project c @ ''/_apis/wit/workitems/7?$expand=relations&api-version=7.1'')],
      Inl (HttpError 404))
   \<and> getWorkItemRelations (\<lambda>rq. Inl (HttpError 404)) c (Num 7) Undefined =
     ([Get (''/'' @ this_project c @ ''/_apis/wit/workitems/7?$expand=relations&api-version=7.1'')],
      Inr (Arr []))"
proof -
  let ?be = "(\<lambda>rq. Inl (HttpError 404)) :: backend"
  have r: "getReleases ?be c (Num 10) =
     ([Get (''/'' @ this_project c @ ''/_apis/release/releases?api-version=7.1&$top=10'')],
      Inl (HttpError 404))"
    by (simp add: getReleases_def default_param_def unguarded_fetch_404 string_of_int_10)
  have d: "getReleaseDefinitions ?be c Undefined =
     ([Get (''/'' @ this_project c @ ''/_apis/release/definitions?api-version=7.1'')],
      Inr (Arr []))"
    by (simp add: getReleaseDefinitions_def proj_of_def guarded_fetch_404)
  have hr: "handle_call_tool ?be c ''get_releases'' (Obj []) =
     ([Get (''/'' @ this_project c @ ''/_apis/release/releases?api-version=7.1&$top=10'')],
      Inr \<lparr>content_text = ''Error: Request failed with status code 404'', isError = True\<rparr>)"
    by (simp add: handle_call_tool_def call_tool_body_def mcp_call_def Let_def or_value_def r
          io_bind_def io_lift_def message_def digits_of_404)
  have hd: "handle_call_tool ?be c ''list_release_definitions'' (Obj []) =
     ([Get (''/'' @ this_project c @ ''/_apis/release/definitions?api-version=7.1'')],
      Inr \<lparr>content_text = ''No release definitions found.'', isError = False\<rparr>)"
    by (simp add: handle_call_tool_def call_tool_body_def mcp_call_def mcp_format_def Let_def d
          io_bind_def io_lift_def render_list_def)
  have l: "getWorkItemLinks ?be c (Num 7) Undefined =
     ([Get (''/'' @ this_project c @ ''/_apis/wit/workitems/7?$expand=relations&api-version=7.1'')],
      Inl (HttpError 404))"
    by (simp add: getWorkItemLinks_def proj_of_def unguarded_fetch_404 string_of_int_7)
  have rel: "getWorkItemRelations ?be c (Num 7) Undefined =
     ([Get (''/'' @ this_project c @ ''/_apis/wit/workitems/7?$expand=relations&api-version=7.1'')],
      Inr (Arr []))"
    by (simp add: getWorkItemRelations_def proj_of_def guarded_fetch_404 string_of_int_7)
  from r d hr hd l rel show ?thesis by (intro conjI)
qed

section \<open>Rendering an empty sequence\<close>

lemma empty_messages_rendered:
  "\<forall>p \<in> set empty_result_messages. mcp_format (fst p) (Arr []) args = Inr (snd p)"
  by (simp add: empty_result_messages_def mcp_format_def render_list_def Let_def)

lemma empty_messages_one_line:
  "\<forall>p \<in> set empty_result_messages.
     CHR 0x0A \<notin> set (snd p) \<and> take 3 (snd p) = ''No '' \<and> last (snd p) = CHR ''.''"
  by (simp add: empty_result_messages_def)

lemma list_shaped_tools_subset:
  "set (map fst empty_result_messages) \<subseteq> set tool_names - set single_result_tools"
  unfolding tool_names_eq by (simp add: empty_result_messages_def single_result_tools_def)

lemma list_shaped_tools_supset:
  "set tool_names - set single_result_tools \<subseteq> set (map fst empty_result_messages)"
  unfolding tool_names_eq Diff_subset_conv
  by (simp add: empty_result_messages_def single_result_tools_def)

lemma list_shaped_tools:
  "set (map fst empty_result_messages) = set tool_names - set single_result_tools"
  using list_shaped_tools_subset list_shaped_tools_supset by (rule equalityI)

lemma list_projects_empty:
  assumes "be (Get ''/_apis/projects?api-version=7.1'') = Inr data"
    and "get_prop data ''value'' = Inr (Arr [])"
  shows "handle_call_tool be c ''list_projects'' args =
           ([Get ''/_apis/projects?api-version=7.1''],
            Inr \<lparr>content_text = ''No projects found.'', isError = False\<rparr>)"
  using assms
  by (simp add: handle_call_tool_def call_tool_body_def mcp_call_def mcp_format_def Let_def
        getProjects_def io_defs render_list_def)

text \<open>
  For every list-shaped tool, whatever the arguments, the tool-call handler renders the
  empty sequence as that tool's fixed message and nothing else: one line that starts with
  \<open>No\<close> and ends with a full stop. The list-shaped tools are all the tools of the
  registry but the eight that return a single record or a content.
\<close>

lemma handler_empty_sequence_message:
  "(\<forall>p \<in> set empty_result_messages.
      mcp_format (fst p) (Arr []) args = Inr (snd p)
      \<and> CHR 0x0A \<notin> set (snd p) \<and> take 3 (snd p) = ''No '' \<and> last (snd p) = CHR ''.'')
   \<and> set (map fst empty_result_messages) = set tool_names - set single_result_tools"
proof (intro conjI ballI)
  fix p assume p: "p \<in> set empty_result_messages"
  show "mcp_format (fst p) (Arr []) args = Inr (snd p)"
    using empty_messages_rendered p by blast
  show "CHR 0x0A \<notin> set (snd p)" "take 3 (snd p) = ''No ''" "last (snd p) = CHR ''.''"
    using empty_messages_one_line p by blast+
next
  show "set (map fst empty_result_messages) = set tool_names - set single_result_tools"
    by (rule list_shaped_tools)
qed

text \<open>
  The two HTTP endpoints have a template for the first 31 cases of the dispatcher only.
  The result of each of the other 20 tools, all list-shaped, is serialised as it is, empty
  or not.
\<close>

lemma http_format_without_template:
  "\<forall>nm \<in> set (drop 31 dispatcher_cases).
     http_format stringify nm raw args = Inr (stringify raw)
     \<and> chat_format stringify nm raw args = Inr (stringify raw)"
  by (simp add: dispatcher_cases_def http_format_def chat_format_def)

lemma untemplated_tools_are_list_shaped:
  "set (drop 31 dispatcher_cases) \<subseteq> set (map fst empty_result_messages)"
  by (simp add: dispatcher_cases_def empty_result_messages_def)

lemma list_tags_empty_http:
  assumes "be (Get (''/'' @ this_project c @ ''/_apis/tagging/scopes/'' @ this_project c
                 @ ''/tags?api-version=7.1'')) = Inr data"
    and "get_prop data ''value'' = Inr (Arr [])"
  shows "http_call be c ''list_tags'' (Obj []) =
           ([Get (''/'' @ this_project c @ ''/_apis/tagging/scopes/'' @ this_project c
                 @ ''/tags?api-version=7.1'')], Inr (Arr []))"
  using assms
  by (simp add: http_call_def with_arg_def getTags_def proj_of_def or_empty_on_404_def io_defs
        Let_def orv_def val_def)

text \<open>
  Claim C4, at an input where the code departs from it. \<open>list_tags\<close> is list-shaped and
  its fixed message is \<open>No tags found.\<close>, which is what the tool-call handler renders
  for the empty sequence. The endpoints \<open>POST /api/tools/:name\<close> and \<open>POST /api/chat\<close>
  render the same empty sequence as its serialisation, and for \<open>get_work_items_by_ids\<close>
  they render a message that is not the handler's. End to end, the endpoint answers
  \<open>list_tags\<close> against a backend without any tag with the serialised empty sequence.
\<close>

theorem list_tags_empty_is_serialised:
  "mcp_format ''list_tags'' (Arr []) (Obj []) = Inr ''No tags found.''
   \<and> http_format stringify ''list_tags'' (Arr []) (Obj []) = Inr (stringify (Arr []))
   \<and> chat_format stringify ''list_tags'' (Arr []) (Obj []) = Inr (stringify (Arr []))
   \<and> mcp_format ''get_work_items_by_ids'' (Arr []) (Obj [(''ids'', Arr [])])
       = Inr ''No work items found with those IDs.''
   \<and> http_format stringify ''get_work_items_by_ids'' (Arr []) (Obj [(''ids'', Arr [])])
       = Inr ''No work items found.''
   \<and> chat_format stringify ''get_work_items_by_ids'' (Arr []) (Obj [(''ids'', Arr [])])
       = Inr ''No work items found.''
   \<and> handle_http_tool stringify (\<lambda>rq. Inr (Obj [(''value'', Arr [])])) c ''list_tags'' (Obj [])
       = ([Get (''/'' @ this_project c @ ''/_apis/tagging/scopes/'' @ this_project c
                 @ ''/tags?api-version=7.1'')],
          Inr (Reply_result (stringify (Arr [])) (Arr [])))"
proof -
  have f: "find (\<lambda>t. name t = ''list_tags'') tools
             = Some \<lparr>name = ''list_tags'', properties = [''project''], required = []\<rparr>"
    by (simp add: tools_def)
  have d: "''list_tags'' \<in> set dispatcher_cases"
    by (simp add: dispatcher_cases_def)
  have c: "http_call (\<lambda>rq. Inr (Obj [(''value'', Arr [])])) c ''list_tags'' (Obj []) =
           ([Get (''/'' @ this_project c @ ''/_apis/tagging/scopes/'' @ this_project c
                 @ ''/tags?api-version=7.1'')], Inr (Arr []))"
    by (rule list_tags_empty_http [where data = "Obj [(''value'', Arr [])]"]) simp_all
  have e: "handle_http_tool stringify (\<lambda>rq. Inr (Obj [(''value'', Arr [])])) c ''list_tags'' (Obj [])
       = ([Get (''/'' @ this_project c @ ''/_apis/tagging/scopes/'' @ this_project c
                 @ ''/tags?api-version=7.1'')],
          Inr (Reply_result (stringify (Arr [])) (Arr [])))"
    by (simp add: handle_http_tool_def f d c http_format_def)
  have m: "mcp_format ''list_tags'' (Arr []) (Obj []) = Inr ''No tags found.''"
    "mcp_format ''get_work_items_by_ids'' (Arr []) (Obj [(''ids'', Arr [])])
       = Inr ''No work items found with those IDs.''"
    by (simp_all add: mcp_format_def render_list_def Let_def)
  have h: "http_format stringify ''list_tags'' (Arr []) (Obj []) = Inr (stringify (Arr []))"
    "chat_format stringify ''list_tags'' (Arr []) (Obj []) = Inr (stringify (Arr []))"
    "http_format stringify ''get_work_items_by_ids'' (Arr []) (Obj [(''ids'', Arr [])])
       = Inr ''No work items found.''"
    "chat_format stringify ''get_work_items_by_ids'' (Arr []) (Obj [(''ids'', Arr [])])
       = Inr ''No work items found.''"
    by (simp_all add: http_format_def chat_format_def render_list_def Let_def)
  from m h e show ?thesis by (intro conjI)
qed

section \<open>A branch without \<open>objectId\<close>\<close>

text \<open>
  Claim C5, at an input where the code departs from it. The backend lists one branch
  whose ref carries a name and no \<open>objectId\<close>. In the tool-call handler the row template
  calls \<open>substring\<close> on the missing \<open>objectId\<close>: the rendering throws, and the caller gets
  the error text instead of a table. The rendering chain of the HTTP endpoints reads the
  same field with \<open>?.\<close> and \<open>|| ''\<close> and renders the row with an empty cell. A work
  item without a \<open>fields\<close> object makes the work item row throw as well.
\<close>

theorem branch_without_objectId_is_not_rendered:
  "handle_call_tool (\<lambda>rq. Inr (Obj [(''value'', Arr [Obj [(''name'', Str ''refs/heads/main'')]])])) c
       ''list_branches'' (Obj [(''repositoryId'', Str ''repo'')])
     = ([Get (''/'' @ this_project c
              @ ''/_apis/git/repositories/repo/refs?filter=heads&api-version=7.1'')],
        Inr \<lparr>content_text = ''Error: '' @ message (cannot_read Undefined ''substring''),
             isError = True\<rparr>)
   \<and> http_format stringify ''list_branches''
         (Arr [Obj [(''name'', Str ''main''), (''objectId'', Undefined), (''creator'', Undefined)]]) args
     = Inr (''## Branches (1)'' @ nl @ ''| Name | Commit | Creator |'' @ nl
            @ ''|------|--------|---------|'' @ nl @ ''| main |  |  |'')
   \<and> row_work_item (Obj [(''id'', Num 1)]) = Inl (cannot_read Undefined ''System.Title'')"
proof (intro conjI)
  show "handle_call_tool (\<lambda>rq. Inr (Obj [(''value'', Arr [Obj [(''name'', Str ''refs/heads/main'')]])])) c
       ''list_branches'' (Obj [(''repositoryId'', Str ''repo'')])
     = ([Get (''/'' @ this_project c
              @ ''/_apis/git/repositories/repo/refs?filter=heads&api-version=7.1'')],
        Inr \<lparr>content_text = ''Error: '' @ message (cannot_read Undefined ''substring''),
             isError = True\<rparr>)"
    by (simp add: handle_call_tool_def call_tool_body_def mcp_call_def mcp_format_def Let_def
          opt_arg_Obj getBranches_def proj_of_def branch_of_ref_def io_defs expr_defs
          render_list_def row_branch_def)
  show "http_format stringify ''list_branches''
         (Arr [Obj [(''name'', Str ''main''), (''objectId'', Undefined), (''creator'', Undefined)]]) args
     = Inr (''## Branches (1)'' @ nl @ ''| Name | Commit | Creator |'' @ nl
            @ ''|------|--------|---------|'' @ nl @ ''| main |  |  |'')"
    by (simp add: http_format_def Let_def render_list_def row_branch_http_def expr_defs
          string_of_int_def digits_of_small digit_char_def nl_def)
  show "row_work_item (Obj [(''id'', Num 1)]) = Inl (cannot_read Undefined ''System.Title'')"
    by (simp add: row_work_item_def expr_defs string_of_int_def digits_of_small digit_char_def)
qed

section \<open>Registry and dispatcher name the same tools\<close>

lemma registry_subset_dispatcher: "set tool_names \<subseteq> set dispatcher_cases"
  unfolding tool_names_eq dispatcher_cases_def by simp




section \<open>Errors at the invocation boundary\<close>

lemma mcp_call_unknown:
  "nm \<notin> set dispatcher_cases \<Longrightarrow> mcp_call be c nm args = throw (''Unknown tool: '' @ nm)"
  by (simp add: mcp_call_def dispatcher_cases_def)

lemma handle_call_tool_returns: "\<exists>r. snd (handle_call_tool be c nm args) = Inr r"
  by (cases "call_tool_body be c nm args") (auto simp add: handle_call_tool_def split: sum.splits)

lemma handle_call_tool_catches:
  "snd (call_tool_body be c nm args) = Inl e \<Longrightarrow>
   snd (handle_call_tool be c nm args) = Inr \<lparr>content_text = ''Error: '' @ message e, isError = True\<rparr>"
  by (cases "call_tool_body be c nm args") (auto simp add: handle_call_tool_def split: sum.splits)

lemma handle_call_tool_unknown:
  "nm \<notin> set dispatcher_cases \<Longrightarrow>
   handle_call_tool be c nm args =
     ([], Inr \<lparr>content_text = ''Error: Unknown tool: '' @ nm, isError = True\<rparr>)"
  by (simp add: handle_call_tool_def call_tool_body_def mcp_call_unknown throw_def io_bind_def
        message_def)

lemma handle_http_tool_returns: "\<exists>r. snd (handle_http_tool stringify be c nm args) = Inr r"
  by (cases "http_call be c nm args")
     (auto simp add: handle_http_tool_def split: sum.splits option.splits)

lemma handle_http_tool_unknown:
  "nm \<notin> set tool_names \<Longrightarrow>
   handle_http_tool stringify be c nm args = ([], Inr (Reply_error 404 ''Tool not found''))"
proof -
  assume "nm \<notin> set tool_names"
  then have "find (\<lambda>t. name t = nm) tools = None"
    by (auto simp add: find_None_iff tool_names_def)
  then show ?thesis by (simp add: handle_http_tool_def)
qed

lemma handle_http_tool_catches:
  "nm \<in> set tool_names \<Longrightarrow> snd (http_call be c nm args) = Inl e \<Longrightarrow>
   snd (handle_http_tool stringify be c nm args) = Inr (Reply_error 500 (message e))"
proof -
  assume nm: "nm \<in> set tool_names" and e: "snd (http_call be c nm args) = Inl e"
  from nm obtain t where "find (\<lambda>t. name t = nm) tools = Some t"
    by (cases "find (\<lambda>t. name t = nm) tools") (auto simp add: find_None_iff tool_names_def)
  moreover have "nm \<in> set dispatcher_cases"
    using nm registry_subset_dispatcher by blast
  ultimately show ?thesis
    using e by (cases "http_call be c nm args") (auto simp add: handle_http_tool_def)
qed

text \<open>
  Claim C7. The tool-call handler always returns a result: whatever its \<open>try\<close> block
  throws, in the dispatch, in a client method or in the rendering, comes back as a text
  \<open>Error: <message>\<close> flagged \<open>isError\<close>; a name without a case comes back as
  \<open>Error: Unknown tool: <name>\<close> and no request is sent. The endpoint
  \<open>POST /api/tools/:name\<close> always answers as well: 404 with \<open>Tool not found\<close> for a name
  that is not in the registry, 500 with the message for what a client method throws.
\<close>

theorem handlers_never_throw:
  "(\<exists>r. snd (handle_call_tool be c nm args) = Inr r)
   \<and> (\<forall>e. snd (call_tool_body be c nm args) = Inl e \<longrightarrow>
          snd (handle_call_tool be c nm args)
            = Inr \<lparr>content_text = ''Error: '' @ message e, isError = True\<rparr>)
   \<and> (nm \<notin> set dispatcher_cases \<longrightarrow>
          handle_call_tool be c nm args
            = ([], Inr \<lparr>content_text = ''Error: Unknown tool: '' @ nm, isError = True\<rparr>))
   \<and> (\<exists>r. snd (handle_http_tool stringify be c nm args) = Inr r)
   \<and> (nm \<notin> set tool_names \<longrightarrow>
          handle_http_tool stringify be c nm args = ([], Inr (Reply_error 404 ''Tool not found'')))
   \<and> (\<forall>e. nm \<in> set tool_names \<and> snd (http_call be c nm args) = Inl e \<longrightarrow>
          snd (handle_http_tool stringify be c nm args) = Inr (Reply_error 500 (message e)))"
  using handle_call_tool_returns [of be c nm args] handle_call_tool_catches [of be c nm args]
    handle_call_tool_unknown [of nm be c args] handle_http_tool_returns [of stringify be c nm args]
    handle_http_tool_unknown [of nm stringify be c args]
    handle_http_tool_catches [of nm be c args _ stringify]
  by blast

theorem handlers_never_throw_witness:
  "''no_such_tool'' \<notin> set dispatcher_cases
   \<and> snd (call_tool_body (\<lambda>rq. Inl (NetworkError ''timeout''))
           \<lparr>organization = ''org'', this_project = ''P'', encodeURIComponent = id,
            urlSearchParams = (\<lambda>ps. [])\<rparr> ''no_such_tool'' (Obj []))
       = Inl (Error ''Unknown tool: no_such_tool'')
   \<and> handle_call_tool (\<lambda>rq. Inl (NetworkError ''timeout''))
         \<lparr>organization = ''org'', this_project = ''P'', encodeURIComponent = id,
          urlSearchParams = (\<lambda>ps. [])\<rparr> ''no_such_tool'' (Obj [])
       = ([], Inr \<lparr>content_text = ''Error: Unknown tool: no_such_tool'', isError = True\<rparr>)
   \<and> ''no_such_tool'' \<notin> set tool_names
   \<and> handle_http_tool (\<lambda>v. []) (\<lambda>rq. Inl (NetworkError ''timeout''))
         \<lparr>organization = ''org'', this_project = ''P'', encodeURIComponent = id,
          urlSearchParams = (\<lambda>ps. [])\<rparr> ''no_such_tool'' (Obj [])
       = ([], Inr (Reply_error 404 ''Tool not found''))
   \<and> ''list_projects'' \<in> set tool_names
   \<and> snd (http_call (\<lambda>rq. Inl (NetworkError ''timeout''))
           \<lparr>organization = ''org'', this_project = ''P'', encodeURIComponent = id,
            urlSearchParams = (\<lambda>ps. [])\<rparr> ''list_projects'' (Obj []))
       = Inl (NetworkError ''timeout'')
   \<and> snd (handle_http_tool (\<lambda>v. []) (\<lambda>rq. Inl (NetworkError ''timeout''))
           \<lparr>organization = ''org'', this_project = ''P'', encodeURIComponent = id,
            urlSearchParams = (\<lambda>ps. [])\<rparr> ''list_projects'' (Obj []))
       = Inr (Reply_error 500 ''timeout'')"
proof -
  let ?be = "(\<lambda>rq. Inl (NetworkError ''timeout'')) :: backend"
  let ?c = "\<lparr>organization = ''org'', this_project = ''P'', encodeURIComponent = id,
             urlSearchParams = (\<lambda>ps. [])\<rparr>"
  note U = handlers_never_throw [of ?be ?c "''no_such_tool''" "Obj []" "\<lambda>v. []"]
  note L = handlers_never_throw [of ?be ?c "''list_projects''" "Obj []" "\<lambda>v. []"]
  have h1: "''no_such_tool'' \<notin> set dispatcher_cases"
    by (simp add: dispatcher_cases_def)
  have h2: "''no_such_tool'' \<notin> set tool_names"
    unfolding tool_names_eq by simp
  have h3: "snd (call_tool_body ?be ?c ''no_such_tool'' (Obj [])) = Inl (Error ''Unknown tool: no_such_tool'')"
    by (simp add: call_tool_body_def mcp_call_unknown [OF h1] throw_def io_bind_def)
  have h4: "''list_projects'' \<in> set tool_names"
    unfolding tool_names_eq by simp
  have h5: "snd (http_call ?be ?c ''list_projects'' (Obj [])) = Inl (NetworkError ''timeout'')"
    by (simp add: http_call_def getProjects_def io_defs)
  have m: "message (NetworkError ''timeout'') = ''timeout''"
    by (simp add: message_def)
  from U [THEN conjunct2, THEN conjunct1, rule_format, OF h3]
  have r0: "snd (handle_call_tool ?be ?c ''no_such_tool'' (Obj []))
       = Inr \<lparr>content_text = ''Error: Unknown tool: no_such_tool'', isError = True\<rparr>"
    by (simp add: message_def)
  from U h1 have r1: "handle_call_tool ?be ?c ''no_such_tool'' (Obj [])
       = ([], Inr \<lparr>content_text = ''Error: Unknown tool: no_such_tool'', isError = True\<rparr>)"
    by simp
  from U h2 have r2: "handle_http_tool (\<lambda>v. []) ?be ?c ''no_such_tool'' (Obj [])
       = ([], Inr (Reply_error 404 ''Tool not found''))"
    by simp
  from L h4 h5 m have r3: "snd (handle_http_tool (\<lambda>v. []) ?be ?c ''list_projects'' (Obj []))
       = Inr (Reply_error 500 ''timeout'')"
    by simp
  from h1 h2 h3 h4 h5 r0 r1 r2 r3 show ?thesis by simp
qed

section \<open>Confirmation blocks of the mutations\<close>

lemma string_of_int_42: "string_of_int 42 = ''42''"
  by (simp add: string_of_int_def digits_of.simps [of 42] digits_of_small digit_char_def)

lemma create_block:
  assumes "get_prop raw ''id'' = Inr i" and "get_prop raw ''url'' = Inr u"
  shows "mcp_format ''create_work_item'' raw args =
     Inr (check_mark @ '' Work item created successfully!'' @ nl
          @ ''**ID**: '' @ to_str i @ nl
          @ ''**Type**: '' @ to_str (opt_arg args ''workItemType'') @ nl
          @ ''**Title**: '' @ to_str (opt_arg args ''title'') @ nl
          @ ''**URL**: '' @ to_str u @ nl
          @ (if truthy (opt_arg args ''description'')
             then ''**Description**: '' @ to_str (opt_arg args ''description'') else [])
          @ nl)"
  using assms
  by (simp add: mcp_format_def Let_def template_def lit_def interp_def val_def)

lemma update_block:
  assumes "get_prop raw ''id'' = Inr i" and "object_entries (opt_arg args ''fields'') = Inr es"
  shows "mcp_format ''update_work_item'' raw args =
     Inr (check_mark @ '' Work item '' @ to_str i @ '' updated successfully!'' @ nl
          @ ''**Updated fields**:'' @ nl
          @ join nl (map field_line es) @ nl
          @ (if truthy (opt_arg args ''comment'')
             then ''**Comment**: '' @ to_str (opt_arg args ''comment'') else []))"
  using assms
  by (simp add: mcp_format_def Let_def template_def lit_def interp_def val_def)

lemma assign_block:
  assumes "get_prop raw ''id'' = Inr i"
  shows "mcp_format ''assign_work_item'' raw args =
     Inr (check_mark @ '' Work item '' @ to_str i @ '' assigned to ''
          @ to_str (opt_arg args ''assignee'') @ '' successfully!'' @ nl
          @ (if truthy (opt_arg args ''comment'')
             then ''**Comment**: '' @ to_str (opt_arg args ''comment'') else []))"
  using assms
  by (simp add: mcp_format_def Let_def template_def lit_def interp_def val_def)

lemma create_bug_login_issue:
  assumes "be (Post (''/'' @ this_project c @ ''/_apis/wit/workitems/$Bug?api-version=7.1'')
                 (Arr [patch_op (''System.Title'', Str ''Login issue'')])) = Inr (Obj [(''id'', Num 42)])"
  shows "handle_call_tool be c ''create_work_item''
           (Obj [(''workItemType'', Str ''Bug''), (''title'', Str ''Login issue'')])
     = ([Post (''/'' @ this_project c @ ''/_apis/wit/workitems/$Bug?api-version=7.1'')
           (Arr [patch_op (''System.Title'', Str ''Login issue'')])],
        Inr \<lparr>content_text = check_mark @ '' Work item created successfully!'' @ nl
               @ ''**ID**: 42'' @ nl @ ''**Type**: Bug'' @ nl @ ''**Title**: Login issue'' @ nl
               @ ''**URL**: undefined'' @ nl @ nl,
             isError = False\<rparr>)"
  using assms
  by (simp add: handle_call_tool_def call_tool_body_def mcp_call_def Let_def opt_arg_Obj
        createWorkItem_def spread_def io_defs create_block [where i = "Num 42" and u = Undefined]
        string_of_int_42)

text \<open>
  Claim C8 as stated fails in two places. \<open>update_work_item\<close> called with the comment
  \<open>''\<close> has a comment argument and renders no comment line; \<open>create_work_item\<close>
  called with a comment renders no comment line either, since its case never reads one.
\<close>

theorem supplied_comment_without_comment_line:
  "opt_arg (Obj [(''id'', Num 5), (''fields'', Obj [(''System.Title'', Str ''New'')]),
                 (''comment'', Str [])]) ''comment'' = Str []
   \<and> mcp_format ''update_work_item'' (Obj [(''id'', Num 5)])
         (Obj [(''id'', Num 5), (''fields'', Obj [(''System.Title'', Str ''New'')]),
               (''comment'', Str [])])
       = Inr (check_mark @ '' Work item 5 updated successfully!'' @ nl
              @ ''**Updated fields**:'' @ nl @ ''- **System.Title**: New'' @ nl)
   \<and> \<not> has_comment_line (check_mark @ '' Work item 5 updated successfully!'' @ nl
              @ ''**Updated fields**:'' @ nl @ ''- **System.Title**: New'' @ nl)
   \<and> opt_arg (Obj [(''workItemType'', Str ''Bug''), (''title'', Str ''Login issue''),
                   (''comment'', Str ''urgent'')]) ''comment'' = Str ''urgent''
   \<and> mcp_format ''create_work_item'' (Obj [(''id'', Num 42), (''url'', Str ''u'')])
         (Obj [(''workItemType'', Str ''Bug''), (''title'', Str ''Login issue''),
               (''comment'', Str ''urgent'')])
       = Inr (check_mark @ '' Work item created successfully!'' @ nl
              @ ''**ID**: 42'' @ nl @ ''**Type**: Bug'' @ nl @ ''**Title**: Login issue'' @ nl
              @ ''**URL**: u'' @ nl @ nl)
   \<and> \<not> has_comment_line (check_mark @ '' Work item created successfully!'' @ nl
              @ ''**ID**: 42'' @ nl @ ''**Type**: Bug'' @ nl @ ''**Title**: Login issue'' @ nl
              @ ''**URL**: u'' @ nl @ nl)"
  by (simp add: opt_arg_Obj has_comment_line_def check_mark_def nl_def string_of_int_5
        string_of_int_42 object_entries_def nullish_def field_line_def
        update_block [where i = "Num 5" and es = "[(''System.Title'', Str ''New'')]"]
        create_block [where i = "Num 42" and u = "Str ''u''"])

text \<open>
  Claim C8 as amended. Each mutation renders a confirmation block that starts with the
  success marker and carries the identifiers: for \<open>create_work_item\<close> the lines ID,
  Type, Title and URL, then a Description line exactly when \<open>description\<close> is truthy
  (and an empty line otherwise), and no comment line at all; for \<open>update_work_item\<close> the
  id and one line per updated field, for \<open>assign_work_item\<close> the id and the assignee,
  both ending with the line \<open>**Comment**: <comment>\<close> exactly when \<open>comment\<close> is truthy,
  that is supplied and not empty, and with nothing otherwise. \<open>create_work_item\<close> with
  type Bug and title Login issue, against a backend echoing \<open>{id: 42}\<close>, yields the block
  with ID 42, Type Bug, Title Login issue and no comment line.
\<close>

theorem mutation_confirmation_blocks:
  "(get_prop raw ''id'' = Inr i \<and> get_prop raw ''url'' = Inr u \<longrightarrow>
      mcp_format ''create_work_item'' raw args =
        Inr (check_mark @ '' Work item created successfully!'' @ nl
             @ ''**ID**: '' @ to_str i @ nl
             @ ''**Type**: '' @ to_str (opt_arg args ''workItemType'') @ nl
             @ ''**Title**: '' @ to_str (opt_arg args ''title'') @ nl
             @ ''**URL**: '' @ to_str u @ nl
             @ (if truthy (opt_arg args ''description'')
                then ''**Description**: '' @ to_str (opt_arg args ''description'') else [])
             @ nl))
   \<and> (get_prop raw ''id'' = Inr i \<and> object_entries (opt_arg args ''fields'') = Inr es \<longrightarrow>
      mcp_format ''update_work_item'' raw args =
        Inr (check_mark @ '' Work item '' @ to_str i @ '' updated successfully!'' @ nl
             @ ''**Updated fields**:'' @ nl
             @ join nl (map field_line es) @ nl
             @ (if truthy (opt_arg args ''comment'')
                then ''**Comment**: '' @ to_str (opt_arg args ''comment'') else [])))
   \<and> (get_prop raw ''id'' = Inr i \<longrightarrow>
      mcp_format ''assign_work_item'' raw args =
        Inr (check_mark @ '' Work item '' @ to_str i @ '' assigned to ''
             @ to_str (opt_arg args ''assignee'') @ '' successfully!'' @ nl
             @ (if truthy (opt_arg args ''comment'')
                then ''**Comment**: '' @ to_str (opt_arg args ''comment'') else [])))
   \<and> (be (Post (''/'' @ this_project c @ ''/_apis/wit/workitems/$Bug?api-version=7.1'')
              (Arr [patch_op (''System.Title'', Str ''Login issue'')])) = Inr (Obj [(''id'', Num 42)])
        \<longrightarrow>
      handle_call_tool be c ''create_work_item''
          (Obj [(''workItemType'', Str ''Bug''), (''title'', Str ''Login issue'')])
        = ([Post (''/'' @ this_project c @ ''/_apis/wit/workitems/$Bug?api-version=7.1'')
              (Arr [patch_op (''System.Title'', Str ''Login issue'')])],
           Inr \<lparr>content_text = check_mark @ '' Work item created successfully!'' @ nl
                  @ ''**ID**: 42'' @ nl @ ''**Type**: Bug'' @ nl @ ''**Title**: Login issue'' @ nl
                  @ ''**URL**: undefined'' @ nl @ nl,
                isError = False\<rparr>)
        \<and> \<not> has_comment_line (check_mark @ '' Work item created successfully!'' @ nl
                  @ ''**ID**: 42'' @ nl @ ''**Type**: Bug'' @ nl @ ''**Title**: Login issue'' @ nl
                  @ ''**URL**: undefined'' @ nl @ nl))"
proof (intro conjI impI)
  assume "get_prop raw ''id'' = Inr i \<and> get_prop raw ''url'' = Inr u"
  then show "mcp_format ''create_work_item'' raw args =
        Inr (check_mark @ '' Work item created successfully!'' @ nl
             @ ''**ID**: '' @ to_str i @ nl
             @ ''**Type**: '' @ to_str (opt_arg args ''workItemType'') @ nl
             @ ''**Title**: '' @ to_str (opt_arg args ''title'') @ nl
             @ ''**URL**: '' @ to_str u @ nl
             @ (if truthy (opt_arg args ''description'')
                then ''**Description**: '' @ to_str (opt_arg args ''description'') else [])
             @ nl)"
    using create_block by blast
next
  assume "get_prop raw ''id'' = Inr i \<and> object_entries (opt_arg args ''fields'') = Inr es"
  then show "mcp_format ''update_work_item'' raw args =
        Inr (check_mark @ '' Work item '' @ to_str i @ '' updated successfully!'' @ nl
             @ ''**Updated fields**:'' @ nl
             @ join nl (map field_line es) @ nl
             @ (if truthy (opt_arg args ''comment'')
                then ''**Comment**: '' @ to_str (opt_arg args ''comment'') else []))"
    using update_block by blast
next
  assume "get_prop raw ''id'' = Inr i"
  then show "mcp_format ''assign_work_item'' raw args =
        Inr (check_mark @ '' Work item '' @ to_str i @ '' assigned to ''
             @ to_str (opt_arg args ''assignee'') @ '' successfully!'' @ nl
             @ (if truthy (opt_arg args ''comment'')
                then ''**Comment**: '' @ to_str (opt_arg args ''comment'') else []))"
    by (rule assign_block)
next
  assume "be (Post (''/'' @ this_project c @ ''/_apis/wit/workitems/$Bug?api-version=7.1'')
              (Arr [patch_op (''System.Title'', Str ''Login issue'')])) = Inr (Obj [(''id'', Num 42)])"
  then show "handle_call_tool be c ''create_work_item''
          (Obj [(''workItemType'', Str ''Bug''), (''title'', Str ''Login issue'')])
        = ([Post (''/'' @ this_project c @ ''/_apis/wit/workitems/$Bug?api-version=7.1'')
              (Arr [patch_op (''System.Title'', Str ''Login issue'')])],
           Inr \<lparr>content_text = check_mark @ '' Work item created successfully!'' @ nl
                  @ ''**ID**: 42'' @ nl @ ''**Type**: Bug'' @ nl @ ''**Title**: Login issue'' @ nl
                  @ ''**URL**: undefined'' @ nl @ nl,
                isError = False\<rparr>)"
    by (rule create_bug_login_issue)
next
  show "\<not> has_comment_line (check_mark @ '' Work item created successfully!'' @ nl
                  @ ''**ID**: 42'' @ nl @ ''**Type**: Bug'' @ nl @ ''**Title**: Login issue'' @ nl
                  @ ''**URL**: undefined'' @ nl @ nl)"
    by (simp add: has_comment_line_def check_mark_def nl_def)
qed

theorem mutation_confirmation_blocks_witness:
  "get_prop (Obj [(''id'', Num 42), (''url'', Str ''u'')]) ''id'' = Inr (Num 42)
   \<and> get_prop (Obj [(''id'', Num 42), (''url'', Str ''u'')]) ''url'' = Inr (Str ''u'')
   \<and> mcp_format ''create_work_item'' (Obj [(''id'', Num 42), (''url'', Str ''u'')])
         (Obj [(''workItemType'', Str ''Bug''), (''title'', Str ''Login issue''),
               (''description'', Str ''Steps'')])
       = Inr (check_mark @ '' Work item created successfully!'' @ nl
              @ ''**ID**: 42'' @ nl @ ''**Type**: Bug'' @ nl @ ''**Title**: Login issue'' @ nl
              @ ''**URL**: u'' @ nl @ ''**Description**: Steps'' @ nl)
   \<and> get_prop (Obj [(''id'', Num 5)]) ''id'' = Inr (Num 5)
   \<and> object_entries (opt_arg (Obj [(''id'', Num 5), (''fields'', Obj [(''System.Title'', Str ''New'')]),
                                   (''comment'', Str ''fixed'')]) ''fields'')
       = Inr [(''System.Title'', Str ''New'')]
   \<and> mcp_format ''update_work_item'' (Obj [(''id'', Num 5)])
         (Obj [(''id'', Num 5), (''fields'', Obj [(''System.Title'', Str ''New'')]),
               (''comment'', Str ''fixed'')])
       = Inr (check_mark @ '' Work item 5 updated successfully!'' @ nl
              @ ''**Updated fields**:'' @ nl @ ''- **System.Title**: New'' @ nl
              @ ''**Comment**: fixed'')
   \<and> mcp_format ''assign_work_item'' (Obj [(''id'', Num 5)])
         (Obj [(''id'', Num 5), (''assignee'', Str ''Ada'')])
       = Inr (check_mark @ '' Work item 5 assigned to Ada successfully!'' @ nl)
   \<and> handle_call_tool (\<lambda>rq. Inr (Obj [(''id'', Num 42)]))
         \<lparr>organization = ''org'', this_project = ''P'', encodeURIComponent = id,
          urlSearchParams = (\<lambda>ps. [])\<rparr> ''create_work_item''
         (Obj [(''workItemType'', Str ''Bug''), (''title'', Str ''Login issue'')])
       = ([Post ''/P/_apis/wit/workitems/$Bug?api-version=7.1''
             (Arr [patch_op (''System.Title'', Str ''Login issue'')])],
          Inr \<lparr>content_text = check_mark @ '' Work item created successfully!'' @ nl
                 @ ''**ID**: 42'' @ nl @ ''**Type**: Bug'' @ nl @ ''**Title**: Login issue'' @ nl
                 @ ''**URL**: undefined'' @ nl @ nl,
               isError = False\<rparr>)"
proof -
  let ?be = "(\<lambda>rq. Inr (Obj [(''id'', Num 42)])) :: backend"
  let ?c = "\<lparr>organization = ''org'', this_project = ''P'', encodeURIComponent = id,
             urlSearchParams = (\<lambda>ps. [])\<rparr>"
  let ?upd = "Obj [(''id'', Num 5), (''fields'', Obj [(''System.Title'', Str ''New'')]),
                   (''comment'', Str ''fixed'')]"
  let ?asg = "Obj [(''id'', Num 5), (''assignee'', Str ''Ada'')]"
  note U = mutation_confirmation_blocks
    [where raw = "Obj [(''id'', Num 5)]" and i = "Num 5" and u = Undefined and args = ?upd
       and es = "[(''System.Title'', Str ''New'')]" and be = ?be and c = ?c]
  note A = mutation_confirmation_blocks
    [where raw = "Obj [(''id'', Num 5)]" and i = "Num 5" and u = Undefined and args = ?asg
       and es = "[]" and be = ?be and c = ?c]
  let ?crt = "Obj [(''workItemType'', Str ''Bug''), (''title'', Str ''Login issue''),
                   (''description'', Str ''Steps'')]"
  note K = mutation_confirmation_blocks
    [where raw = "Obj [(''id'', Num 42), (''url'', Str ''u'')]" and i = "Num 42" and u = "Str ''u''"
       and args = ?crt and es = "[]" and be = ?be and c = ?c]
  have h0: "get_prop (Obj [(''id'', Num 42), (''url'', Str ''u'')]) ''id'' = Inr (Num 42)
            \<and> get_prop (Obj [(''id'', Num 42), (''url'', Str ''u'')]) ''url'' = Inr (Str ''u'')"
    by simp
  from K [THEN conjunct1, rule_format, OF h0]
  have r0: "mcp_format ''create_work_item'' (Obj [(''id'', Num 42), (''url'', Str ''u'')]) ?crt
       = Inr (check_mark @ '' Work item created successfully!'' @ nl
              @ ''**ID**: 42'' @ nl @ ''**Type**: Bug'' @ nl @ ''**Title**: Login issue'' @ nl
              @ ''**URL**: u'' @ nl @ ''**Description**: Steps'' @ nl)"
    by (simp add: opt_arg_Obj string_of_int_42)
  have h1: "get_prop (Obj [(''id'', Num 5)]) ''id'' = Inr (Num 5)"
    by simp
  have h2: "object_entries (opt_arg ?upd ''fields'') = Inr [(''System.Title'', Str ''New'')]"
    by (simp add: opt_arg_Obj object_entries_def nullish_def)
  have h3: "?be (Post (''/'' @ this_project ?c @ ''/_apis/wit/workitems/$Bug?api-version=7.1'')
                   (Arr [patch_op (''System.Title'', Str ''Login issue'')])) = Inr (Obj [(''id'', Num 42)])"
    by simp
  from U [THEN conjunct2, THEN conjunct1, rule_format, OF conjI [OF h1 h2]]
  have r1: "mcp_format ''update_work_item'' (Obj [(''id'', Num 5)]) ?upd
       = Inr (check_mark @ '' Work item 5 updated successfully!'' @ nl
              @ ''**Updated fields**:'' @ nl @ ''- **System.Title**: New'' @ nl
              @ ''**Comment**: fixed'')"
    by (simp add: opt_arg_Obj string_of_int_5 field_line_def)
  from A [THEN conjunct2, THEN conjunct2, THEN conjunct1, rule_format, OF h1]
  have r2: "mcp_format ''assign_work_item'' (Obj [(''id'', Num 5)]) ?asg
       = Inr (check_mark @ '' Work item 5 assigned to Ada successfully!'' @ nl)"
    by (simp add: opt_arg_Obj string_of_int_5)
  from U [THEN conjunct2, THEN conjunct2, THEN conjunct2, rule_format, OF h3]
  have r3: "handle_call_tool ?be ?c ''create_work_item''
         (Obj [(''workItemType'', Str ''Bug''), (''title'', Str ''Login issue'')])
       = ([Post ''/P/_apis/wit/workitems/$Bug?api-version=7.1''
             (Arr [patch_op (''System.Title'', Str ''Login issue'')])],
          Inr \<lparr>content_text = check_mark @ '' Work item created successfully!'' @ nl
                 @ ''**ID**: 42'' @ nl @ ''**Type**: Bug'' @ nl @ ''**Title**: Login issue'' @ nl
                 @ ''**URL**: undefined'' @ nl @ nl,
               isError = False\<rparr>)"
    by simp
  from h0 r0 h1 h2 r1 r2 r3 show ?thesis by simp
qed

section \<open>The three call sites render differently\<close>

text \<open>
  The endpoint hands \<open>args.top\<close> to the client as it is: a supplied 0 stays 0, where
  the tool-call handler defaults it to 10.
\<close>

lemma http_call_passes_top_through:
  "fst (http_call be c ''get_builds'' (Obj [(''top'', Num 0)])) =
     [Get (''/'' @ this_project c @ ''/_apis/build/builds?api-version=7.1&$top=0'')]"
proof -
  have "fst (getBuilds be c Undefined (Num 0)) =
     [Get (''/'' @ this_project c @ ''/_apis/build/builds?api-version=7.1&$top=0'')]"
    by (cases "be (Get (''/'' @ this_project c @ ''/_apis/build/builds?api-version=7.1&$top=0''))")
       (auto simp add: getBuilds_def default_param_def io_defs string_of_int_def digits_of_small
          digit_char_def split: sum.splits)
  then show ?thesis
    by (simp add: http_call_def with_arg_def io_bind_def io_lift_def split: prod.splits)
qed

text \<open>
  Claim C9, at an input where the code departs from it. For \<open>query_work_items\<close>, the
  empty payload and the same arguments, the tool-call handler renders one message and the
  two HTTP endpoints another.
\<close>

theorem query_work_items_empty_message_differs:
  "mcp_format ''query_work_items'' (Arr []) (Obj [(''wiql'', Str ''SELECT [System.Id] FROM WorkItems'')])
     = Inr ''No work items match the query.''
   \<and> http_format stringify ''query_work_items'' (Arr [])
         (Obj [(''wiql'', Str ''SELECT [System.Id] FROM WorkItems'')])
     = Inr ''No work items found.''
   \<and> chat_format stringify ''query_work_items'' (Arr [])
         (Obj [(''wiql'', Str ''SELECT [System.Id] FROM WorkItems'')])
     = Inr ''No work items found.''"
  by (simp add: mcp_format_def http_format_def chat_format_def render_list_def)

section \<open>Defaulting of \<open>top\<close> and of the project\<close>

lemma proj_of_empty: "proj_of c (Str []) = Str (this_project c)"
  by (simp add: proj_of_def)

lemma proj_of_default: "proj_of c (Str (this_project c)) = Str (this_project c)"
  by (simp add: proj_of_def)



lemma empty_project_falls_back:
  "getRepositories be c (Str [])
       = getRepositories be c (Str (this_project c))
   \<and> getBranches be c repositoryId (Str [])
       = getBranches be c repositoryId (Str (this_project c))
   \<and> getPullRequests be c repositoryId (Str []) tp status
       = getPullRequests be c repositoryId (Str (this_project c)) tp status
   \<and> getPullRequestById be c repositoryId pullRequestId (Str [])
       = getPullRequestById be c repositoryId pullRequestId (Str (this_project c))
   \<and> searchCode be c searchText (Str []) repository tp
       = searchCode be c searchText (Str (this_project c)) repository tp
   \<and> searchWorkItems be c searchText (Str []) tp
       = searchWorkItems be c searchText (Str (this_project c)) tp
   \<and> getWikis be c (Str [])
       = getWikis be c (Str (this_project c))
   \<and> getWikiPageContent be c wikiIdentifier (Str []) path
       = getWikiPageContent be c wikiIdentifier (Str (this_project c)) path
   \<and> getWorkItemTypes be c (Str [])
       = getWorkItemTypes be c (Str (this_project c))
   \<and> getIterations be c (Str [])
       = getIterations be c (Str (this_project c))
   \<and> getBuildDefinitions be c (Str [])
       = getBuildDefinitions be c (Str (this_project c))
   \<and> getReleaseDefinitions be c (Str [])
       = getReleaseDefinitions be c (Str (this_project c))
   \<and> getQueries be c (Str [])
       = getQueries be c (Str (this_project c))
   \<and> getWorkItemRevisions be c ident (Str [])
       = getWorkItemRevisions be c ident (Str (this_project c))
   \<and> getWorkItemLinks be c ident (Str [])
       = getWorkItemLinks be c ident (Str (this_project c))
   \<and> createPullRequest be c repositoryId sourceBranch targetBranch title description (Str [])
       = createPullRequest be c repositoryId sourceBranch targetBranch title description (Str (this_project c))
   \<and> getCommits be c repositoryId (Str []) tp
       = getCommits be c repositoryId (Str (this_project c)) tp
   \<and> getFileContent be c repositoryId path (Str [])
       = getFileContent be c repositoryId path (Str (this_project c))
   \<and> getAreas be c (Str [])
       = getAreas be c (Str (this_project c))
   \<and> getWorkItemCategories be c (Str [])
       = getWorkItemCategories be c (Str (this_project c))
   \<and> getDashboards be c (Str [])
       = getDashboards be c (Str (this_project c))
   \<and> getPipelines be c (Str [])
       = getPipelines be c (Str (this_project c))
   \<and> getVariableGroups be c (Str [])
       = getVariableGroups be c (Str (this_project c))
   \<and> getServiceEndpoints be c (Str [])
       = getServiceEndpoints be c (Str (this_project c))
   \<and> getTags be c (Str [])
       = getTags be c (Str (this_project c))
   \<and> getWorkItemFields be c (Str [])
       = getWorkItemFields be c (Str (this_project c))
   \<and> getWorkItemUpdates be c ident (Str [])
       = getWorkItemUpdates be c ident (Str (this_project c))
   \<and> getWorkItemAttachments be c ident (Str [])
       = getWorkItemAttachments be c ident (Str (this_project c))
   \<and> getWorkItemComments be c ident (Str [])
       = getWorkItemComments be c ident (Str (this_project c))
   \<and> getWorkItemRelations be c ident (Str [])
       = getWorkItemRelations be c ident (Str (this_project c))"
  by (simp_all only: getRepositories_def getBranches_def getPullRequests_def getPullRequestById_def searchCode_def searchWorkItems_def getWikis_def getWikiPageContent_def getWorkItemTypes_def getIterations_def getBuildDefinitions_def getReleaseDefinitions_def getQueries_def getWorkItemRevisions_def getWorkItemLinks_def createPullRequest_def getCommits_def getFileContent_def getAreas_def getWorkItemCategories_def getDashboards_def getPipelines_def getVariableGroups_def getServiceEndpoints_def getTags_def getWorkItemFields_def getWorkItemUpdates_def getWorkItemAttachments_def getWorkItemComments_def getWorkItemRelations_def
        proj_of_empty proj_of_default simp_thms)

lemma getRepositories_empty_project:
  "fst (getRepositories be c (Str [])) =
     [Get (''/'' @ this_project c @ ''/_apis/git/repositories?api-version=7.1'')]"
  by (simp add: getRepositories_def proj_of_empty fst_fetch_prop_value)






end
